theory Spec2Isabelle
  imports Main "HOL-Library.Word" "HOL-Library.Signed_Division" "HOL-Library.Sublist"
begin

unbundle bit_operations_syntax

section \<open>Types, syntax tables and AST nodes\<close>

text \<open>
  The type table, the identifier table, the string pool and the node store of the
  compiler (\<^verbatim>\<open>syntax.h\<close>, \<^verbatim>\<open>tree.h\<close>, \<^verbatim>\<open>AST.h\<close>) are used by
  \<^verbatim>\<open>builder.c\<close> and \<^verbatim>\<open>llvmgen.c\<close> through accessor functions only. The
  datatypes below give those accessors something to read.

  Modelled from the spec: a type is a closed sum; composite types carry their structure
  and each distinct composite type has one identity, so a type is represented by its
  structure. The head constructor is what \<^verbatim>\<open>type_get_class\<close> returns.
\<close>

datatype type_t =
    TYPE_VARARG
  | TYPE_NULL_POINTER
  | TYPE_FILE
  | TYPE_VOID
  | TYPE_BOOLEAN
  | TYPE_FLOATING
  | TYPE_CHARACTER
  | TYPE_INTEGER
  | TYPE_ENUM nat
  | TYPE_ENUM_FIELD nat
  | TYPE_POINTER type_t
  | TYPE_ARRAY type_t
  | TYPE_STRUCTURE "(nat \<times> type_t) list"
  | TYPE_FUNCTION type_t "type_t list"

fun type_is_floating :: "type_t \<Rightarrow> bool" where
  "type_is_floating t = (t = TYPE_FLOATING)"

fun type_is_void :: "type_t \<Rightarrow> bool" where
  "type_is_void t = (t = TYPE_VOID)"

fun type_is_null_pointer :: "type_t \<Rightarrow> bool" where
  "type_is_null_pointer t = (t = TYPE_NULL_POINTER)"

fun type_is_enum :: "type_t \<Rightarrow> bool" where
  "type_is_enum (TYPE_ENUM _) = True"
| "type_is_enum _ = False"

fun type_is_enum_field :: "type_t \<Rightarrow> bool" where
  "type_is_enum_field (TYPE_ENUM_FIELD _) = True"
| "type_is_enum_field _ = False"

fun type_is_pointer :: "type_t \<Rightarrow> bool" where
  "type_is_pointer (TYPE_POINTER _) = True"
| "type_is_pointer _ = False"

fun type_is_array :: "type_t \<Rightarrow> bool" where
  "type_is_array (TYPE_ARRAY _) = True"
| "type_is_array _ = False"

fun type_is_structure :: "type_t \<Rightarrow> bool" where
  "type_is_structure (TYPE_STRUCTURE _) = True"
| "type_is_structure _ = False"

text \<open>
  The tables that stay constant while one expression is built or one function is
  emitted. Which types count as integer and which type is the string type is decided in
  \<^verbatim>\<open>syntax.c\<close>, so both are fields here, as are the string pool (an entry is the
  list of the code points of the string, without the terminating zero) and the
  identifier table.
\<close>

record syntax_t =
  type_is_integer :: "type_t \<Rightarrow> bool"
  type_is_string :: "type_t \<Rightarrow> bool"
  type_string :: type_t
  string_get :: "nat \<Rightarrow> nat list"
  strings_length :: "nat \<Rightarrow> nat"
  ident_get_type :: "nat \<Rightarrow> type_t"
  ident_is_local :: "nat \<Rightarrow> bool"
  ref_main :: nat

datatype expression_t =
    EXPR_IDENTIFIER
  | EXPR_LITERAL
  | EXPR_SUBSCRIPT
  | EXPR_CALL
  | EXPR_MEMBER
  | EXPR_CAST
  | EXPR_UNARY
  | EXPR_BINARY
  | EXPR_TERNARY
  | EXPR_INITIALIZER
  | EXPR_INLINE
  | EXPR_INVALID

datatype category_t = LVALUE | RVALUE

type_synonym location = "nat \<times> nat"

text \<open>
  Modelled from the spec: nodes live in one append-only arena and a node carries a class
  tag, its arguments (type, category, then the payload, then the source span) and an
  ordered child list; a distinguished broken node is the result of a construction that
  failed. A node of the model is its arena index together with what the accessors read
  from it. The payload is what stands between the category and the source span: the
  \<^verbatim>\<open>item_t\<close> arguments that hold the value of a literal, or the operator of a
  binary expression.
  The broken node has none of the expression classes.
\<close>

datatype binary_t =
    BIN_MUL | BIN_DIV | BIN_REM | BIN_ADD | BIN_SUB | BIN_SHL | BIN_SHR
  | BIN_LT | BIN_GT | BIN_LE | BIN_GE | BIN_EQ | BIN_NE
  | BIN_AND | BIN_XOR | BIN_OR | BIN_LOG_AND | BIN_LOG_OR
  | BIN_ASSIGN | BIN_REM_ASSIGN | BIN_SHL_ASSIGN | BIN_SHR_ASSIGN
  | BIN_AND_ASSIGN | BIN_XOR_ASSIGN | BIN_OR_ASSIGN
  | BIN_MUL_ASSIGN | BIN_DIV_ASSIGN | BIN_ADD_ASSIGN | BIN_SUB_ASSIGN
  | BIN_COMMA

datatype 'v payload_t = Items "'v list" | Operator binary_t

datatype 'v node =
    node_broken
  | Node nat expression_t type_t category_t "'v payload_t" "'v node list" location

fun node_is_correct :: "'v node \<Rightarrow> bool" where
  "node_is_correct node_broken = False"
| "node_is_correct (Node i c t g p ch l) = True"

fun expression_get_class :: "'v node \<Rightarrow> expression_t" where
  "expression_get_class node_broken = EXPR_INVALID"
| "expression_get_class (Node i c t g p ch l) = c"

primrec node_get_index :: "'v node \<Rightarrow> nat" where
  "node_get_index (Node i c t g p ch l) = i"

primrec expression_get_type :: "'v node \<Rightarrow> type_t" where
  "expression_get_type (Node i c t g p ch l) = t"

primrec node_get_location :: "'v node \<Rightarrow> location" where
  "node_get_location (Node i c t g p ch l) = l"

primrec node_get_payload :: "'v node \<Rightarrow> 'v list" where
  "node_get_payload (Node i c t g p ch l) = (case p of Items vs \<Rightarrow> vs | Operator _ \<Rightarrow> [])"

primrec node_get_children :: "'v node \<Rightarrow> 'v node list" where
  "node_get_children (Node i c t g p ch l) = ch"

text \<open>
  All indices of a subtree: what \<^verbatim>\<open>node_remove\<close> marks as deleted.
\<close>

fun subtree_indices :: "'v node \<Rightarrow> nat set" where
  "subtree_indices node_broken = {}"
| "subtree_indices (Node i c t g p ch l) = insert i (\<Union> (set (map subtree_indices ch)))"

section \<open>The AST builder\<close>

datatype err_t =
    printf_fst_not_string
  | too_many_printf_args
  | wrong_printf_argument_amount
  | expected_format_specifier
  | unknown_format_specifier
  | wrong_init
  | wrong_init_in_actparam

text \<open>
  The part of the builder's context that changes: the size of the node arena (the index
  the next node gets), the indices that \<^verbatim>\<open>node_remove\<close> has deleted, and the
  diagnostics reported so far, each with its location.
\<close>

record builder =
  tree_size :: nat
  removed :: "nat set"
  reports :: "(location \<times> err_t) list"

definition semantic_error :: "builder \<Rightarrow> location \<Rightarrow> err_t \<Rightarrow> builder" where
  "semantic_error bldr loc num = bldr\<lparr>reports := reports bldr @ [(loc, num)]\<rparr>"

definition node_remove :: "'v node \<Rightarrow> builder \<Rightarrow> builder" where
  "node_remove nd bldr = bldr\<lparr>removed := removed bldr \<union> subtree_indices nd\<rparr>"

text \<open>
  Modelled from the spec: the expression constructors are thin wrappers over the node
  store that stamp the class and the arguments. Each allocates the next arena index.
\<close>

definition node_create ::
  "expression_t \<Rightarrow> type_t \<Rightarrow> category_t \<Rightarrow> 'v payload_t \<Rightarrow> 'v node list \<Rightarrow> location
    \<Rightarrow> builder
    \<Rightarrow> 'v node \<times> builder" where
  "node_create c t g p ch loc bldr =
     (Node (tree_size bldr) c t g p ch loc, bldr\<lparr>tree_size := Suc (tree_size bldr)\<rparr>)"

definition expression_cast ::
  "type_t \<Rightarrow> type_t \<Rightarrow> 'v node \<Rightarrow> location \<Rightarrow> builder \<Rightarrow> 'v node \<times> builder" where
  "expression_cast target_type source_type expr loc bldr =
     node_create EXPR_CAST target_type RVALUE (Items []) [expr] loc bldr"

definition expression_call ::
  "type_t \<Rightarrow> 'v node \<Rightarrow> 'v node list \<Rightarrow> location \<Rightarrow> builder \<Rightarrow> 'v node \<times> builder" where
  "expression_call t callee args loc bldr =
     node_create EXPR_CALL t RVALUE (Items []) (callee # args) loc bldr"

primrec expression_initializer_set_type :: "'v node \<Rightarrow> type_t \<Rightarrow> 'v node" where
  "expression_initializer_set_type (Node i c t g p ch l) t' = Node i c t' g p ch l"

primrec expression_initializer_set_subexprs :: "'v node \<Rightarrow> 'v node list \<Rightarrow> 'v node" where
  "expression_initializer_set_subexprs (Node i c t g p ch l) ch' = Node i c t g p ch' l"

text \<open>
  An \<^verbatim>\<open>item_t\<close> is a signed machine integer; its width is fixed where
  \<^verbatim>\<open>item_t\<close> is declared, so the model keeps the width \<open>'w\<close> open and the
  payload of a node is a list of \<open>'w word\<close>. A \<^verbatim>\<open>double\<close> is kept as its 64
  bits. What the C compiler and the machine do with doubles (conversion from an integer,
  the storage of a double in the arguments of a node, arithmetic and comparison) is a
  parameter of the model.
\<close>

type_synonym double = "64 word"

record 'v floating_t =
  double_of_item :: "'v \<Rightarrow> double"
  node_set_arg_double :: "double \<Rightarrow> 'v list"
  node_get_arg_double :: "'v list \<Rightarrow> double"
  double_mul :: "double \<Rightarrow> double \<Rightarrow> double"
  double_div :: "double \<Rightarrow> double \<Rightarrow> double"
  double_add :: "double \<Rightarrow> double \<Rightarrow> double"
  double_sub :: "double \<Rightarrow> double \<Rightarrow> double"
  double_lt :: "double \<Rightarrow> double \<Rightarrow> bool"
  double_gt :: "double \<Rightarrow> double \<Rightarrow> bool"
  double_le :: "double \<Rightarrow> double \<Rightarrow> bool"
  double_ge :: "double \<Rightarrow> double \<Rightarrow> bool"
  double_eq :: "double \<Rightarrow> double \<Rightarrow> bool"
  double_ne :: "double \<Rightarrow> double \<Rightarrow> bool"

text \<open>
  \<^verbatim>\<open>expression_literal_get_integer\<close> reads argument 2 of a literal, the first item
  of its payload. \<^verbatim>\<open>build_cast_expression\<close> shows the layout of a literal (type,
  category, payload, begin, end), so for a literal without payload argument 2 is the
  begin of its source span.
\<close>

definition expression_literal_get_integer :: "'w::len word node \<Rightarrow> 'w word" where
  "expression_literal_get_integer nd =
     (case node_get_payload nd of
        v # _ \<Rightarrow> v
      | [] \<Rightarrow> of_nat (fst (node_get_location nd)))"

definition expression_literal_get_floating :: "'w::len word floating_t \<Rightarrow> 'w word node \<Rightarrow> double" where
  "expression_literal_get_floating fp nd = node_get_arg_double fp (node_get_payload nd)"

definition expression_literal_get_string :: "'w::len word node \<Rightarrow> nat" where
  "expression_literal_get_string nd = unat (expression_literal_get_integer nd)"

subsection \<open>Cast insertion\<close>

text \<open>
  \<^verbatim>\<open>build_cast_expression\<close>. In the literal branch \<^verbatim>\<open>node_insert\<close> allocates
  the new literal in the place of the old one, which \<^verbatim>\<open>node_remove\<close> then
  deletes. The source type that \<^verbatim>\<open>expression_cast\<close> records is the type of the
  only child of the cast node.
\<close>

definition build_cast_expression ::
  "'w::len word floating_t \<Rightarrow> type_t \<Rightarrow> 'w word node \<Rightarrow> builder \<Rightarrow> 'w word node \<times> builder" where
  "build_cast_expression fp target_type expr bldr =
     (if \<not> node_is_correct expr then (node_broken, bldr)
      else
        let source_type = expression_get_type expr;
            loc = node_get_location expr
        in if target_type \<noteq> source_type then
             (if expression_get_class expr = EXPR_LITERAL then
                (let v = expression_literal_get_integer expr;
                     (result, bldr1) =
                        node_create EXPR_LITERAL TYPE_FLOATING RVALUE
                          (Items (node_set_arg_double fp (double_of_item fp v))) [] loc bldr
                 in (result, node_remove expr bldr1))
              else expression_cast target_type source_type expr loc bldr)
           else (expr, bldr))"

subsection \<open>Assignment compatibility\<close>

text \<open>
  \<^verbatim>\<open>check_assignment_operands\<close> returns its verdict; it may replace the node its
  argument points to (a cast is inserted) and stamps the type of an initializer list.
  The model returns the verdict, the node now found in the place of \<open>init\<close>, and the
  builder. The two loops over the sub-expressions of an initializer list are
  \<open>check_structure_inits\<close> and \<open>check_array_inits\<close>; both stop at the first
  sub-expression that fails.
\<close>

fun check_assignment_operands ::
    "'w::len word floating_t \<Rightarrow> syntax_t \<Rightarrow> builder \<Rightarrow> type_t \<Rightarrow> 'w word node
      \<Rightarrow> bool \<times> 'w word node \<times> builder"
  and check_structure_inits ::
    "'w word floating_t \<Rightarrow> syntax_t \<Rightarrow> builder \<Rightarrow> (nat \<times> type_t) list \<Rightarrow> 'w word node list
      \<Rightarrow> bool \<times> 'w word node list \<times> builder"
  and check_array_inits ::
    "'w word floating_t \<Rightarrow> syntax_t \<Rightarrow> builder \<Rightarrow> type_t \<Rightarrow> 'w word node list
      \<Rightarrow> bool \<times> 'w word node list \<times> builder"
where
  "check_assignment_operands fp sx bldr expected_type node_broken = (True, node_broken, bldr)"
| "check_assignment_operands fp sx bldr expected_type (Node i c t g p ch loc) =
     (if c = EXPR_INITIALIZER then
        (case expected_type of
           TYPE_STRUCTURE members \<Rightarrow>
             (if length members \<noteq> length ch
              then (False, Node i c t g p ch loc, semantic_error bldr loc wrong_init_in_actparam)
              else (case check_structure_inits fp sx bldr members ch of
                      (ok, ch', bldr') \<Rightarrow>
                        (if ok then (True, Node i c expected_type g p ch' loc, bldr')
                         else (False, Node i c t g p ch' loc, bldr'))))
         | TYPE_ARRAY element_type \<Rightarrow>
             (case check_array_inits fp sx bldr element_type ch of
                (ok, ch', bldr') \<Rightarrow>
                  (if ok then (True, Node i c expected_type g p ch' loc, bldr')
                   else (False, Node i c t g p ch' loc, bldr')))
         | _ \<Rightarrow> (False, Node i c t g p ch loc, semantic_error bldr loc wrong_init))
      else if type_is_floating expected_type \<and> type_is_integer sx t then
        (case build_cast_expression fp expected_type (Node i c t g p ch loc) bldr of
           (init', bldr') \<Rightarrow> (True, init', bldr'))
      else if type_is_enum expected_type \<and> type_is_enum_field t then
        (True, Node i c t g p ch loc, bldr)
      else if type_is_integer sx expected_type \<and> (type_is_enum t \<or> type_is_enum_field t) then
        (True, Node i c t g p ch loc, bldr)
      else if type_is_integer sx expected_type \<and> type_is_integer sx t then
        (True, Node i c t g p ch loc, bldr)
      else if type_is_pointer expected_type \<and> type_is_null_pointer t then
        (True, Node i c t g p ch loc, bldr)
      else if expected_type = t then
        (True, Node i c t g p ch loc, bldr)
      else (False, Node i c t g p ch loc, semantic_error bldr loc wrong_init))"
| "check_structure_inits fp sx bldr ((name, member_type) # members) (subexpr # rest) =
     (case check_assignment_operands fp sx bldr member_type subexpr of
        (ok, subexpr', bldr') \<Rightarrow>
          (if \<not> ok then (False, subexpr' # rest, bldr')
           else (case check_structure_inits fp sx bldr' members rest of
                   (ok', rest', bldr'') \<Rightarrow> (ok', subexpr' # rest', bldr''))))"
| "check_structure_inits fp sx bldr members rest = (True, rest, bldr)"
| "check_array_inits fp sx bldr element_type (subexpr # rest) =
     (case check_assignment_operands fp sx bldr element_type subexpr of
        (ok, subexpr', bldr') \<Rightarrow>
          (if \<not> ok then (False, subexpr' # rest, bldr')
           else (case check_array_inits fp sx bldr' element_type rest of
                   (ok', rest', bldr'') \<Rightarrow> (ok', subexpr' # rest', bldr''))))"
| "check_array_inits fp sx bldr element_type [] = (True, [], bldr)"

subsection \<open>The format string of printf\<close>

definition MAX_PRINTF_ARGS :: nat where
  "MAX_PRINTF_ARGS = 20"

text \<open>
  \<^verbatim>\<open>evaluate_args\<close> walks the format string one UTF-8 symbol at a time
  (\<^verbatim>\<open>utf8_symbol_size\<close>, \<^verbatim>\<open>utf8_convert\<close>), so the model walks the list of its
  code points; the end of the list is the terminating zero. \<open>args\<close> counts the
  placeholders found so far; \<open>format_types\<close> and \<open>placeholders\<close> are the two arrays of
  the caller. The result 0 together with a report is the error return. The code points
  1094, 1083, 1074 and 1089 are the Cyrillic aliases of \<open>i\<close>, \<open>c\<close>, \<open>f\<close> and \<open>s\<close>.
\<close>

fun evaluate_args_from ::
  "syntax_t \<Rightarrow> location \<Rightarrow> nat list \<Rightarrow> nat \<Rightarrow> type_t list \<Rightarrow> nat list \<Rightarrow> builder
    \<Rightarrow> nat \<times> type_t list \<times> nat list \<times> builder" where
  "evaluate_args_from sx loc [] args format_types placeholders bldr =
     (args, format_types, placeholders, bldr)"
| "evaluate_args_from sx loc (c # cs) args format_types placeholders bldr =
     (if c \<noteq> 37 then evaluate_args_from sx loc cs args format_types placeholders bldr
      else
        let specifier = (case cs of [] \<Rightarrow> 0 | s # _ \<Rightarrow> s)
        in if specifier \<noteq> 37 \<and> args = MAX_PRINTF_ARGS
           then (0, format_types, placeholders, semantic_error bldr loc too_many_printf_args)
           else
             let placeholders' =
                   (if specifier \<noteq> 37 then placeholders[args := specifier] else placeholders)
             in if specifier = 105 \<or> specifier = 1094 \<or> specifier = 99 \<or> specifier = 1083
                then evaluate_args_from sx loc (tl cs) (Suc args)
                       (format_types[args := TYPE_INTEGER]) placeholders' bldr
                else if specifier = 102 \<or> specifier = 1074
                then evaluate_args_from sx loc (tl cs) (Suc args)
                       (format_types[args := TYPE_FLOATING]) placeholders' bldr
                else if specifier = 115 \<or> specifier = 1089
                then evaluate_args_from sx loc (tl cs) (Suc args)
                       (format_types[args := type_string sx]) placeholders' bldr
                else if specifier = 37
                then evaluate_args_from sx loc (tl cs) args format_types placeholders' bldr
                else if specifier = 0
                then (0, format_types, placeholders',
                      semantic_error bldr loc expected_format_specifier)
                else (0, format_types, placeholders',
                      semantic_error bldr loc unknown_format_specifier))"

definition evaluate_args ::
  "syntax_t \<Rightarrow> builder \<Rightarrow> 'w::len word node \<Rightarrow> type_t list \<Rightarrow> nat list
    \<Rightarrow> nat \<times> type_t list \<times> nat list \<times> builder" where
  "evaluate_args sx bldr format_str format_types placeholders =
     evaluate_args_from sx (node_get_location format_str)
       (takeWhile (\<lambda>c. c \<noteq> 0) (string_get sx (expression_literal_get_string format_str)))
       0 format_types placeholders bldr"

text \<open>
  The loop of \<^verbatim>\<open>build_printf_expression\<close> over the arguments after the format
  string; \<open>i\<close> is the index of the first argument of the list.
\<close>

fun check_printf_arguments ::
  "'w::len word floating_t \<Rightarrow> syntax_t \<Rightarrow> builder \<Rightarrow> type_t list \<Rightarrow> nat \<Rightarrow> 'w word node list
    \<Rightarrow> bool \<times> 'w word node list \<times> builder" where
  "check_printf_arguments fp sx bldr format_types i [] = (True, [], bldr)"
| "check_printf_arguments fp sx bldr format_types i (argument # rest) =
     (case check_assignment_operands fp sx bldr (format_types ! (i - 1)) argument of
        (ok, argument', bldr') \<Rightarrow>
          (if \<not> ok then (False, argument' # rest, bldr')
           else (case check_printf_arguments fp sx bldr' format_types (Suc i) rest of
                   (ok', rest', bldr'') \<Rightarrow> (ok', argument' # rest', bldr''))))"

text \<open>
  \<^verbatim>\<open>build_printf_expression\<close>; \<open>args\<close> is the argument vector, the format string
  first. The two local arrays are not initialised in the source; no element is read
  before it is written.
\<close>

definition build_printf_expression ::
  "'w::len word floating_t \<Rightarrow> syntax_t \<Rightarrow> builder \<Rightarrow> 'w word node \<Rightarrow> 'w word node list \<Rightarrow> location
    \<Rightarrow> 'w word node \<times> builder" where
  "build_printf_expression fp sx bldr callee args r_loc =
     (let argc = length args in
      if argc = 0 then (node_broken, semantic_error bldr r_loc printf_fst_not_string)
      else if argc \<ge> MAX_PRINTF_ARGS
      then (node_broken, semantic_error bldr r_loc too_many_printf_args)
      else
        let fst_arg = hd args in
        if expression_get_class fst_arg \<noteq> EXPR_LITERAL
           \<or> \<not> type_is_string sx (expression_get_type fst_arg)
        then (node_broken, semantic_error bldr (node_get_location fst_arg) printf_fst_not_string)
        else
          (case evaluate_args sx bldr fst_arg
                  (replicate MAX_PRINTF_ARGS TYPE_VOID) (replicate MAX_PRINTF_ARGS 0) of
             (expected_args, format_types, placeholders, bldr1) \<Rightarrow>
               if expected_args \<noteq> argc - 1
               then (node_broken, semantic_error bldr1 r_loc wrong_printf_argument_amount)
               else
                 (case check_printf_arguments fp sx bldr1 format_types 1 (tl args) of
                    (ok, rest', bldr2) \<Rightarrow>
                      if \<not> ok then (node_broken, bldr2)
                      else expression_call TYPE_INTEGER callee (fst_arg # rest')
                             (fst (node_get_location callee), snd r_loc) bldr2)))"

subsection \<open>Constant folding of binary expressions\<close>

definition expression_binary ::
  "type_t \<Rightarrow> 'v node \<Rightarrow> 'v node \<Rightarrow> binary_t \<Rightarrow> location \<Rightarrow> builder \<Rightarrow> 'v node \<times> builder" where
  "expression_binary t LHS RHS op loc bldr =
     node_create EXPR_BINARY t RVALUE (Operator op) [LHS, RHS] loc bldr"

definition build_boolean_literal_expression ::
  "builder \<Rightarrow> bool \<Rightarrow> location \<Rightarrow> 'w::len word node \<times> builder" where
  "build_boolean_literal_expression bldr v loc =
     node_create EXPR_LITERAL TYPE_BOOLEAN RVALUE (Items [if v then 1 else 0]) [] loc bldr"

definition build_integer_literal_expression ::
  "builder \<Rightarrow> 'w::len word \<Rightarrow> location \<Rightarrow> 'w word node \<times> builder" where
  "build_integer_literal_expression bldr v loc =
     node_create EXPR_LITERAL TYPE_INTEGER RVALUE (Items [v]) [] loc bldr"

definition build_floating_literal_expression ::
  "'w::len word floating_t \<Rightarrow> builder \<Rightarrow> double \<Rightarrow> location \<Rightarrow> 'w word node \<times> builder" where
  "build_floating_literal_expression fp bldr v loc =
     node_create EXPR_LITERAL TYPE_FLOATING RVALUE (Items (node_set_arg_double fp v)) [] loc bldr"

text \<open>
  The C operators on two \<^verbatim>\<open>item_t\<close> values. Addition, subtraction and
  multiplication wrap around. Division truncates towards zero and the remainder takes
  the sign of the dividend; C gives no result for a division or a remainder by zero and
  for the quotient of the least value by -1, and on the usual targets the division
  traps: the model stops there with the reason, and no node is built. The right shift
  of a negative value is arithmetic. For a shift by a count outside 0 .. width - 1 C
  gives no value either, but the compiled shift does not stop: the machine reads the
  count modulo the width, and so does the model.
\<close>

datatype undefined_t = Division_by_zero | Division_overflow

definition ITEM_MIN :: "'w::len word" where
  "ITEM_MIN = push_bit (LENGTH('w) - 1) 1"

definition item_div :: "'w::len word \<Rightarrow> 'w word \<Rightarrow> undefined_t + 'w word" where
  "item_div a b =
     (if b = 0 then Inl Division_by_zero
      else if a = ITEM_MIN \<and> b = - 1 then Inl Division_overflow
      else Inr (word_of_int (sint a sdiv sint b)))"

definition item_rem :: "'w::len word \<Rightarrow> 'w word \<Rightarrow> undefined_t + 'w word" where
  "item_rem a b =
     (if b = 0 then Inl Division_by_zero
      else if a = ITEM_MIN \<and> b = - 1 then Inl Division_overflow
      else Inr (word_of_int (sint a smod sint b)))"

definition item_shl :: "'w::len word \<Rightarrow> 'w word \<Rightarrow> 'w word" where
  "item_shl a b = push_bit (unat b mod LENGTH('w)) a"

definition item_shr :: "'w::len word \<Rightarrow> 'w word \<Rightarrow> 'w word" where
  "item_shr a b = signed_drop_bit (unat b mod LENGTH('w)) a"

definition integer_literal_of ::
  "builder \<Rightarrow> location \<Rightarrow> undefined_t + 'w::len word \<Rightarrow> undefined_t + 'w word node \<times> builder" where
  "integer_literal_of bldr loc r =
     (case r of Inl u \<Rightarrow> Inl u | Inr v \<Rightarrow> Inr (build_integer_literal_expression bldr v loc))"

text \<open>
  \<^verbatim>\<open>fold_binary_expression\<close>. The class of the type of the left operand selects the
  branch; both operands are removed before the operator is looked at.
\<close>

definition fold_integer ::
  "builder \<Rightarrow> 'w::len word \<Rightarrow> 'w word \<Rightarrow> binary_t \<Rightarrow> location
    \<Rightarrow> undefined_t + 'w word node \<times> builder" where
  "fold_integer bldr left_value right_value op loc =
     (case op of
        BIN_MUL \<Rightarrow> Inr (build_integer_literal_expression bldr (left_value * right_value) loc)
      | BIN_DIV \<Rightarrow> integer_literal_of bldr loc (item_div left_value right_value)
      | BIN_REM \<Rightarrow> integer_literal_of bldr loc (item_rem left_value right_value)
      | BIN_ADD \<Rightarrow> Inr (build_integer_literal_expression bldr (left_value + right_value) loc)
      | BIN_SUB \<Rightarrow> Inr (build_integer_literal_expression bldr (left_value - right_value) loc)
      | BIN_SHL \<Rightarrow>
          Inr (build_integer_literal_expression bldr (item_shl left_value right_value) loc)
      | BIN_SHR \<Rightarrow>
          Inr (build_integer_literal_expression bldr (item_shr left_value right_value) loc)
      | BIN_LT \<Rightarrow> Inr (build_boolean_literal_expression bldr (left_value <s right_value) loc)
      | BIN_GT \<Rightarrow> Inr (build_boolean_literal_expression bldr (right_value <s left_value) loc)
      | BIN_LE \<Rightarrow> Inr (build_boolean_literal_expression bldr (left_value \<le>s right_value) loc)
      | BIN_GE \<Rightarrow> Inr (build_boolean_literal_expression bldr (right_value \<le>s left_value) loc)
      | BIN_EQ \<Rightarrow> Inr (build_boolean_literal_expression bldr (left_value = right_value) loc)
      | BIN_NE \<Rightarrow> Inr (build_boolean_literal_expression bldr (left_value \<noteq> right_value) loc)
      | BIN_AND \<Rightarrow> Inr (build_integer_literal_expression bldr (left_value AND right_value) loc)
      | BIN_XOR \<Rightarrow> Inr (build_integer_literal_expression bldr (left_value XOR right_value) loc)
      | BIN_OR \<Rightarrow> Inr (build_integer_literal_expression bldr (left_value OR right_value) loc)
      | BIN_LOG_AND \<Rightarrow>
          Inr (build_boolean_literal_expression bldr (left_value \<noteq> 0 \<and> right_value \<noteq> 0) loc)
      | BIN_LOG_OR \<Rightarrow>
          Inr (build_boolean_literal_expression bldr (left_value \<noteq> 0 \<or> right_value \<noteq> 0) loc)
      | _ \<Rightarrow> Inr (node_broken, bldr))"

definition fold_floating ::
  "'w::len word floating_t \<Rightarrow> builder \<Rightarrow> double \<Rightarrow> double \<Rightarrow> binary_t \<Rightarrow> location
    \<Rightarrow> 'w word node \<times> builder" where
  "fold_floating fp bldr left_value right_value op loc =
     (case op of
        BIN_MUL \<Rightarrow> build_floating_literal_expression fp bldr (double_mul fp left_value right_value) loc
      | BIN_DIV \<Rightarrow> build_floating_literal_expression fp bldr (double_div fp left_value right_value) loc
      | BIN_ADD \<Rightarrow> build_floating_literal_expression fp bldr (double_add fp left_value right_value) loc
      | BIN_SUB \<Rightarrow> build_floating_literal_expression fp bldr (double_sub fp left_value right_value) loc
      | BIN_LT \<Rightarrow> build_boolean_literal_expression bldr (double_lt fp left_value right_value) loc
      | BIN_GT \<Rightarrow> build_boolean_literal_expression bldr (double_gt fp left_value right_value) loc
      | BIN_LE \<Rightarrow> build_boolean_literal_expression bldr (double_le fp left_value right_value) loc
      | BIN_GE \<Rightarrow> build_boolean_literal_expression bldr (double_ge fp left_value right_value) loc
      | BIN_EQ \<Rightarrow> build_boolean_literal_expression bldr (double_eq fp left_value right_value) loc
      | BIN_NE \<Rightarrow> build_boolean_literal_expression bldr (double_ne fp left_value right_value) loc
      | _ \<Rightarrow> (node_broken, bldr))"

definition fold_binary_expression ::
  "'w::len word floating_t \<Rightarrow> builder \<Rightarrow> type_t \<Rightarrow> 'w word node \<Rightarrow> 'w word node \<Rightarrow> binary_t
    \<Rightarrow> location \<Rightarrow> undefined_t + 'w word node \<times> builder" where
  "fold_binary_expression fp bldr t LHS RHS op loc =
     (if expression_get_class LHS \<noteq> EXPR_LITERAL \<or> expression_get_class RHS \<noteq> EXPR_LITERAL
      then Inr (expression_binary t LHS RHS op loc bldr)
      else
        (case expression_get_type LHS of
           TYPE_ENUM _ \<Rightarrow>
             fold_integer (node_remove RHS (node_remove LHS bldr))
               (expression_literal_get_integer LHS) (expression_literal_get_integer RHS) op loc
         | TYPE_INTEGER \<Rightarrow>
             fold_integer (node_remove RHS (node_remove LHS bldr))
               (expression_literal_get_integer LHS) (expression_literal_get_integer RHS) op loc
         | TYPE_FLOATING \<Rightarrow>
             Inr (fold_floating fp (node_remove RHS (node_remove LHS bldr))
                    (expression_literal_get_floating fp LHS) (expression_literal_get_floating fp RHS)
                    op loc)
         | _ \<Rightarrow> Inr (expression_binary t LHS RHS op loc bldr)))"

section \<open>The IR emitter\<close>

subsection \<open>The tree the emitter reads\<close>

text \<open>
  \<^verbatim>\<open>llvmgen.c\<close> reads the finished tree through one group of accessors per node
  class (\<^verbatim>\<open>expression_binary_get_LHS\<close>, \<^verbatim>\<open>statement_if_get_condition\<close>, ...).
  The datatypes below have one constructor per class, with the fields those accessors
  return; the first field of an expression is its type. Of a literal the emitter reads
  the integer \<^verbatim>\<open>expression_literal_get_integer\<close> returns. The classes that
  \<^verbatim>\<open>emit_expression\<close> and \<^verbatim>\<open>emit_statement\<close> leave to their default branch keep
  no fields.
\<close>

type_synonym item_t = int

datatype unary_t =
    UN_POSTINC | UN_POSTDEC | UN_PREINC | UN_PREDEC
  | UN_ADDRESS | UN_INDIRECTION | UN_MINUS | UN_NOT | UN_LOGNOT | UN_ABS | UN_UPB

datatype expr =
    Cast type_t type_t expr
  | Identifier type_t nat
  | Literal type_t item_t
  | Subscript type_t expr expr
  | Call type_t expr "expr list"
  | Member type_t nat expr
  | Unary type_t unary_t expr
  | Binary type_t binary_t expr expr
  | Ternary type_t expr expr expr
  | Initializer type_t "expr list"
  | Inline type_t

datatype stmt =
    Stmt_decl "decl list"
  | Stmt_label nat stmt
  | Stmt_case
  | Stmt_default
  | Stmt_compound "stmt list"
  | Stmt_expr expr
  | Stmt_null
  | Stmt_if expr stmt "stmt option"
  | Stmt_switch
  | Stmt_while expr stmt
  | Stmt_do stmt expr
  | Stmt_for "stmt option" "expr option" "expr option" stmt
  | Stmt_goto nat
  | Stmt_continue
  | Stmt_break
  | Stmt_return "expr option"
  | Stmt_other
and decl =
    Decl_var nat "expr list" "expr option"
  | Decl_func nat "nat list" stmt
  | Decl_other

fun emitted_type :: "expr \<Rightarrow> type_t" where
  "emitted_type (Cast t s e) = t"
| "emitted_type (Identifier t i) = t"
| "emitted_type (Literal t v) = t"
| "emitted_type (Subscript t b i) = t"
| "emitted_type (Call t c as) = t"
| "emitted_type (Member t p b) = t"
| "emitted_type (Unary t u e) = t"
| "emitted_type (Binary t b l r) = t"
| "emitted_type (Ternary t c l r) = t"
| "emitted_type (Initializer t es) = t"
| "emitted_type (Inline t) = t"

fun emitted_class :: "expr \<Rightarrow> expression_t" where
  "emitted_class (Cast t s e) = EXPR_CAST"
| "emitted_class (Identifier t i) = EXPR_IDENTIFIER"
| "emitted_class (Literal t v) = EXPR_LITERAL"
| "emitted_class (Subscript t b i) = EXPR_SUBSCRIPT"
| "emitted_class (Call t c as) = EXPR_CALL"
| "emitted_class (Member t p b) = EXPR_MEMBER"
| "emitted_class (Unary t u e) = EXPR_UNARY"
| "emitted_class (Binary t b l r) = EXPR_BINARY"
| "emitted_class (Ternary t c l r) = EXPR_TERNARY"
| "emitted_class (Initializer t es) = EXPR_INITIALIZER"
| "emitted_class (Inline t) = EXPR_INLINE"

fun array_get_dim :: "type_t \<Rightarrow> nat" where
  "array_get_dim (TYPE_ARRAY t) = Suc (array_get_dim t)"
| "array_get_dim _ = 0"

fun operation_is_assignment :: "binary_t \<Rightarrow> bool" where
  "operation_is_assignment BIN_ASSIGN = True"
| "operation_is_assignment BIN_REM_ASSIGN = True"
| "operation_is_assignment BIN_SHL_ASSIGN = True"
| "operation_is_assignment BIN_SHR_ASSIGN = True"
| "operation_is_assignment BIN_AND_ASSIGN = True"
| "operation_is_assignment BIN_XOR_ASSIGN = True"
| "operation_is_assignment BIN_OR_ASSIGN = True"
| "operation_is_assignment BIN_MUL_ASSIGN = True"
| "operation_is_assignment BIN_DIV_ASSIGN = True"
| "operation_is_assignment BIN_ADD_ASSIGN = True"
| "operation_is_assignment BIN_SUB_ASSIGN = True"
| "operation_is_assignment _ = False"

subsection \<open>Emitted lines and the state of the emitter\<close>

text \<open>
  The emitter prints to a write-only sink; the model keeps the list of the lines
  printed. Of each line it keeps the opcode and the labels and stack slots the line
  names. Register numbers, variable identifiers, types and constants reach only the
  operands of the printed text, which the model leaves out, and with them the fields of
  \<^verbatim>\<open>information\<close> that serve only to number registers
  (\<^verbatim>\<open>register_num\<close>, \<^verbatim>\<open>answer_reg\<close>, \<^verbatim>\<open>request_reg\<close>,
  \<^verbatim>\<open>answer_string\<close>, \<^verbatim>\<open>answer_const_double\<close>, \<^verbatim>\<open>init_num\<close>) or to list the
  library functions declared at the end.

  \<open>Stack_save n\<close> stands for the three lines of \<^verbatim>\<open>to_code_stack_save\<close> for slot
  \<open>n\<close> (the \<^verbatim>\<open>alloca\<close> of \<^verbatim>\<open>%dyn.n\<close>, the call of \<^verbatim>\<open>llvm.stacksave\<close> and
  the store), \<open>Stack_restore n\<close> for the two lines of \<^verbatim>\<open>to_code_stack_load\<close>.
\<close>

datatype opcode =
    Load | Store | Zext | Operation binary_t | Slice | Getelementptr | Sitofp
  | Call_function | Call_abs | Alloca | Alloca_array | Alloca_dynamic | Mul_bounds
  | Global_variable | Global_array | Array_element

datatype ir =
    Label item_t
  | Br item_t
  | Br_cond item_t item_t
  | Phi item_t item_t
  | Stack_save item_t
  | Stack_restore item_t
  | Ret_i32 item_t
  | Ret_double
  | Ret_register
  | Ret_void
  | Define nat
  | End_define
  | Instr opcode

datatype answer_t = AREG | ACONST | ALOGIC | AMEM | ASTR | ANULL

datatype location_t = LREG | LMEM | LFREE

text \<open>
  Modelled from the spec: the array descriptors are a hash keyed by the identifier of
  the array, with the tuple (is_static, dim 1, ..., dim n) as value. The model keeps,
  for each key, the static flag and the number of values of the tuple; the bounds
  themselves are operands. The counters of labels and blocks are mathematical integers:
  they start at 1 and grow by one for each label or block.
\<close>

record information =
  label_num :: item_t
  block_num :: item_t
  variable_location :: location_t
  answer_const :: item_t
  answer_kind :: answer_t
  label_true :: item_t
  label_false :: item_t
  label_break :: item_t
  label_continue :: item_t
  label_ternary_end :: item_t
  arrays :: "nat \<Rightarrow> (bool \<times> nat) option"
  was_stack_functions :: bool
  was_dynamic :: bool
  was_abs :: bool
  was_fabs :: bool
  is_main :: bool
  io :: "ir list"

definition MAX_FUNCTION_ARGS :: nat where
  "MAX_FUNCTION_ARGS = 128"

definition SIZE_MAX :: nat where
  "SIZE_MAX = 2 ^ 64 - 1"

definition MAX_DIMENSIONS :: nat where
  "MAX_DIMENSIONS = SIZE_MAX - 2"

text \<open>Subtraction of one on \<^verbatim>\<open>size_t\<close>.\<close>

definition size_pred :: "nat \<Rightarrow> nat" where
  "size_pred n = (if n = 0 then SIZE_MAX else n - 1)"

definition uni_printf :: "ir \<Rightarrow> information \<Rightarrow> information" where
  "uni_printf line info = info\<lparr>io := io info @ [line]\<rparr>"

definition to_code_try_zext_to :: "information \<Rightarrow> information" where
  "to_code_try_zext_to info =
     (if answer_kind info \<noteq> ALOGIC then info
      else (uni_printf (Instr Zext) info)\<lparr>answer_kind := AREG\<rparr>)"

definition to_code_label :: "item_t \<Rightarrow> information \<Rightarrow> information" where
  "to_code_label label info = uni_printf (Label label) info"

definition to_code_unconditional_branch :: "item_t \<Rightarrow> information \<Rightarrow> information" where
  "to_code_unconditional_branch label info = uni_printf (Br label) info"

definition to_code_conditional_branch :: "information \<Rightarrow> information" where
  "to_code_conditional_branch info = uni_printf (Br_cond (label_true info) (label_false info)) info"

definition to_code_stack_save :: "item_t \<Rightarrow> information \<Rightarrow> information" where
  "to_code_stack_save index info = (uni_printf (Stack_save index) info)\<lparr>was_stack_functions := True\<rparr>"

definition to_code_stack_load :: "item_t \<Rightarrow> information \<Rightarrow> information" where
  "to_code_stack_load index info =
     (uni_printf (Stack_restore index) info)\<lparr>was_stack_functions := True\<rparr>"

text \<open>
  \<^verbatim>\<open>to_code_alloc_array_static\<close> starts its line before it tests the number of
  dimensions, \<^verbatim>\<open>to_code_alloc_array_dynamic\<close> tests first and prints one
  multiplication for each dimension after the first.
\<close>

definition to_code_alloc_array_static :: "information \<Rightarrow> information" where
  "to_code_alloc_array_static info = uni_printf (Instr Alloca_array) info"

definition to_code_alloc_array_dynamic :: "nat \<Rightarrow> information \<Rightarrow> information" where
  "to_code_alloc_array_dynamic amount info =
     (let dim = size_pred amount in
      if dim = 0 \<or> dim > MAX_DIMENSIONS then info
      else info\<lparr>io := io info @ replicate (dim - 1) (Instr Mul_bounds) @ [Instr Alloca_dynamic]\<rparr>)"

definition to_code_slice :: "information \<Rightarrow> information" where
  "to_code_slice info = uni_printf (Instr Slice) info"

definition check_type_and_branch :: "information \<Rightarrow> information" where
  "check_type_and_branch info =
     (case answer_kind info of
        ACONST \<Rightarrow>
          to_code_unconditional_branch
            (if answer_const info \<noteq> 0 then label_true info else label_false info) info
      | AREG \<Rightarrow> to_code_conditional_branch (uni_printf (Instr (Operation BIN_NE)) info)
      | ALOGIC \<Rightarrow> to_code_conditional_branch info
      | _ \<Rightarrow> info)"

subsection \<open>Expressions\<close>

text \<open>
  Where the source applies an accessor to a node of another class than the accessor is
  for, or reads an array descriptor that was never added, what it reads is not a part of
  the tree; the model stops there with \<open>None\<close>. A result \<open>Some info\<close> is the
  state after the emission.
\<close>

fun expression_identifier_get_id :: "expr \<Rightarrow> nat option" where
  "expression_identifier_get_id (Identifier t i) = Some i"
| "expression_identifier_get_id _ = None"

fun type_pointer_get_element_type :: "type_t \<Rightarrow> type_t option" where
  "type_pointer_get_element_type (TYPE_POINTER t) = Some t"
| "type_pointer_get_element_type _ = None"

fun subscript_base :: "expr \<Rightarrow> expr" where
  "subscript_base (Subscript t b i) = subscript_base b"
| "subscript_base e = e"

definition emit_identifier_expression :: "syntax_t \<Rightarrow> information \<Rightarrow> type_t \<Rightarrow> information option" where
  "emit_identifier_expression sx info t =
     (let is_addr_to_val = (variable_location info = LMEM) in
      case (if is_addr_to_val
            then map_option (\<lambda>t'. ((uni_printf (Instr Load) info)\<lparr>variable_location := LREG\<rparr>, t'))
                   (type_pointer_get_element_type t)
            else Some (info, t)) of
        None \<Rightarrow> None
      | Some (info1, t1) \<Rightarrow>
          Some ((if type_is_array t1
                 then to_code_slice (info1\<lparr>answer_const := 0\<rparr>)
                 else uni_printf (Instr Load) info1)\<lparr>answer_kind := AREG\<rparr>))"

definition emit_literal_expression :: "syntax_t \<Rightarrow> information \<Rightarrow> type_t \<Rightarrow> item_t \<Rightarrow> information" where
  "emit_literal_expression sx info t num =
     (if type_is_string sx t then info\<lparr>answer_kind := ASTR\<rparr>
      else if type_is_integer sx t then
        (if variable_location info = LMEM
         then (uni_printf (Instr Store) info)\<lparr>answer_kind := AREG\<rparr>
         else info\<lparr>answer_kind := ACONST, answer_const := num\<rparr>)
      else if type_is_floating t then
        (if variable_location info = LMEM
         then (uni_printf (Instr Store) info)\<lparr>answer_kind := AREG\<rparr>
         else info\<lparr>answer_kind := ACONST\<rparr>)
      else info\<lparr>answer_kind := ANULL\<rparr>)"

definition emit_member_expression :: "information \<Rightarrow> expr \<Rightarrow> information" where
  "emit_member_expression info base =
     (let info1 = (if type_is_pointer (emitted_type base) then uni_printf (Instr Load) info else info);
          info2 = uni_printf (Instr Getelementptr) info1
      in if variable_location info2 \<noteq> LMEM
         then (uni_printf (Instr Load) info2)\<lparr>answer_kind := AREG\<rparr>
         else info2)"

text \<open>The line a binary operation prints for the two answer kinds, if it prints one.\<close>

definition to_code_operation :: "binary_t \<Rightarrow> answer_t \<Rightarrow> answer_t \<Rightarrow> information \<Rightarrow> information" where
  "to_code_operation operation left_kind right_kind info =
     (if (left_kind = AREG \<and> right_kind = AREG) \<or> (left_kind = AREG \<and> right_kind = ACONST)
         \<or> (left_kind = ACONST \<and> right_kind = AREG) \<or> (left_kind = AREG \<and> right_kind = ANULL)
         \<or> (left_kind = ANULL \<and> right_kind = AREG)
      then uni_printf (Instr (Operation operation)) info
      else info)"

text \<open>The end of \<^verbatim>\<open>emit_assignment_expression\<close>, after the right-hand side.\<close>

definition emit_assignment_store :: "syntax_t \<Rightarrow> binary_t \<Rightarrow> type_t \<Rightarrow> information \<Rightarrow> information" where
  "emit_assignment_store sx assignment_type operation_type info =
     (let info1 =
            (if assignment_type \<noteq> BIN_ASSIGN then
               (let i1 = uni_printf (Instr Load) info;
                    i2 = (if answer_kind i1 = AREG \<or> type_is_integer sx operation_type
                             \<or> type_is_floating operation_type
                          then uni_printf (Instr (Operation assignment_type)) i1 else i1)
                in i2\<lparr>answer_kind := AREG\<rparr>)
             else info)
      in if answer_kind info1 = AREG \<or> answer_kind info1 = AMEM
         then (uni_printf (Instr Store) info1)\<lparr>answer_kind := AREG\<rparr>
         else if type_is_integer sx operation_type then uni_printf (Instr Store) info1
         else if type_is_floating operation_type then uni_printf (Instr Store) info1
         else (uni_printf (Instr Store) info1)\<lparr>answer_kind := ANULL\<rparr>)"

text \<open>
  The cases of the switch in \<^verbatim>\<open>emit_binary_expression\<close> that go to
  \<^verbatim>\<open>emit_integral_expression\<close>, with the answer kind they pass, and the cases of
  the switch in \<^verbatim>\<open>emit_unary_expression\<close> that go to
  \<^verbatim>\<open>emit_inc_dec_expression\<close>.
\<close>

fun integral_kind :: "binary_t \<Rightarrow> answer_t option" where
  "integral_kind BIN_MUL = Some AREG"
| "integral_kind BIN_DIV = Some AREG"
| "integral_kind BIN_REM = Some AREG"
| "integral_kind BIN_ADD = Some AREG"
| "integral_kind BIN_SUB = Some AREG"
| "integral_kind BIN_SHL = Some AREG"
| "integral_kind BIN_SHR = Some AREG"
| "integral_kind BIN_AND = Some AREG"
| "integral_kind BIN_XOR = Some AREG"
| "integral_kind BIN_OR = Some AREG"
| "integral_kind BIN_LT = Some ALOGIC"
| "integral_kind BIN_GT = Some ALOGIC"
| "integral_kind BIN_LE = Some ALOGIC"
| "integral_kind BIN_GE = Some ALOGIC"
| "integral_kind BIN_EQ = Some ALOGIC"
| "integral_kind BIN_NE = Some ALOGIC"
| "integral_kind _ = None"

fun is_inc_dec :: "unary_t \<Rightarrow> bool" where
  "is_inc_dec UN_POSTINC = True"
| "is_inc_dec UN_POSTDEC = True"
| "is_inc_dec UN_PREINC = True"
| "is_inc_dec UN_PREDEC = True"
| "is_inc_dec _ = False"

text \<open>
  What the emitters of the unary and binary expressions do after their operands are
  emitted.
\<close>

definition emit_inc_dec_lines :: "unary_t \<Rightarrow> information \<Rightarrow> information" where
  "emit_inc_dec_lines operator info =
     uni_printf (Instr Store)
       (uni_printf (Instr (Operation (if operator = UN_PREINC \<or> operator = UN_POSTINC
                                      then BIN_ADD else BIN_SUB)))
          ((uni_printf (Instr Load) info)\<lparr>answer_kind := AREG\<rparr>))"

definition emit_minus_not_lines :: "syntax_t \<Rightarrow> unary_t \<Rightarrow> type_t \<Rightarrow> information \<Rightarrow> information" where
  "emit_minus_not_lines sx operator t info =
     (let info2 = to_code_try_zext_to info;
          info3 =
            (if operator = UN_MINUS \<and> type_is_integer sx t
             then uni_printf (Instr (Operation BIN_SUB)) info2
             else if operator = UN_NOT
             then uni_printf (Instr (Operation BIN_XOR)) info2
             else if operator = UN_MINUS \<and> type_is_floating t
             then uni_printf (Instr (Operation BIN_SUB)) info2
             else info2)
      in info3\<lparr>answer_kind := AREG\<rparr>)"

definition emit_abs_lines :: "syntax_t \<Rightarrow> type_t \<Rightarrow> information \<Rightarrow> information" where
  "emit_abs_lines sx t info =
     (let info2 = uni_printf (Instr Call_abs) info;
          info3 = (if type_is_integer sx t then info2\<lparr>was_abs := True\<rparr>
                   else info2\<lparr>was_fabs := True\<rparr>)
      in info3\<lparr>answer_kind := AREG\<rparr>)"

definition emit_integral_lines ::
  "binary_t \<Rightarrow> answer_t \<Rightarrow> answer_t \<Rightarrow> information \<Rightarrow> information" where
  "emit_integral_lines operator kind left_kind info =
     (let info4 = to_code_try_zext_to info in
      (to_code_operation operator left_kind (answer_kind info4) info4)\<lparr>answer_kind := kind\<rparr>)"

definition emit_logical_start :: "binary_t \<Rightarrow> information \<Rightarrow> information" where
  "emit_logical_start operator info =
     (if operator = BIN_LOG_OR
      then info\<lparr>label_num := label_num info + 1, label_false := label_num info\<rparr>
      else info\<lparr>label_num := label_num info + 1, label_true := label_num info\<rparr>)"

definition emit_logical_middle :: "information \<Rightarrow> information \<Rightarrow> information" where
  "emit_logical_middle info info2 =
     (to_code_label (label_num info)
        (if answer_kind info2 = ALOGIC then to_code_conditional_branch info2 else info2))
       \<lparr>label_true := label_true info, label_false := label_false info\<rparr>"

definition emit_ternary_end ::
  "information \<Rightarrow> item_t \<Rightarrow> item_t \<Rightarrow> information \<Rightarrow> information" where
  "emit_ternary_end info label_then label_else info5 =
     (uni_printf (Phi label_then label_else)
        (to_code_label (label_num info + 2)
           (to_code_unconditional_branch (label_num info + 2) info5)))
       \<lparr>answer_kind := AREG, label_true := label_true info, label_false := label_false info,
        label_ternary_end := label_num info + 2\<rparr>"

fun emit_expression :: "syntax_t \<Rightarrow> information \<Rightarrow> expr \<Rightarrow> information option"
  and emit_one_dimension_subscript ::
    "syntax_t \<Rightarrow> information \<Rightarrow> expr \<Rightarrow> nat \<Rightarrow> nat \<Rightarrow> information option"
  and emit_call_arguments :: "syntax_t \<Rightarrow> information \<Rightarrow> expr list \<Rightarrow> information option"
where
  \<comment> \<open>\<^verbatim>\<open>emit_cast_expression\<close>\<close>
  "emit_expression sx info (Cast t source_type operand) =
     (case emit_expression sx info operand of
        None \<Rightarrow> None
      | Some info1 \<Rightarrow> Some (uni_printf (Instr Sitofp) info1))"
  \<comment> \<open>\<^verbatim>\<open>emit_identifier_expression\<close>\<close>
| "emit_expression sx info (Identifier t i) = emit_identifier_expression sx info t"
  \<comment> \<open>\<^verbatim>\<open>emit_literal_expression\<close>\<close>
| "emit_expression sx info (Literal t num) = Some (emit_literal_expression sx info t num)"
  \<comment> \<open>\<^verbatim>\<open>emit_subscript_expression\<close>\<close>
| "emit_expression sx info (Subscript t base index) =
     (case expression_identifier_get_id (subscript_base base) of
        None \<Rightarrow> None
      | Some i \<Rightarrow>
          (case emit_one_dimension_subscript sx info (Subscript t base index) i 0 of
             None \<Rightarrow> None
           | Some info1 \<Rightarrow>
               Some ((if variable_location info \<noteq> LMEM then uni_printf (Instr Load) info1
                      else info1)\<lparr>answer_kind := AREG\<rparr>)))"
  \<comment> \<open>\<^verbatim>\<open>emit_call_expression\<close>\<close>
| "emit_expression sx info (Call t callee args) =
     (if length args > MAX_FUNCTION_ARGS then Some info
      else
        (case emit_call_arguments sx info args of
           None \<Rightarrow> None
         | Some info1 \<Rightarrow>
             Some (uni_printf (Instr Call_function)
                     (if \<not> type_is_void t then info1\<lparr>answer_kind := AREG\<rparr> else info1))))"
  \<comment> \<open>\<^verbatim>\<open>emit_member_expression\<close>\<close>
| "emit_expression sx info (Member t place base) = Some (emit_member_expression info base)"
  \<comment> \<open>\<^verbatim>\<open>emit_unary_expression\<close> and \<^verbatim>\<open>emit_inc_dec_expression\<close>\<close>
| "emit_expression sx info (Unary t operator operand) =
     (if is_inc_dec operator then
        (case (if emitted_class operand = EXPR_SUBSCRIPT \<or> emitted_class operand = EXPR_UNARY
               then emit_expression sx (info\<lparr>variable_location := LMEM\<rparr>) operand
               else Some info) of
           None \<Rightarrow> None
         | Some info1 \<Rightarrow> Some (emit_inc_dec_lines operator info1))
      else if operator = UN_MINUS \<or> operator = UN_NOT then
        (case emit_expression sx (info\<lparr>variable_location := LREG\<rparr>) operand of
           None \<Rightarrow> None
         | Some info1 \<Rightarrow> Some (emit_minus_not_lines sx operator t info1))
      else if operator = UN_LOGNOT then
        emit_expression sx (info\<lparr>label_true := label_false info, label_false := label_true info\<rparr>)
          operand
      else if operator = UN_ADDRESS then Some (info\<lparr>answer_kind := AMEM\<rparr>)
      else if operator = UN_INDIRECTION then
        emit_expression sx
          (info\<lparr>variable_location := (if variable_location info = LMEM then LREG else LMEM)\<rparr>)
          operand
      else if operator = UN_ABS then
        (case emit_expression sx (info\<lparr>variable_location := LFREE\<rparr>) operand of
           None \<Rightarrow> None
         | Some info1 \<Rightarrow> Some (emit_abs_lines sx t info1))
      else Some info)"
  \<comment> \<open>\<^verbatim>\<open>emit_binary_expression\<close>, \<^verbatim>\<open>emit_assignment_expression\<close> and
      \<^verbatim>\<open>emit_integral_expression\<close>\<close>
| "emit_expression sx info (Binary t operator LHS RHS) =
     (if operation_is_assignment operator then
        (case (if emitted_class LHS = EXPR_SUBSCRIPT
               then emit_expression sx (info\<lparr>variable_location := LMEM\<rparr>) LHS
               else Some info) of
           None \<Rightarrow> None
         | Some info1 \<Rightarrow>
             (case emit_expression sx (info1\<lparr>variable_location := LFREE\<rparr>) RHS of
                None \<Rightarrow> None
              | Some info2 \<Rightarrow> Some (emit_assignment_store sx operator t (to_code_try_zext_to info2))))
      else
        (case integral_kind operator of
           Some kind \<Rightarrow>
             (case emit_expression sx (info\<lparr>variable_location := LFREE\<rparr>) LHS of
                None \<Rightarrow> None
              | Some info1 \<Rightarrow>
                  (case emit_expression sx
                          ((to_code_try_zext_to info1)\<lparr>variable_location := LFREE\<rparr>) RHS of
                     None \<Rightarrow> None
                   | Some info3 \<Rightarrow>
                       Some (emit_integral_lines operator kind
                               (answer_kind (to_code_try_zext_to info1)) info3)))
         | None \<Rightarrow>
             (if operator = BIN_LOG_OR \<or> operator = BIN_LOG_AND then
                (case emit_expression sx (emit_logical_start operator info) LHS of
                   None \<Rightarrow> None
                 | Some info2 \<Rightarrow> emit_expression sx (emit_logical_middle info info2) RHS)
              else Some info)))"
  \<comment> \<open>\<^verbatim>\<open>emit_ternary_expression\<close>\<close>
| "emit_expression sx info (Ternary t condition LHS RHS) =
     (case emit_expression sx
             (info\<lparr>label_num := label_num info + 3, label_true := label_num info,
                   label_false := label_num info + 1, variable_location := LFREE\<rparr>) condition of
        None \<Rightarrow> None
      | Some info1 \<Rightarrow>
          (case emit_expression sx
                  ((to_code_label (label_num info) (check_type_and_branch info1))
                     \<lparr>variable_location := LFREE\<rparr>) LHS of
             None \<Rightarrow> None
           | Some info3 \<Rightarrow>
               (case emit_expression sx
                       ((to_code_label (label_num info + 1)
                           (to_code_unconditional_branch (label_num info + 2) info3))
                          \<lparr>variable_location := LFREE\<rparr>) RHS of
                  None \<Rightarrow> None
                | Some info5 \<Rightarrow>
                    Some (emit_ternary_end info
                            (if emitted_class LHS = EXPR_TERNARY
                             then label_ternary_end info3 else label_num info)
                            (if emitted_class RHS = EXPR_TERNARY
                             then label_ternary_end info5 else label_num info + 1)
                            info5))))"
  \<comment> \<open>the default branch of \<^verbatim>\<open>emit_expression\<close>\<close>
| "emit_expression sx info (Initializer t es) = Some info"
| "emit_expression sx info (Inline t) = Some info"
  \<comment> \<open>\<^verbatim>\<open>emit_one_dimension_subscript\<close>\<close>
| "emit_one_dimension_subscript sx info (Subscript t base index) i cur_dimension =
     (case arrays info i of
        None \<Rightarrow> None
      | Some (is_static, amount) \<Rightarrow>
          (case (if cur_dimension \<noteq> size_pred (size_pred amount)
                 then emit_one_dimension_subscript sx info base i (cur_dimension + 1)
                 else Some info) of
             None \<Rightarrow> None
           | Some info1 \<Rightarrow>
               (case emit_expression sx (info1\<lparr>variable_location := LFREE\<rparr>) index of
                  None \<Rightarrow> None
                | Some info2 \<Rightarrow> Some (to_code_slice info2))))"
| "emit_one_dimension_subscript sx info (Cast t s e) i cur_dimension = None"
| "emit_one_dimension_subscript sx info (Identifier t j) i cur_dimension = None"
| "emit_one_dimension_subscript sx info (Literal t v) i cur_dimension = None"
| "emit_one_dimension_subscript sx info (Call t c as) i cur_dimension = None"
| "emit_one_dimension_subscript sx info (Member t p b) i cur_dimension = None"
| "emit_one_dimension_subscript sx info (Unary t u e) i cur_dimension = None"
| "emit_one_dimension_subscript sx info (Binary t b l r) i cur_dimension = None"
| "emit_one_dimension_subscript sx info (Ternary t c l r) i cur_dimension = None"
| "emit_one_dimension_subscript sx info (Initializer t es) i cur_dimension = None"
| "emit_one_dimension_subscript sx info (Inline t) i cur_dimension = None"
  \<comment> \<open>the loop over the arguments in \<^verbatim>\<open>emit_call_expression\<close>\<close>
| "emit_call_arguments sx info [] = Some info"
| "emit_call_arguments sx info (argument # rest) =
     (case emit_expression sx (info\<lparr>variable_location := LFREE\<rparr>) argument of
        None \<Rightarrow> None
      | Some info1 \<Rightarrow> emit_call_arguments sx (to_code_try_zext_to info1) rest)"

subsection \<open>Declarations\<close>

text \<open>
  \<^verbatim>\<open>emit_one_dimension_initialization\<close> and its loop over the elements of one
  initializer list; \<open>i\<close> is the index of the first element of the list.
\<close>

fun emit_one_dimension_initialization ::
    "syntax_t \<Rightarrow> information \<Rightarrow> expr \<Rightarrow> nat \<Rightarrow> bool \<Rightarrow> information option"
  and emit_initializers ::
    "syntax_t \<Rightarrow> information \<Rightarrow> expr list \<Rightarrow> nat \<Rightarrow> nat \<Rightarrow> bool \<Rightarrow> information option"
where
  "emit_one_dimension_initialization sx info (Initializer t subexprs) cur_dimension is_local =
     emit_initializers sx info subexprs 0 cur_dimension is_local"
| "emit_one_dimension_initialization sx info (Cast t s e) cur_dimension is_local = None"
| "emit_one_dimension_initialization sx info (Identifier t j) cur_dimension is_local = None"
| "emit_one_dimension_initialization sx info (Literal t v) cur_dimension is_local = None"
| "emit_one_dimension_initialization sx info (Subscript t b i) cur_dimension is_local = None"
| "emit_one_dimension_initialization sx info (Call t c as) cur_dimension is_local = None"
| "emit_one_dimension_initialization sx info (Member t p b) cur_dimension is_local = None"
| "emit_one_dimension_initialization sx info (Unary t u e) cur_dimension is_local = None"
| "emit_one_dimension_initialization sx info (Binary t b l r) cur_dimension is_local = None"
| "emit_one_dimension_initialization sx info (Ternary t c l r) cur_dimension is_local = None"
| "emit_one_dimension_initialization sx info (Inline t) cur_dimension is_local = None"
| "emit_initializers sx info [] i cur_dimension is_local = Some info"
| "emit_initializers sx info (initializer # rest) i cur_dimension is_local =
     (let info1 = info\<lparr>answer_const := int i, answer_kind := ACONST\<rparr>;
          info2 = (if is_local then to_code_slice info1 else info1);
          info3 = info2\<lparr>variable_location := LFREE\<rparr>
      in case (if cur_dimension = 0 then
                 (case emit_expression sx info3 initializer of
                    None \<Rightarrow> None
                  | Some info4 \<Rightarrow>
                      Some (if answer_kind info4 = AREG \<or> is_local
                            then uni_printf (Instr Store) info4
                            else uni_printf (Instr Array_element) info4))
               else emit_one_dimension_initialization sx info3 initializer
                      (cur_dimension - 1) True) of
           None \<Rightarrow> None
         | Some info5 \<Rightarrow> emit_initializers sx info5 rest (Suc i) cur_dimension is_local)"

text \<open>
  The walk of \<^verbatim>\<open>emit_initialization\<close> down the first elements of the nested lists,
  one step for each dimension.
\<close>

fun initializer_descend :: "nat \<Rightarrow> expr \<Rightarrow> expr option" where
  "initializer_descend 0 e = Some e"
| "initializer_descend (Suc n) (Initializer t (x # xs)) = initializer_descend n x"
| "initializer_descend (Suc n) e = None"

definition emit_string_element :: "nat \<Rightarrow> information \<Rightarrow> information" where
  "emit_string_element i info =
     uni_printf (Instr Store) (to_code_slice (info\<lparr>answer_const := int i, answer_kind := ACONST\<rparr>))"

definition emit_initialization ::
  "syntax_t \<Rightarrow> information \<Rightarrow> expr \<Rightarrow> nat \<Rightarrow> type_t \<Rightarrow> information option" where
  "emit_initialization sx info nd i arr_type =
     (if emitted_class nd = EXPR_INITIALIZER \<and> type_is_array (emitted_type nd) then
        (case arrays info i of
           None \<Rightarrow> None
         | Some descriptor \<Rightarrow>
             (case initializer_descend (array_get_dim arr_type) nd of
                None \<Rightarrow> None
              | Some e \<Rightarrow>
                  (let is_local = ident_is_local sx i;
                       info1 = (if is_local then to_code_alloc_array_static info
                                else uni_printf (Instr Global_array) info)
                   in emit_one_dimension_initialization sx info1 nd
                        (size_pred (array_get_dim arr_type)) is_local)))
      else if emitted_class nd = EXPR_LITERAL \<and> type_is_array (emitted_type nd) then
        (case (arrays info i, nd) of
           (Some descriptor, Literal t index) \<Rightarrow>
             Some (fold emit_string_element [0 ..< strings_length sx (nat index)]
                     (to_code_alloc_array_static info))
         | _ \<Rightarrow> None)
      else Some info)"

text \<open>
  The loop of \<^verbatim>\<open>emit_variable_declaration\<close> over the bounds of an array. A bound
  that is not a constant makes the array dynamic.
\<close>

fun emit_bounds ::
  "syntax_t \<Rightarrow> information \<Rightarrow> nat \<Rightarrow> bool \<Rightarrow> expr list \<Rightarrow> information option" where
  "emit_bounds sx info i has_init [] = Some info"
| "emit_bounds sx info i has_init (dim_size # rest) =
     (case emit_expression sx (info\<lparr>variable_location := LFREE\<rparr>) dim_size of
        None \<Rightarrow> None
      | Some info1 \<Rightarrow>
          emit_bounds sx
            (if \<not> has_init \<and> answer_kind info1 \<noteq> ACONST
             then info1\<lparr>arrays := (arrays info1)(i := map_option (\<lambda>(s, n). (False, n)) (arrays info1 i))\<rparr>
             else info1)
            i has_init rest)"

definition emit_variable_declaration ::
  "syntax_t \<Rightarrow> information \<Rightarrow> nat \<Rightarrow> expr list \<Rightarrow> expr option \<Rightarrow> bool \<Rightarrow> information option" where
  "emit_variable_declaration sx info i bounds initializer is_local =
     (let has_init = (initializer \<noteq> None);
          t = ident_get_type sx i
      in case
           (if \<not> type_is_array t \<and> is_local then
              (let info1 = uni_printf (Instr Alloca) info in
               case initializer of
                 None \<Rightarrow> Some info1
               | Some e \<Rightarrow>
                   (case emit_expression sx (info1\<lparr>variable_location := LFREE\<rparr>) e of
                      None \<Rightarrow> None
                    | Some info2 \<Rightarrow>
                        Some (if answer_kind info2 = ACONST \<or> answer_kind info2 = AREG
                              then uni_printf (Instr Store) info2 else info2)))
            else if \<not> type_is_array t \<and> \<not> is_local then
              (let info1 = uni_printf (Instr Global_variable) info in
               case initializer of
                 None \<Rightarrow> Some info1
               | Some e \<Rightarrow> emit_expression sx (info1\<lparr>variable_location := LFREE\<rparr>) e)
            else
              (case emit_bounds sx
                      (info\<lparr>arrays := (arrays info)(i \<mapsto> (True, 1 + array_get_dim t))\<rparr>)
                      i has_init bounds of
                 None \<Rightarrow> None
               | Some info1 \<Rightarrow>
                   (case arrays info1 i of
                      None \<Rightarrow> None
                    | Some (is_static, amount) \<Rightarrow>
                        Some (if is_static \<and> \<not> has_init then to_code_alloc_array_static info1
                              else if \<not> has_init then
                                (to_code_alloc_array_dynamic amount
                                   (if \<not> was_dynamic info1 then to_code_stack_save (- 1) info1
                                    else info1))\<lparr>was_dynamic := True\<rparr>
                              else info1)))) of
           None \<Rightarrow> None
         | Some info' \<Rightarrow>
             (case initializer of
                None \<Rightarrow> Some info'
              | Some e \<Rightarrow> emit_initialization sx info' e i t))"

subsection \<open>Statements and function definitions\<close>

text \<open>The line \<^verbatim>\<open>emit_return_statement\<close> prints after the returned expression.\<close>

definition to_code_return :: "syntax_t \<Rightarrow> type_t \<Rightarrow> information \<Rightarrow> information" where
  "to_code_return sx answer_type info =
     (if answer_kind info = ACONST \<and> type_is_integer sx answer_type
      then uni_printf (Ret_i32 (answer_const info)) info
      else if answer_kind info = ACONST \<and> type_is_floating answer_type
      then uni_printf Ret_double info
      else if answer_kind info = AREG then uni_printf Ret_register info
      else info)"

text \<open>
  One equation of \<open>emit_statement\<close> for each case of the switch in
  \<^verbatim>\<open>emit_statement\<close>; the emitters of the labeled, if, while, do, for and return
  statements stand in their case. \<open>emit_substmts\<close> is the loop of
  \<^verbatim>\<open>emit_compound_statement\<close>, \<open>emit_declarators\<close> the loop of
  \<^verbatim>\<open>emit_declaration_statement\<close>, and the case \<open>Decl_func\<close> of
  \<open>emit_declaration\<close> is \<^verbatim>\<open>emit_function_definition\<close>.
\<close>

fun emit_statement :: "syntax_t \<Rightarrow> information \<Rightarrow> stmt \<Rightarrow> information option"
  and emit_compound_statement ::
    "syntax_t \<Rightarrow> information \<Rightarrow> stmt list \<Rightarrow> bool \<Rightarrow> information option"
  and emit_substmts :: "syntax_t \<Rightarrow> information \<Rightarrow> stmt list \<Rightarrow> information option"
  and emit_declaration :: "syntax_t \<Rightarrow> information \<Rightarrow> decl \<Rightarrow> bool \<Rightarrow> information option"
  and emit_declarators :: "syntax_t \<Rightarrow> information \<Rightarrow> decl list \<Rightarrow> information option"
where
  "emit_statement sx info (Stmt_decl declarators) = emit_declarators sx info declarators"
  \<comment> \<open>\<^verbatim>\<open>emit_labeled_statement\<close>\<close>
| "emit_statement sx info (Stmt_label l substmt) =
     (let label = - int l in
      emit_statement sx (to_code_label label (to_code_unconditional_branch label info)) substmt)"
| "emit_statement sx info Stmt_case = Some info"
| "emit_statement sx info Stmt_default = Some info"
| "emit_statement sx info (Stmt_compound substmts) = emit_compound_statement sx info substmts False"
| "emit_statement sx info (Stmt_expr e) = emit_expression sx info e"
| "emit_statement sx info Stmt_null = Some info"
  \<comment> \<open>\<^verbatim>\<open>emit_if_statement\<close>\<close>
| "emit_statement sx info (Stmt_if condition then_substmt else_substmt) =
     (let label_if = label_num info;
          label_else = label_num info + 1;
          label_end = label_num info + 2;
          info0 = info\<lparr>label_num := label_num info + 3, label_true := label_if,
                        label_false := label_else, variable_location := LFREE\<rparr>
      in case emit_expression sx info0 condition of
           None \<Rightarrow> None
         | Some info1 \<Rightarrow>
             (case emit_statement sx (to_code_label label_if (check_type_and_branch info1))
                     then_substmt of
                None \<Rightarrow> None
              | Some info2 \<Rightarrow>
                  (case (case else_substmt of
                           None \<Rightarrow>
                             Some (to_code_label label_else
                                     (to_code_unconditional_branch label_end info2))
                         | Some s \<Rightarrow>
                             emit_statement sx
                               (to_code_label label_else
                                  (to_code_unconditional_branch label_end info2)) s) of
                     None \<Rightarrow> None
                   | Some info3 \<Rightarrow>
                       Some ((to_code_label label_end
                                (to_code_unconditional_branch label_end info3))
                               \<lparr>label_true := label_true info,
                                label_false := label_false info\<rparr>))))"
| "emit_statement sx info Stmt_switch = Some info"
  \<comment> \<open>\<^verbatim>\<open>emit_while_statement\<close>\<close>
| "emit_statement sx info (Stmt_while condition body) =
     (let label_condition = label_num info;
          label_body = label_num info + 1;
          label_end = label_num info + 2;
          info0 = info\<lparr>label_num := label_num info + 3, label_true := label_body,
                        label_false := label_end, label_break := label_end,
                        label_continue := label_body\<rparr>;
          info1 = to_code_label label_condition
                    (to_code_unconditional_branch label_condition info0)
      in case emit_expression sx (info1\<lparr>variable_location := LFREE\<rparr>) condition of
           None \<Rightarrow> None
         | Some info2 \<Rightarrow>
             (case emit_statement sx (to_code_label label_body (check_type_and_branch info2))
                     body of
                None \<Rightarrow> None
              | Some info3 \<Rightarrow>
                  Some ((to_code_label label_end
                           (to_code_unconditional_branch label_condition info3))
                          \<lparr>label_true := label_true info, label_false := label_false info,
                           label_break := label_break info,
                           label_continue := label_continue info\<rparr>)))"
  \<comment> \<open>\<^verbatim>\<open>emit_do_statement\<close>\<close>
| "emit_statement sx info (Stmt_do body condition) =
     (let label_loop = label_num info;
          label_end = label_num info + 1;
          info0 = info\<lparr>label_num := label_num info + 2, label_true := label_loop,
                        label_false := label_end, label_break := label_end,
                        label_continue := label_loop\<rparr>;
          info1 = to_code_label label_loop (to_code_unconditional_branch label_loop info0)
      in case emit_statement sx info1 body of
           None \<Rightarrow> None
         | Some info2 \<Rightarrow>
             (case emit_expression sx (info2\<lparr>variable_location := LFREE\<rparr>) condition of
                None \<Rightarrow> None
              | Some info3 \<Rightarrow>
                  Some ((to_code_label label_end (check_type_and_branch info3))
                          \<lparr>label_true := label_true info, label_false := label_false info,
                           label_break := label_break info,
                           label_continue := label_continue info\<rparr>)))"
  \<comment> \<open>\<^verbatim>\<open>emit_for_statement\<close>\<close>
| "emit_statement sx info (Stmt_for inition condition increment body) =
     (let label_condition = label_num info;
          label_body = label_num info + 1;
          label_incr = label_num info + 2;
          label_end = label_num info + 3;
          info0 = info\<lparr>label_num := label_num info + 4, label_true := label_body,
                        label_false := label_end, label_break := label_end,
                        label_continue := label_body\<rparr>
      in case (case inition of None \<Rightarrow> Some info0 | Some s \<Rightarrow> emit_statement sx info0 s) of
           None \<Rightarrow> None
         | Some info1 \<Rightarrow>
             (case (case condition of
                      None \<Rightarrow>
                        Some (to_code_label label_condition
                                (to_code_unconditional_branch label_condition info1))
                    | Some e \<Rightarrow>
                        emit_expression sx
                          (to_code_label label_condition
                             (to_code_unconditional_branch label_condition info1)) e) of
                None \<Rightarrow> None
              | Some info2 \<Rightarrow>
                  (case (case increment of
                           None \<Rightarrow> Some (to_code_label label_incr (check_type_and_branch info2))
                         | Some e \<Rightarrow>
                             emit_expression sx
                               (to_code_label label_incr (check_type_and_branch info2)) e) of
                     None \<Rightarrow> None
                   | Some info3 \<Rightarrow>
                       (case emit_statement sx
                               (to_code_label label_body
                                  (to_code_unconditional_branch label_condition info3)) body of
                          None \<Rightarrow> None
                        | Some info4 \<Rightarrow>
                            Some ((to_code_label label_end
                                     (to_code_unconditional_branch label_incr info4))
                                    \<lparr>label_true := label_true info,
                                     label_false := label_false info,
                                     label_break := label_break info,
                                     label_continue := label_continue info\<rparr>)))))"
| "emit_statement sx info (Stmt_goto l) = Some (to_code_unconditional_branch (int l) info)"
| "emit_statement sx info Stmt_continue =
     Some (to_code_unconditional_branch (label_continue info) info)"
| "emit_statement sx info Stmt_break =
     Some (to_code_unconditional_branch (label_break info) info)"
  \<comment> \<open>\<^verbatim>\<open>emit_return_statement\<close>\<close>
| "emit_statement sx info (Stmt_return expression) =
     (let info1 = (if was_dynamic info then to_code_stack_load (- 1) info else info) in
      if is_main info1 then Some info1
      else
        (case expression of
           Some e \<Rightarrow>
             (case emit_expression sx (info1\<lparr>variable_location := LREG\<rparr>) e of
                None \<Rightarrow> None
              | Some info2 \<Rightarrow> Some (to_code_return sx (emitted_type e) info2))
         | None \<Rightarrow> Some (uni_printf Ret_void info1)))"
| "emit_statement sx info Stmt_other = Some info"
  \<comment> \<open>\<^verbatim>\<open>emit_compound_statement\<close>\<close>
| "emit_compound_statement sx info substmts is_function_body =
     (let block = block_num info;
          info0 = info\<lparr>block_num := block_num info + 1\<rparr>;
          info1 = (if \<not> is_function_body then to_code_stack_save block info0 else info0)
      in case emit_substmts sx info1 substmts of
           None \<Rightarrow> None
         | Some info2 \<Rightarrow>
             Some (if \<not> is_function_body then to_code_stack_load block info2 else info2))"
| "emit_substmts sx info [] = Some info"
| "emit_substmts sx info (substmt # rest) =
     (case emit_statement sx info substmt of
        None \<Rightarrow> None
      | Some info1 \<Rightarrow> emit_substmts sx info1 rest)"
  \<comment> \<open>\<^verbatim>\<open>emit_declaration\<close>\<close>
| "emit_declaration sx info (Decl_var i bounds initializer) is_local =
     emit_variable_declaration sx info i bounds initializer is_local"
  \<comment> \<open>\<^verbatim>\<open>emit_function_definition\<close>\<close>
| "emit_declaration sx info (Decl_func ref_ident params body) is_local =
     (case (ident_get_type sx ref_ident, body) of
        (TYPE_FUNCTION return_type parameter_types, Stmt_compound substmts) \<Rightarrow>
          (let ret_type = (if ref_ident \<noteq> ref_main sx then return_type else TYPE_INTEGER);
               info0 = uni_printf (Define ref_ident) (info\<lparr>was_dynamic := False\<rparr>);
               info1 = (if ref_ident = ref_main sx then info0\<lparr>is_main := True\<rparr> else info0);
               info2 = info1\<lparr>io := io info1
                         @ concat (replicate (length parameter_types) [Instr Alloca, Instr Store])\<rparr>
           in case emit_compound_statement sx info2 substmts True of
                None \<Rightarrow> None
              | Some info3 \<Rightarrow>
                  Some (uni_printf End_define
                          (if type_is_void ret_type then
                             uni_printf Ret_void
                               (if was_dynamic info3 then to_code_stack_load (- 1) info3 else info3)
                           else if ref_ident = ref_main sx then
                             (uni_printf (Ret_i32 0) info3)\<lparr>is_main := False\<rparr>
                           else info3)))
      | _ \<Rightarrow> None)"
| "emit_declaration sx info Decl_other is_local = Some info"
| "emit_declarators sx info [] = Some info"
| "emit_declarators sx info (declarator # rest) =
     (case emit_declaration sx info declarator True of
        None \<Rightarrow> None
      | Some info1 \<Rightarrow> emit_declarators sx info1 rest)"

text \<open>The state in which \<^verbatim>\<open>encode_to_llvm\<close> starts; the label registers are not set.\<close>

definition information_create ::
  "item_t \<Rightarrow> item_t \<Rightarrow> item_t \<Rightarrow> item_t \<Rightarrow> item_t \<Rightarrow> item_t \<Rightarrow> answer_t \<Rightarrow> information" where
  "information_create lt lf lb lc le ac ak =
     \<lparr>label_num = 1, block_num = 1, variable_location = LREG, answer_const = ac,
      answer_kind = ak, label_true = lt, label_false = lf, label_break = lb,
      label_continue = lc, label_ternary_end = le, arrays = Map.empty,
      was_stack_functions = False, was_dynamic = False, was_abs = False, was_fabs = False,
      is_main = False, io = []\<rparr>"

section \<open>Reading the emitted text\<close>

text \<open>
  The lines that only statements and function definitions print: the stack save and
  restore of the slot of a block, the returns, and the head and the end of a function
  definition. Slot \<open>- 1\<close> is the slot of the function itself, saved by the
  declaration of the first dynamic array.
\<close>

fun structural :: "ir \<Rightarrow> bool" where
  "structural (Stack_save n) = (n \<noteq> - 1)"
| "structural (Stack_restore n) = (n \<noteq> - 1)"
| "structural (Ret_i32 n) = True"
| "structural Ret_double = True"
| "structural Ret_register = True"
| "structural Ret_void = True"
| "structural (Define n) = True"
| "structural End_define = True"
| "structural _ = False"

fun is_ret :: "ir \<Rightarrow> bool" where
  "is_ret (Ret_i32 n) = True"
| "is_ret Ret_double = True"
| "is_ret Ret_register = True"
| "is_ret Ret_void = True"
| "is_ret _ = False"

text \<open>
  How often a slot is saved and how often it is restored in a text, and the path that
  control takes through a text from a given line: it follows every unconditional branch
  to the line of its label and ends at a return, at a conditional branch, at a branch to
  a label the text does not place, or at the end of the text. \<open>fuel\<close> bounds the
  number of lines followed.
\<close>

definition saves :: "item_t \<Rightarrow> ir list \<Rightarrow> nat" where
  "saves k text = count_list text (Stack_save k)"

definition restores :: "item_t \<Rightarrow> ir list \<Rightarrow> nat" where
  "restores k text = count_list text (Stack_restore k)"

definition excess :: "item_t \<Rightarrow> ir list \<Rightarrow> int" where
  "excess k text = int (saves k text) - int (restores k text)"

fun find_label :: "item_t \<Rightarrow> ir list \<Rightarrow> nat option" where
  "find_label l [] = None"
| "find_label l (x # xs) =
     (if x = Label l then Some 0 else map_option Suc (find_label l xs))"

fun path_from :: "nat \<Rightarrow> ir list \<Rightarrow> nat \<Rightarrow> ir list" where
  "path_from 0 text pc = []"
| "path_from (Suc fuel) text pc =
     (if pc \<ge> length text then []
      else
        (case text ! pc of
           Br l \<Rightarrow>
             Br l # (case find_label l text of None \<Rightarrow> [] | Some i \<Rightarrow> path_from fuel text i)
         | Br_cond t f \<Rightarrow> [Br_cond t f]
         | Ret_i32 n \<Rightarrow> [Ret_i32 n]
         | Ret_double \<Rightarrow> [Ret_double]
         | Ret_register \<Rightarrow> [Ret_register]
         | Ret_void \<Rightarrow> [Ret_void]
         | x \<Rightarrow> x # path_from fuel text (Suc pc)))"

text \<open>Statements and declarations that contain no function definition.\<close>

fun no_definition :: "stmt \<Rightarrow> bool"
  and no_definitions :: "stmt list \<Rightarrow> bool"
  and no_definition_decl :: "decl \<Rightarrow> bool"
  and no_definition_decls :: "decl list \<Rightarrow> bool"
where
  "no_definition (Stmt_decl ds) = no_definition_decls ds"
| "no_definition (Stmt_label l s) = no_definition s"
| "no_definition (Stmt_compound ss) = no_definitions ss"
| "no_definition (Stmt_if c t e) =
     (no_definition t \<and> (case e of None \<Rightarrow> True | Some s \<Rightarrow> no_definition s))"
| "no_definition (Stmt_while c b) = no_definition b"
| "no_definition (Stmt_do b c) = no_definition b"
| "no_definition (Stmt_for i c n b) =
     ((case i of None \<Rightarrow> True | Some s \<Rightarrow> no_definition s) \<and> no_definition b)"
| "no_definition Stmt_case = True"
| "no_definition Stmt_default = True"
| "no_definition (Stmt_expr e) = True"
| "no_definition Stmt_null = True"
| "no_definition Stmt_switch = True"
| "no_definition (Stmt_goto l) = True"
| "no_definition Stmt_continue = True"
| "no_definition Stmt_break = True"
| "no_definition (Stmt_return e) = True"
| "no_definition Stmt_other = True"
| "no_definitions [] = True"
| "no_definitions (s # ss) = (no_definition s \<and> no_definitions ss)"
| "no_definition_decl (Decl_var i bs e) = True"
| "no_definition_decl (Decl_func i ps b) = False"
| "no_definition_decl Decl_other = True"
| "no_definition_decls [] = True"
| "no_definition_decls (d # ds) = (no_definition_decl d \<and> no_definition_decls ds)"

text \<open>
  \<open>kept info info'\<close>: from \<open>info\<close> to \<open>info'\<close> the labels of \<open>break\<close> and
  \<open>continue\<close>, the block counter and the main flag are the same, and no structural
  line was printed. \<open>labels_kept k\<close>: the two labels are the same, and as many saves
  as restores of slot \<open>k\<close> were printed. \<open>main_kept\<close>: inside \<^verbatim>\<open>main\<close>, the state
  is still inside \<^verbatim>\<open>main\<close> and no return was printed.
\<close>

definition kept :: "information \<Rightarrow> information \<Rightarrow> bool" where
  "kept info info' =
     (label_break info' = label_break info \<and> label_continue info' = label_continue info
      \<and> block_num info' = block_num info \<and> is_main info' = is_main info
      \<and> filter structural (io info') = filter structural (io info))"

definition labels_kept :: "item_t \<Rightarrow> information \<Rightarrow> information \<Rightarrow> bool" where
  "labels_kept k info info' =
     (label_break info' = label_break info \<and> label_continue info' = label_continue info
      \<and> excess k (io info') = excess k (io info))"

definition main_kept :: "information \<Rightarrow> information \<Rightarrow> bool" where
  "main_kept info info' =
     (is_main info \<longrightarrow> is_main info' \<and> filter is_ret (io info') = filter is_ret (io info))"

text \<open>
  \<open>emitted_after xs lo info\<close>: the text printed so far starts with \<open>xs\<close>, every
  slot saved or restored after \<open>xs\<close> is the slot of the function or a block numbered
  \<open>lo\<close> or more, and the block counter has reached \<open>lo\<close>.
\<close>

fun slot_from :: "item_t \<Rightarrow> ir \<Rightarrow> bool" where
  "slot_from lo (Stack_save k) = (k = - 1 \<or> lo \<le> k)"
| "slot_from lo (Stack_restore k) = (k = - 1 \<or> lo \<le> k)"
| "slot_from lo _ = True"

definition emitted_after :: "ir list \<Rightarrow> item_t \<Rightarrow> information \<Rightarrow> bool" where
  "emitted_after xs lo info =
     (lo \<le> block_num info \<and> prefix xs (io info)
      \<and> list_all (slot_from lo) (drop (length xs) (io info)))"


section \<open>Two's-complement arithmetic as the specification states it\<close>

text \<open>
  The value of a folded integer expression according to the specification: the
  operation on the mathematical integers, reduced to the \<open>w\<close>-bit two's-complement
  range. \<open>wrap_item w\<close> is that reduction. The operands are the signed values of the
  two literals; the quotient truncates towards zero. A relational, equality or logical operator gives a truth value, the
  other operators an integer.
\<close>

definition wrap_item :: "nat \<Rightarrow> int \<Rightarrow> int" where
  "wrap_item w x = (x + 2 ^ (w - 1)) mod 2 ^ w - 2 ^ (w - 1)"

datatype folded_t = Folded_integer int | Folded_boolean bool

fun twos_complement :: "nat \<Rightarrow> binary_t \<Rightarrow> int \<Rightarrow> int \<Rightarrow> folded_t option" where
  "twos_complement w BIN_MUL a b = Some (Folded_integer (wrap_item w (a * b)))"
| "twos_complement w BIN_DIV a b = Some (Folded_integer (wrap_item w (a sdiv b)))"
| "twos_complement w BIN_REM a b = Some (Folded_integer (a smod b))"
| "twos_complement w BIN_ADD a b = Some (Folded_integer (wrap_item w (a + b)))"
| "twos_complement w BIN_SUB a b = Some (Folded_integer (wrap_item w (a - b)))"
| "twos_complement w BIN_SHL a b = Some (Folded_integer (wrap_item w (a * 2 ^ nat b)))"
| "twos_complement w BIN_SHR a b = Some (Folded_integer (a div 2 ^ nat b))"
| "twos_complement w BIN_LT a b = Some (Folded_boolean (a < b))"
| "twos_complement w BIN_GT a b = Some (Folded_boolean (a > b))"
| "twos_complement w BIN_LE a b = Some (Folded_boolean (a \<le> b))"
| "twos_complement w BIN_GE a b = Some (Folded_boolean (a \<ge> b))"
| "twos_complement w BIN_EQ a b = Some (Folded_boolean (a = b))"
| "twos_complement w BIN_NE a b = Some (Folded_boolean (a \<noteq> b))"
| "twos_complement w BIN_AND a b = Some (Folded_integer (a AND b))"
| "twos_complement w BIN_XOR a b = Some (Folded_integer (a XOR b))"
| "twos_complement w BIN_OR a b = Some (Folded_integer (a OR b))"
| "twos_complement w BIN_LOG_AND a b = Some (Folded_boolean (a \<noteq> 0 \<and> b \<noteq> 0))"
| "twos_complement w BIN_LOG_OR a b = Some (Folded_boolean (a \<noteq> 0 \<or> b \<noteq> 0))"
| "twos_complement w _ a b = None"

text \<open>
  What a literal node holds, read the way the specification speaks of it: an integer
  literal holds the signed value of its item, a boolean literal a truth value.
\<close>

fun literal_value :: "'w::len word node \<Rightarrow> folded_t option" where
  "literal_value (Node i EXPR_LITERAL TYPE_INTEGER RVALUE (Items [v]) [] loc) =
     Some (Folded_integer (sint v))"
| "literal_value (Node i EXPR_LITERAL TYPE_BOOLEAN RVALUE (Items [v]) [] loc) =
     Some (Folded_boolean (v \<noteq> 0))"
| "literal_value _ = None"

definition is_integer_literal :: "'w::len word node \<Rightarrow> bool" where
  "is_integer_literal nd =
     (case nd of
        Node i EXPR_LITERAL t g (Items [v]) [] loc \<Rightarrow> t = TYPE_INTEGER \<or> type_is_enum t
      | _ \<Rightarrow> False)"

text \<open>The binary operators that the claim about folding lists.\<close>

definition folded_operators :: "binary_t list" where
  "folded_operators =
     [BIN_MUL, BIN_DIV, BIN_REM, BIN_ADD, BIN_SUB, BIN_SHL, BIN_SHR,
      BIN_LT, BIN_GT, BIN_LE, BIN_GE, BIN_EQ, BIN_NE,
      BIN_AND, BIN_XOR, BIN_OR, BIN_LOG_AND, BIN_LOG_OR]"

section \<open>Concrete inputs\<close>

text \<open>
  Tables and states for the concrete runs below, with 32-bit items. No run contains a
  floating operation, so the floating parameters are constant functions. In the
  string pool, entry 0 is the format string of twenty \<open>%i\<close>.
\<close>

definition example_floating :: "32 word floating_t" where
  "example_floating =
     \<lparr>double_of_item = (\<lambda>v. 0), node_set_arg_double = (\<lambda>d. [0, 0]),
      node_get_arg_double = (\<lambda>vs. 0),
      double_mul = (\<lambda>a b. 0), double_div = (\<lambda>a b. 0),
      double_add = (\<lambda>a b. 0), double_sub = (\<lambda>a b. 0),
      double_lt = (\<lambda>a b. False), double_gt = (\<lambda>a b. False),
      double_le = (\<lambda>a b. False), double_ge = (\<lambda>a b. False),
      double_eq = (\<lambda>a b. False), double_ne = (\<lambda>a b. False)\<rparr>"

definition example_syntax :: syntax_t where
  "example_syntax =
     \<lparr>type_is_integer = (\<lambda>t. t = TYPE_INTEGER \<or> t = TYPE_CHARACTER),
      type_is_string = (\<lambda>t. t = TYPE_ARRAY TYPE_CHARACTER),
      type_string = TYPE_ARRAY TYPE_CHARACTER,
      string_get = (\<lambda>i. if i = 0 then concat (replicate 20 [37, 105]) else []),
      strings_length = (\<lambda>i. if i = 0 then 40 else 0),
      ident_get_type = (\<lambda>i. TYPE_INTEGER),
      ident_is_local = (\<lambda>i. True),
      ref_main = 0\<rparr>"

definition example_builder :: builder where
  "example_builder = \<lparr>tree_size = 30, removed = {}, reports = []\<rparr>"

definition integer_literal :: "nat \<Rightarrow> 32 word \<Rightarrow> 32 word node" where
  "integer_literal i v = Node i EXPR_LITERAL TYPE_INTEGER RVALUE (Items [v]) [] (0, 0)"

text \<open>The state of the emitter at the start, with the labels 5 and 6 in the label registers.\<close>

definition example_information :: information where
  "example_information = information_create 5 6 0 0 0 0 ANULL"

text \<open>
  A table of identifiers in which identifier 0 is \<^verbatim>\<open>main\<close>, a function without
  parameters.
\<close>

definition example_functions :: syntax_t where
  "example_functions =
     example_syntax\<lparr>ident_get_type :=
       (\<lambda>i. if i = 0 then TYPE_FUNCTION TYPE_INTEGER [] else TYPE_INTEGER)\<rparr>"

section \<open>Properties of the builder\<close>

subsection \<open>Broken initializers\<close>

lemma check_array_inits_broken:
  "check_array_inits fp sx bldr t (replicate n node_broken) = (True, replicate n node_broken, bldr)"
  by (induction n) simp_all

text \<open>
  C9. For every expected type, \<^verbatim>\<open>check_assignment_operands\<close> accepts the broken
  node: it returns true, leaves the node as it is and reports nothing (the builder, and
  with it the list of reports, is unchanged), so no \<open>wrong_init\<close> is reported for it
  and the caller's assignment check does not fail.
\<close>

theorem check_assignment_operands_broken:
  "check_assignment_operands fp sx bldr expected_type node_broken = (True, node_broken, bldr)"
  by simp

theorem check_assignment_operands_broken_witness:
  "check_assignment_operands example_floating example_syntax example_builder TYPE_FLOATING
     node_broken = (True, node_broken, example_builder)"
  by (rule check_assignment_operands_broken)

subsection \<open>The limit on printf arguments\<close>

text \<open>
  The scan of the format string alone admits 20 placeholders and reports
  \<open>too_many_printf_args\<close> at the 21st.
\<close>

lemma evaluate_args_from_20_placeholders:
  "evaluate_args_from sx loc (concat (replicate 20 [37, 105])) 0
      (replicate MAX_PRINTF_ARGS TYPE_VOID) (replicate MAX_PRINTF_ARGS 0) bldr =
     (20, replicate 20 TYPE_INTEGER, replicate 20 105, bldr)"
  by (simp add: MAX_PRINTF_ARGS_def eval_nat_numeral)

lemma evaluate_args_from_21_placeholders:
  "evaluate_args_from sx loc (concat (replicate 21 [37, 105])) 0
      (replicate MAX_PRINTF_ARGS TYPE_VOID) (replicate MAX_PRINTF_ARGS 0) bldr =
     (0, replicate 20 TYPE_INTEGER, replicate 20 105,
      semantic_error bldr loc too_many_printf_args)"
  by (simp add: MAX_PRINTF_ARGS_def eval_nat_numeral)

text \<open>
  C2. A printf call with a format string (of any content, so also one with exactly 20
  placeholders) followed by 20 value arguments is rejected: the argument vector has 21
  elements, and \<^verbatim>\<open>build_printf_expression\<close> reports \<open>too_many_printf_args\<close> for
  every vector of 20 or more before it looks at the format string.
\<close>

theorem build_printf_expression_20_values:
  "build_printf_expression fp sx bldr callee (format_str # replicate 20 argument) r_loc =
     (node_broken, semantic_error bldr r_loc too_many_printf_args)"
  by (simp add: build_printf_expression_def MAX_PRINTF_ARGS_def)

theorem build_printf_expression_20_values_witness:
  "build_printf_expression example_floating example_syntax example_builder
     (Node 0 EXPR_IDENTIFIER (TYPE_FUNCTION TYPE_INTEGER [TYPE_VARARG]) LVALUE (Items [0]) [] (0, 6))
     (Node 1 EXPR_LITERAL (TYPE_ARRAY TYPE_CHARACTER) RVALUE (Items [0]) [] (7, 49)
      # replicate 20 (integer_literal 2 1)) (110, 111) =
     (node_broken, \<lparr>tree_size = 30, removed = {}, reports = [((110, 111), too_many_printf_args)]\<rparr>)"
  using build_printf_expression_20_values
    [of example_floating example_syntax example_builder
        "Node 0 EXPR_IDENTIFIER (TYPE_FUNCTION TYPE_INTEGER [TYPE_VARARG]) LVALUE (Items [0]) [] (0, 6)"
        "Node 1 EXPR_LITERAL (TYPE_ARRAY TYPE_CHARACTER) RVALUE (Items [0]) [] (7, 49)"
        "integer_literal 2 1" "(110, 111)"]
  by (simp add: semantic_error_def example_builder_def)

subsection \<open>Signed arithmetic on items\<close>

text \<open>
  The signed value of the result of each C operator, where C defines one, is the
  mathematical result reduced to the two's-complement range.
\<close>

lemma abs_sdiv: "\<bar>a sdiv b\<bar> = \<bar>a\<bar> div \<bar>b\<bar>" for a b :: int
  by (cases "a = 0"; cases "b = 0") (simp_all add: signed_divide_int_def abs_mult div_int_pos_iff)

lemma abs_smod: "\<bar>a smod b\<bar> = \<bar>a\<bar> mod \<bar>b\<bar>" for a b :: int
  by (cases "a = 0") (simp_all add: signed_modulo_int_def abs_mult mod_int_pos_iff)

lemma sdiv_bounds:
  fixes a b :: int
  assumes lo: "- (2 ^ n) \<le> a" and hi: "a < 2 ^ n" and nz: "b \<noteq> 0"
    and nov: "\<not> (a = - (2 ^ n) \<and> b = - 1)"
  shows "- (2 ^ n) \<le> a sdiv b \<and> a sdiv b < 2 ^ n"
proof -
  have b1: "1 \<le> \<bar>b\<bar>" using nz by simp
  have le: "\<bar>a\<bar> div \<bar>b\<bar> \<le> \<bar>a\<bar>"
  proof (cases "a = 0 \<or> \<bar>b\<bar> = 1")
    case True
    then show ?thesis by auto
  next
    case False
    with b1 have "0 < \<bar>a\<bar>" "1 < \<bar>b\<bar>" by auto
    then have "\<bar>a\<bar> div \<bar>b\<bar> < \<bar>a\<bar>" by (rule int_div_less_self)
    then show ?thesis by simp
  qed
  have aa: "\<bar>a\<bar> \<le> 2 ^ n" using lo hi by simp
  have q: "\<bar>a sdiv b\<bar> \<le> 2 ^ n" using le aa by (simp add: abs_sdiv)
  have "a sdiv b \<noteq> 2 ^ n"
  proof
    assume eq: "a sdiv b = 2 ^ n"
    then have "\<bar>a\<bar> div \<bar>b\<bar> = 2 ^ n" using abs_sdiv [of a b] by simp
    with le aa have a_abs: "\<bar>a\<bar> = 2 ^ n" by simp
    with hi have a_eq: "a = - (2 ^ n)" by simp
    have "\<bar>b\<bar> = 1"
    proof (rule ccontr)
      assume "\<bar>b\<bar> \<noteq> 1"
      with b1 have "1 < \<bar>b\<bar>" by simp
      moreover have "0 < \<bar>a\<bar>" using a_abs by simp
      ultimately have "\<bar>a\<bar> div \<bar>b\<bar> < \<bar>a\<bar>"
        by (simp add: int_div_less_self)
      with \<open>\<bar>a\<bar> div \<bar>b\<bar> = 2 ^ n\<close> a_abs show False by simp
    qed
    then have "b = 1 \<or> b = - 1" by auto
    with nov a_eq have "b = 1" by auto
    with a_eq eq show False by (simp add: signed_divide_int_def)
  qed
  with q show ?thesis by arith
qed

lemma smod_bounds:
  fixes a b :: int
  assumes lo: "- (2 ^ n) \<le> a" and hi: "a < 2 ^ n" and nz: "b \<noteq> 0"
  shows "- (2 ^ n) \<le> a smod b \<and> a smod b < 2 ^ n"
proof -
  have "\<bar>a\<bar> mod \<bar>b\<bar> \<le> \<bar>a\<bar>"
    by (simp add: zmod_le_nonneg_dividend)
  moreover have "\<bar>a\<bar> \<le> 2 ^ n" using lo hi by simp
  ultimately have q: "\<bar>a smod b\<bar> \<le> 2 ^ n" by (simp add: abs_smod)
  have "a smod b \<noteq> 2 ^ n"
  proof
    assume eq: "a smod b = 2 ^ n"
    then have pos: "0 < a smod b" by simp
    have "0 < a"
    proof (rule ccontr)
      assume "\<not> 0 < a"
      then have "sgn a \<le> 0" by (simp add: sgn_if)
      moreover have "0 \<le> \<bar>a\<bar> mod \<bar>b\<bar>" using nz by (simp add: mod_int_pos_iff)
      ultimately have "a smod b \<le> 0"
        unfolding signed_modulo_int_def by (rule mult_nonpos_nonneg)
      with pos show False by simp
    qed
    then have "a smod b \<le> a" by (simp add: signed_modulo_int_def zmod_le_nonneg_dividend)
    with eq hi show False by simp
  qed
  with q show ?thesis by arith
qed

lemma wrap_item_signed_take_bit: "0 < w \<Longrightarrow> wrap_item w x = signed_take_bit (w - 1) x"
  by (simp add: wrap_item_def signed_take_bit_eq_take_bit_shift take_bit_eq_mod)

lemma sint_ITEM_MIN: "sint (ITEM_MIN :: 'w::len word) = - (2 ^ (LENGTH('w) - 1))"
  unfolding ITEM_MIN_def
  by (smt (verit, best) push_bit_minus push_bit_minus_one push_bit_of_int
    signed_take_bit_int_eq_self sint_ge sint_lt sint_sbintrunc'
    sint_word_minus word_of_int_neg_1)

lemma sint_word_of_int_range:
  "- (2 ^ (LENGTH('w) - 1)) \<le> k \<Longrightarrow> k < 2 ^ (LENGTH('w) - 1) \<Longrightarrow>
   sint (word_of_int k :: 'w::len word) = k"
  by (simp add: sint_sbintrunc' signed_take_bit_int_eq_self)

lemma sint_item_div:
  "item_div a b = Inr v \<Longrightarrow> sint v = sint a sdiv sint (b :: 'w::len word)"
proof -
  assume h: "item_div a b = Inr v"
  then have nz: "b \<noteq> 0" and nov: "\<not> (a = ITEM_MIN \<and> b = - 1)"
    and v: "v = word_of_int (sint a sdiv sint b)"
    by (auto simp: item_div_def split: if_splits)
  have nz': "sint b \<noteq> 0" using nz by (metis signed_word_eqI sint_0)
  have nov': "\<not> (sint a = - (2 ^ (LENGTH('w) - 1)) \<and> sint b = - 1)"
    using nov by (metis signed_word_eqI sint_ITEM_MIN sint_n1)
  show ?thesis
    unfolding v
    using sdiv_bounds [OF sint_ge [of a] sint_lt [of a] nz' nov']
    by (simp add: sint_word_of_int_range)
qed

lemma sint_item_rem:
  "item_rem a b = Inr v \<Longrightarrow> sint v = sint a smod sint (b :: 'w::len word)"
proof -
  assume h: "item_rem a b = Inr v"
  then have nz: "b \<noteq> 0" and v: "v = word_of_int (sint a smod sint b)"
    by (auto simp: item_rem_def split: if_splits)
  have nz': "sint b \<noteq> 0" using nz by (metis signed_word_eqI sint_0)
  show ?thesis
    unfolding v
    using smod_bounds [OF sint_ge [of a] sint_lt [of a] nz']
    by (simp add: sint_word_of_int_range)
qed

lemma unat_nat_sint: "0 \<le> sint b \<Longrightarrow> unat b = nat (sint (b :: 'w::len word))"
proof -
  assume "0 \<le> sint b"
  moreover have "sint b < 2 ^ LENGTH('w)"
    using sint_lt [of b] by (smt (verit) power_increasing diff_le_self)
  ultimately have "uint b = sint b"
    by (simp add: uint_sint take_bit_int_eq_self)
  then show ?thesis by (simp add: unat_eq_nat_uint)
qed

lemma sint_item_div_wrap:
  "item_div a b = Inr v \<Longrightarrow>
     sint v = wrap_item LENGTH('w) (sint a sdiv sint (b :: 'w::len word))"
  using sint_item_div [of a b v] sint_ge [of v] sint_lt [of v]
  by (simp add: wrap_item_signed_take_bit signed_take_bit_int_eq_self)

lemma sint_item_shl:
  assumes "0 \<le> sint b" and "sint b < int LENGTH('w)"
  shows "sint (item_shl a b) = wrap_item LENGTH('w) (sint a * 2 ^ nat (sint (b :: 'w::len word)))"
proof -
  have u: "unat b mod LENGTH('w) = nat (sint b)"
    using assms by (simp add: unat_nat_sint)
  have "sint (item_shl a b) = signed_take_bit (LENGTH('w) - 1) (push_bit (nat (sint b)) (sint a))"
    unfolding item_shl_def u by (simp only: signed_push_bit_eq One_nat_def)
  then show ?thesis
    by (simp add: wrap_item_signed_take_bit push_bit_eq_mult)
qed

lemma sint_item_shr:
  assumes "0 \<le> sint b" and "sint b < int LENGTH('w)"
  shows "sint (item_shr a b) = sint a div 2 ^ nat (sint (b :: 'w::len word))"
proof -
  have u: "unat b mod LENGTH('w) = nat (sint b)"
    using assms by (simp add: unat_nat_sint)
  show ?thesis
    unfolding item_shr_def u by (simp add: sint_signed_drop_bit_eq drop_bit_eq_div)
qed

lemma sint_mul_wrap: "sint (a * b :: 'w::len word) = wrap_item LENGTH('w) (sint a * sint b)"
  by (simp add: wrap_item_signed_take_bit sint_word_ariths)

lemma sint_add_wrap: "sint (a + b :: 'w::len word) = wrap_item LENGTH('w) (sint a + sint b)"
  by (simp add: wrap_item_signed_take_bit sint_word_ariths)

lemma sint_sub_wrap: "sint (a - b :: 'w::len word) = wrap_item LENGTH('w) (sint a - sint b)"
  by (simp add: wrap_item_signed_take_bit sint_word_ariths)

lemma sint_eq_iff: "(sint a = sint b) = (a = (b :: 'w::len word))"
  by (auto intro: signed_word_eqI)

lemma sint_eq_0_iff: "(sint a = 0) = (a = (0 :: 'w::len word))"
  using sint_eq_iff [of a 0] by simp

subsection \<open>Folding of integer literals\<close>

lemma fold_integer_twos_complement:
  fixes a b :: "'w::len word"
  assumes op: "op \<in> set folded_operators"
    and dv: "op = BIN_DIV \<or> op = BIN_REM \<Longrightarrow> b \<noteq> 0 \<and> \<not> (a = ITEM_MIN \<and> b = - 1)"
    and sh: "op = BIN_SHL \<or> op = BIN_SHR \<Longrightarrow> 0 \<le> sint b \<and> sint b < int LENGTH('w)"
  shows "\<exists>nd. fold_integer bldr a b op loc = Inr (nd, bldr\<lparr>tree_size := Suc (tree_size bldr)\<rparr>)
           \<and> node_get_index nd = tree_size bldr \<and> node_get_children nd = []
           \<and> node_get_location nd = loc
           \<and> literal_value nd = twos_complement LENGTH('w) op (sint a) (sint b)"
proof -
  have d: "op = BIN_DIV \<Longrightarrow> item_div a b = Inr (word_of_int (sint a sdiv sint b))"
    using dv by (simp add: item_div_def)
  have r: "op = BIN_REM \<Longrightarrow> item_rem a b = Inr (word_of_int (sint a smod sint b))"
    using dv by (simp add: item_rem_def)
  note defs = fold_integer_def integer_literal_of_def build_integer_literal_expression_def
    build_boolean_literal_expression_def node_create_def
  from op consider
      "op = BIN_MUL" | "op = BIN_DIV" | "op = BIN_REM" | "op = BIN_ADD" | "op = BIN_SUB"
    | "op = BIN_SHL" | "op = BIN_SHR" | "op = BIN_LT" | "op = BIN_GT" | "op = BIN_LE"
    | "op = BIN_GE" | "op = BIN_EQ" | "op = BIN_NE" | "op = BIN_AND" | "op = BIN_XOR"
    | "op = BIN_OR" | "op = BIN_LOG_AND" | "op = BIN_LOG_OR"
    by (auto simp: folded_operators_def)
  then show ?thesis
  proof cases
    case 1 then show ?thesis by (simp add: defs sint_mul_wrap)
  next
    case 2 then show ?thesis using d sint_item_div_wrap [of a b] by (simp add: defs)
  next
    case 3 then show ?thesis using r sint_item_rem [of a b] by (simp add: defs)
  next
    case 4 then show ?thesis by (simp add: defs sint_add_wrap)
  next
    case 5 then show ?thesis by (simp add: defs sint_sub_wrap)
  next
    case 6 then show ?thesis using sh sint_item_shl [of b a] by (simp add: defs)
  next
    case 7 then show ?thesis using sh sint_item_shr [of b a] by (simp add: defs)
  next
    case 8 then show ?thesis by (simp add: defs word_sless_alt)
  next
    case 9 then show ?thesis by (simp add: defs word_sless_alt)
  next
    case 10 then show ?thesis by (simp add: defs word_sle_eq)
  next
    case 11 then show ?thesis by (simp add: defs word_sle_eq)
  next
    case 12 then show ?thesis by (simp add: defs sint_eq_iff)
  next
    case 13 then show ?thesis by (simp add: defs sint_eq_iff)
  next
    case 14 then show ?thesis by (simp add: defs signed_and_eq)
  next
    case 15 then show ?thesis by (simp add: defs signed_xor_eq)
  next
    case 16 then show ?thesis by (simp add: defs signed_or_eq)
  next
    case 17 then show ?thesis by (simp add: defs sint_eq_0_iff)
  next
    case 18 then show ?thesis by (simp add: defs sint_eq_0_iff)
  qed
qed

text \<open>
  Where C defines the operation, \<^verbatim>\<open>fold_binary_expression\<close> returns one new literal
  node without children, whose value is the two's-complement result of the
  specification, and both operand nodes are removed from the tree.
\<close>

lemma fold_binary_expression_defined:
  fixes a b :: "'w::len word"
  assumes op: "op \<in> set folded_operators"
    and L: "LHS = Node i EXPR_LITERAL ltype gl (Items [a]) [] ll"
    and lt: "ltype = TYPE_INTEGER \<or> type_is_enum ltype"
    and R: "RHS = Node j EXPR_LITERAL rtype gr (Items [b]) [] lr"
    and rt: "rtype = TYPE_INTEGER \<or> type_is_enum rtype"
    and dv: "op = BIN_DIV \<or> op = BIN_REM \<Longrightarrow> b \<noteq> 0 \<and> \<not> (a = ITEM_MIN \<and> b = - 1)"
    and sh: "op = BIN_SHL \<or> op = BIN_SHR \<Longrightarrow> 0 \<le> sint b \<and> sint b < int LENGTH('w)"
  shows "\<exists>nd. fold_binary_expression fp bldr t LHS RHS op loc =
              Inr (nd, bldr\<lparr>removed := removed bldr \<union> {i, j},
                             tree_size := Suc (tree_size bldr)\<rparr>)
           \<and> node_get_index nd = tree_size bldr \<and> node_get_children nd = []
           \<and> literal_value nd = twos_complement LENGTH('w) op (sint a) (sint b)
           \<and> twos_complement LENGTH('w) op (sint a) (sint b) \<noteq> None"
proof -
  let ?b1 = "node_remove RHS (node_remove LHS bldr)"
  have b1: "?b1 = bldr\<lparr>removed := removed bldr \<union> {i, j}\<rparr>"
    by (simp add: node_remove_def L R insert_commute)
  have f: "fold_binary_expression fp bldr t LHS RHS op loc = fold_integer ?b1 a b op loc"
    using lt by (cases ltype) (auto simp: fold_binary_expression_def L R expression_literal_get_integer_def)
  have some: "twos_complement LENGTH('w) op (sint a) (sint b) \<noteq> None"
    using op by (auto simp: folded_operators_def)
  from fold_integer_twos_complement [OF op dv sh, of ?b1 loc]
  show ?thesis unfolding f b1 using some by auto
qed

text \<open>
  C5. The fold of the quotient or the remainder of the least integer literal by the
  literal -1 does not give a literal node: both operand nodes are removed and the
  division is carried out in the compiler itself, where C leaves it undefined and the
  usual targets trap. The two's-complement value that the specification asks for
  exists: the quotient reduced to the range is the least integer again, the remainder
  is 0.
\<close>

theorem fold_binary_expression_division_overflow:
  assumes "op = BIN_DIV \<or> op = BIN_REM"
    and "LHS = Node i EXPR_LITERAL TYPE_INTEGER gl (Items [ITEM_MIN :: 'w::len word]) [] ll"
    and "RHS = Node j EXPR_LITERAL TYPE_INTEGER gr (Items [- 1]) [] lr"
  shows "fold_binary_expression fp bldr t LHS RHS op loc = Inl Division_overflow
         \<and> twos_complement LENGTH('w) op (sint (ITEM_MIN :: 'w word)) (sint (- 1 :: 'w word)) =
             Some (Folded_integer (if op = BIN_DIV then sint (ITEM_MIN :: 'w word) else 0))"
proof -
  have nz: "(- 1 :: 'w word) \<noteq> 0" by simp
  have f: "fold_binary_expression fp bldr t LHS RHS op loc = Inl Division_overflow"
    using assms nz
    by (auto simp: fold_binary_expression_def fold_integer_def integer_literal_of_def
        item_div_def item_rem_def expression_literal_get_integer_def)
  have p: "(2 :: int) ^ LENGTH('w) = 2 ^ (LENGTH('w) - Suc 0) + 2 ^ (LENGTH('w) - Suc 0)"
    using power_Suc [of "2 :: int" "LENGTH('w) - 1"] by simp
  have d: "wrap_item LENGTH('w) (2 ^ (LENGTH('w) - Suc 0)) = - (2 ^ (LENGTH('w) - Suc 0))"
    unfolding wrap_item_def using p by simp
  have r: "x smod 1 = 0" for x :: int
    by (simp add: signed_modulo_int_def)
  from assms(1) have
    "twos_complement LENGTH('w) op (sint (ITEM_MIN :: 'w word)) (sint (- 1 :: 'w word)) =
       Some (Folded_integer (if op = BIN_DIV then sint (ITEM_MIN :: 'w word) else 0))"
    by (auto simp: sint_ITEM_MIN d r)
  with f show ?thesis by simp
qed

theorem fold_binary_expression_division_overflow_witness:
  "fold_binary_expression example_floating example_builder TYPE_INTEGER
     (integer_literal 1 ITEM_MIN) (integer_literal 2 (- 1)) BIN_DIV (3, 9) = Inl Division_overflow
   \<and> twos_complement 32 BIN_DIV (- 2147483648) (- 1) = Some (Folded_integer (- 2147483648))"
  using fold_binary_expression_division_overflow
    [of BIN_DIV "integer_literal 1 ITEM_MIN" 1 RVALUE "(0, 0)" "integer_literal 2 (- 1)" 2 RVALUE
        "(0, 0)" example_floating example_builder TYPE_INTEGER "(3, 9)"]
  by (simp add: integer_literal_def sint_ITEM_MIN)

text \<open>
  C4. A division or remainder of two integer literals with a zero right-hand side is not
  left unfolded and no diagnostic is reported: both operands are removed and the
  division by zero is carried out in the compiler itself.
\<close>

theorem fold_binary_expression_division_by_zero:
  fixes a :: "'w::len word"
  assumes "op = BIN_DIV \<or> op = BIN_REM"
    and "LHS = Node i EXPR_LITERAL TYPE_INTEGER gl (Items [a]) [] ll"
    and "RHS = Node j EXPR_LITERAL TYPE_INTEGER gr (Items [0]) [] lr"
  shows "fold_binary_expression fp bldr t LHS RHS op loc = Inl Division_by_zero"
  using assms
  by (auto simp: fold_binary_expression_def fold_integer_def integer_literal_of_def
      item_div_def item_rem_def expression_literal_get_integer_def)

theorem fold_binary_expression_division_by_zero_witness:
  "fold_binary_expression example_floating example_builder TYPE_INTEGER
     (integer_literal 1 7) (integer_literal 2 0) BIN_REM (3, 9) = Inl Division_by_zero"
  using fold_binary_expression_division_by_zero
    [of BIN_REM "integer_literal 1 7" 1 RVALUE 7 "(0, 0)" "integer_literal 2 0" 2 RVALUE "(0, 0)"
        example_floating example_builder TYPE_INTEGER "(3, 9)"]
  by (simp add: integer_literal_def)

subsection \<open>Cast insertion\<close>

text \<open>
  C8, as the code has it. \<^verbatim>\<open>build_cast_expression\<close> applied twice gives the node and
  the tree of one application whenever the target is the floating type, or the
  expression is not a literal, or the expression already has the target type; and it
  returns its argument and changes nothing when the expression already has the target
  type.
\<close>

theorem build_cast_expression_idempotent:
  assumes "target_type = TYPE_FLOATING \<or> expression_get_class expr \<noteq> EXPR_LITERAL
           \<or> (node_is_correct expr \<and> expression_get_type expr = target_type)"
  shows "(case build_cast_expression fp target_type expr bldr of
            (cast, bldr') \<Rightarrow> build_cast_expression fp target_type cast bldr' = (cast, bldr'))
         \<and> (node_is_correct expr \<and> expression_get_type expr = target_type
              \<longrightarrow> build_cast_expression fp target_type expr bldr = (expr, bldr))"
proof (cases expr)
  case node_broken
  then show ?thesis by (simp add: build_cast_expression_def)
next
  case (Node i c t g p ch l)
  with assms show ?thesis
    by (auto simp: build_cast_expression_def node_create_def expression_cast_def Let_def
        split: prod.splits)
qed

theorem build_cast_expression_idempotent_witness:
  "(case build_cast_expression example_floating TYPE_FLOATING (integer_literal 5 1) example_builder of
      (cast, bldr') \<Rightarrow>
        build_cast_expression example_floating TYPE_FLOATING cast bldr' = (cast, bldr')
        \<and> cast = Node 30 EXPR_LITERAL TYPE_FLOATING RVALUE (Items [0, 0]) [] (0, 0))
   \<and> build_cast_expression example_floating TYPE_INTEGER (integer_literal 5 1) example_builder
       = (integer_literal 5 1, example_builder)"
  using build_cast_expression_idempotent
    [of TYPE_FLOATING "integer_literal 5 1" example_floating example_builder]
    build_cast_expression_idempotent
    [of TYPE_INTEGER "integer_literal 5 1" example_floating example_builder]
  by (simp add: integer_literal_def build_cast_expression_def node_create_def example_builder_def
      example_floating_def Let_def split: prod.splits)

text \<open>
  C8 as stated fails for a literal whose type differs from a target other than the
  floating type. The character literal 97 cast to the integer type becomes a new
  floating literal (the literal branch only ever builds floating literals); its type is
  still not the target, so the second application replaces it by yet another new node
  and removes the first result from the tree.
\<close>

theorem build_cast_expression_idempotent_counterexample:
  "build_cast_expression example_floating TYPE_INTEGER
     (Node 5 EXPR_LITERAL TYPE_CHARACTER RVALUE (Items [97]) [] (0, 0)) example_builder
     = (Node 30 EXPR_LITERAL TYPE_FLOATING RVALUE (Items [0, 0]) [] (0, 0),
        \<lparr>tree_size = 31, removed = {5}, reports = []\<rparr>)
   \<and> build_cast_expression example_floating TYPE_INTEGER
       (Node 30 EXPR_LITERAL TYPE_FLOATING RVALUE (Items [0, 0]) [] (0, 0))
       \<lparr>tree_size = 31, removed = {5}, reports = []\<rparr>
     = (Node 31 EXPR_LITERAL TYPE_FLOATING RVALUE (Items [0, 0]) [] (0, 0),
        \<lparr>tree_size = 32, removed = {5, 30}, reports = []\<rparr>)
   \<and> (Node 31 EXPR_LITERAL TYPE_FLOATING RVALUE (Items [0, 0]) [] (0, 0) :: 32 word node)
       \<noteq> Node 30 EXPR_LITERAL TYPE_FLOATING RVALUE (Items [0, 0]) [] (0, 0)"
  by (simp add: build_cast_expression_def node_create_def node_remove_def example_builder_def
      example_floating_def expression_literal_get_integer_def Let_def insert_commute)

section \<open>What the emitter of expressions leaves alone\<close>

text \<open>
  No expression changes the labels of \<open>break\<close> and \<open>continue\<close>, the block counter
  or the main flag, and no expression prints a structural line.
\<close>

lemma kept_refl [simp]: "kept info info"
  by (simp add: kept_def)

lemma kept_trans: "kept a b \<Longrightarrow> kept b c \<Longrightarrow> kept a c"
  by (simp add: kept_def)

lemma kept_uni_printf [simp]:
  "\<not> structural x \<Longrightarrow> kept (uni_printf x a) b = kept a b"
  "\<not> structural x \<Longrightarrow> kept a (uni_printf x b) = kept a b"
  by (auto simp: kept_def uni_printf_def)

lemma kept_update [simp]:
  "kept (a\<lparr>variable_location := l\<rparr>) b = kept a b"
  "kept a (b\<lparr>variable_location := l\<rparr>) = kept a b"
  "kept (a\<lparr>answer_kind := k\<rparr>) b = kept a b"
  "kept a (b\<lparr>answer_kind := k\<rparr>) = kept a b"
  "kept (a\<lparr>answer_const := c\<rparr>) b = kept a b"
  "kept a (b\<lparr>answer_const := c\<rparr>) = kept a b"
  "kept (a\<lparr>label_true := t\<rparr>) b = kept a b"
  "kept a (b\<lparr>label_true := t\<rparr>) = kept a b"
  "kept (a\<lparr>label_false := f\<rparr>) b = kept a b"
  "kept a (b\<lparr>label_false := f\<rparr>) = kept a b"
  "kept (a\<lparr>label_num := n\<rparr>) b = kept a b"
  "kept a (b\<lparr>label_num := n\<rparr>) = kept a b"
  "kept (a\<lparr>label_ternary_end := e\<rparr>) b = kept a b"
  "kept a (b\<lparr>label_ternary_end := e\<rparr>) = kept a b"
  "kept (a\<lparr>was_dynamic := d\<rparr>) b = kept a b"
  "kept a (b\<lparr>was_dynamic := d\<rparr>) = kept a b"
  "kept (a\<lparr>arrays := r\<rparr>) b = kept a b"
  "kept a (b\<lparr>arrays := r\<rparr>) = kept a b"
  "kept (a\<lparr>was_stack_functions := d\<rparr>) b = kept a b"
  "kept a (b\<lparr>was_stack_functions := d\<rparr>) = kept a b"
  "kept (a\<lparr>was_abs := w\<rparr>) b = kept a b"
  "kept a (b\<lparr>was_abs := w\<rparr>) = kept a b"
  "kept (a\<lparr>was_fabs := w\<rparr>) b = kept a b"
  "kept a (b\<lparr>was_fabs := w\<rparr>) = kept a b"
  by (simp_all add: kept_def)

lemma kept_primitives [simp]:
  "kept (to_code_try_zext_to a) b = kept a b"
  "kept a (to_code_try_zext_to b) = kept a b"
  "kept (to_code_label l a) b = kept a b"
  "kept a (to_code_label l b) = kept a b"
  "kept (to_code_unconditional_branch l a) b = kept a b"
  "kept a (to_code_unconditional_branch l b) = kept a b"
  "kept (to_code_conditional_branch a) b = kept a b"
  "kept a (to_code_conditional_branch b) = kept a b"
  "kept (to_code_slice a) b = kept a b"
  "kept a (to_code_slice b) = kept a b"
  "kept (check_type_and_branch a) b = kept a b"
  "kept a (check_type_and_branch b) = kept a b"
  "kept (to_code_operation op lk rk a) b = kept a b"
  "kept a (to_code_operation op lk rk b) = kept a b"
  "kept (emit_assignment_store sx op t a) b = kept a b"
  "kept a (emit_assignment_store sx op t b) = kept a b"
  "kept (emit_literal_expression sx a t n) b = kept a b"
  "kept a (emit_literal_expression sx b t n) = kept a b"
  "kept (emit_member_expression a e) b = kept a b"
  "kept a (emit_member_expression b e) = kept a b"
  "kept (emit_inc_dec_lines u a) b = kept a b"
  "kept a (emit_inc_dec_lines u b) = kept a b"
  "kept (emit_minus_not_lines sx u t a) b = kept a b"
  "kept a (emit_minus_not_lines sx u t b) = kept a b"
  "kept (emit_abs_lines sx t a) b = kept a b"
  "kept a (emit_abs_lines sx t b) = kept a b"
  "kept (emit_integral_lines op k lk a) b = kept a b"
  "kept a (emit_integral_lines op k lk b) = kept a b"
  "kept (emit_logical_start op a) b = kept a b"
  "kept a (emit_logical_start op b) = kept a b"
  "kept (emit_logical_middle c a) b = kept a b"
  "kept a (emit_logical_middle c b) = kept a b"
  "kept (emit_ternary_end c l1 l2 a) b = kept a b"
  "kept a (emit_ternary_end c l1 l2 b) = kept a b"
  by (simp_all add: to_code_try_zext_to_def to_code_label_def to_code_unconditional_branch_def
      to_code_conditional_branch_def to_code_slice_def check_type_and_branch_def
      to_code_operation_def emit_assignment_store_def emit_literal_expression_def
      emit_member_expression_def emit_inc_dec_lines_def emit_minus_not_lines_def
      emit_abs_lines_def emit_integral_lines_def emit_logical_start_def
      emit_logical_middle_def emit_ternary_end_def Let_def split: answer_t.split)

lemma kept_emit_identifier_expression:
  "emit_identifier_expression sx a t = Some b \<Longrightarrow> kept a b"
  by (auto simp: emit_identifier_expression_def Let_def split: option.splits if_splits)

lemma emit_call_arguments_kept:
  assumes "\<And>x info info'. x \<in> set es \<Longrightarrow> emit_expression sx info x = Some info' \<Longrightarrow> kept info info'"
  shows "emit_call_arguments sx info es = Some info' \<Longrightarrow> kept info info'"
  using assms
proof (induction es arbitrary: info)
  case Nil
  then show ?case by simp
next
  case (Cons a es)
  from Cons.prems(1) obtain info1 where
    a: "emit_expression sx (info\<lparr>variable_location := LFREE\<rparr>) a = Some info1"
    and r: "emit_call_arguments sx (to_code_try_zext_to info1) es = Some info'"
    by (auto split: option.splits)
  have "kept info info1" using Cons.prems(2) [OF _ a] by simp
  moreover have "kept (to_code_try_zext_to info1) info'"
  proof (rule Cons.IH [OF r])
    fix x info info'
    assume "x \<in> set es" "emit_expression sx info x = Some info'"
    then show "kept info info'" by (intro Cons.prems(2) [of x]) simp_all
  qed
  then have "kept info1 info'" by simp
  ultimately show ?case by (rule kept_trans)
qed

lemma emit_expression_kept_aux:
  "(\<forall>info info'. emit_expression sx info e = Some info' \<longrightarrow> kept info info')
   \<and> (\<forall>info i c info'. emit_one_dimension_subscript sx info e i c = Some info' \<longrightarrow> kept info info')"
proof (induction e)
  case (Cast t s e)
  then show ?case by (auto split: option.splits)
next
  case (Identifier t i)
  then show ?case by (auto dest: kept_emit_identifier_expression)
next
  case (Literal t v)
  then show ?case by auto
next
  case (Subscript t b i)
  have b: "\<And>info j c info'. emit_one_dimension_subscript sx info b j c = Some info' \<Longrightarrow> kept info info'"
    and i: "\<And>info info'. emit_expression sx info i = Some info' \<Longrightarrow> kept info info'"
    using Subscript.IH by blast+
  have one: "kept info info'"
    if "emit_one_dimension_subscript sx info (Subscript t b i) j c = Some info'" for info j c info'
    using that
    apply (auto split: option.splits if_splits dest!: b i)
    apply (erule kept_trans, assumption)
    done
  have e: "kept info info'" if "emit_expression sx info (Subscript t b i) = Some info'"
    for info info'
  proof -
    from that obtain j info1 where
      s: "emit_one_dimension_subscript sx info (Subscript t b i) j 0 = Some info1"
      and r: "info' = (if variable_location info \<noteq> LMEM then uni_printf (Instr Load) info1
                       else info1)\<lparr>answer_kind := AREG\<rparr>"
      by (auto simp del: emit_one_dimension_subscript.simps split: option.splits)
    from one [OF s] show ?thesis unfolding r by simp
  qed
  show ?case using e one by blast
next
  case (Call t callee args)
  have "kept info info'" if "emit_call_arguments sx info args = Some info'" for info info'
  proof (rule emit_call_arguments_kept [OF _ that])
    fix x info info'
    assume "x \<in> set args" "emit_expression sx info x = Some info'"
    then show "kept info info'" using Call.IH(2) by blast
  qed
  then show ?case by (auto split: option.splits if_splits)
next
  case (Member t p b)
  then show ?case by auto
next
  case (Unary t u e)
  have e: "\<And>info info'. emit_expression sx info e = Some info' \<Longrightarrow> kept info info'"
    using Unary.IH by blast
  show ?case
    by (auto split: option.splits if_splits dest!: e)
next
  case (Binary t op l r)
  have l: "\<And>info info'. emit_expression sx info l = Some info' \<Longrightarrow> kept info info'"
    and r: "\<And>info info'. emit_expression sx info r = Some info' \<Longrightarrow> kept info info'"
    using Binary.IH by blast+
  show ?case
    by (auto split: option.splits if_splits dest!: l r dest: kept_trans)
next
  case (Ternary t c l r)
  have c: "\<And>info info'. emit_expression sx info c = Some info' \<Longrightarrow> kept info info'"
    and l: "\<And>info info'. emit_expression sx info l = Some info' \<Longrightarrow> kept info info'"
    and r: "\<And>info info'. emit_expression sx info r = Some info' \<Longrightarrow> kept info info'"
    using Ternary.IH by blast+
  show ?case
    by (auto split: option.splits if_splits dest!: c l r) (blast intro: kept_trans)+
next
  case (Initializer t es)
  then show ?case by auto
next
  case (Inline t)
  then show ?case by auto
qed

lemma emit_expression_kept: "emit_expression sx info e = Some info' \<Longrightarrow> kept info info'"
  using emit_expression_kept_aux by blast

subsection \<open>The text grows at its end\<close>

text \<open>
  An expression only appends to the text, it saves and restores no slot but that of the
  function, and it leaves the block counter alone: whatever text \<open>xs\<close> and bound
  \<open>lo\<close> the state was after, it still is.
\<close>

lemma emitted_after_update [simp]:
  "emitted_after xs lo (a\<lparr>variable_location := vvaron\<rparr>) = emitted_after xs lo a"
  "emitted_after xs lo (a\<lparr>answer_kind := vansnd\<rparr>) = emitted_after xs lo a"
  "emitted_after xs lo (a\<lparr>answer_const := vansst\<rparr>) = emitted_after xs lo a"
  "emitted_after xs lo (a\<lparr>label_true := vlabue\<rparr>) = emitted_after xs lo a"
  "emitted_after xs lo (a\<lparr>label_false := vlabse\<rparr>) = emitted_after xs lo a"
  "emitted_after xs lo (a\<lparr>label_break := vlabak\<rparr>) = emitted_after xs lo a"
  "emitted_after xs lo (a\<lparr>label_continue := vlabce\<rparr>) = emitted_after xs lo a"
  "emitted_after xs lo (a\<lparr>label_num := vlabum\<rparr>) = emitted_after xs lo a"
  "emitted_after xs lo (a\<lparr>label_ternary_end := vlabnd\<rparr>) = emitted_after xs lo a"
  "emitted_after xs lo (a\<lparr>was_abs := vwasbs\<rparr>) = emitted_after xs lo a"
  "emitted_after xs lo (a\<lparr>was_fabs := vwasfs\<rparr>) = emitted_after xs lo a"
  "emitted_after xs lo (a\<lparr>was_dynamic := vwasic\<rparr>) = emitted_after xs lo a"
  "emitted_after xs lo (a\<lparr>was_stack_functions := vwasns\<rparr>) = emitted_after xs lo a"
  "emitted_after xs lo (a\<lparr>is_main := vis_in\<rparr>) = emitted_after xs lo a"
  "emitted_after xs lo (a\<lparr>arrays := varrys\<rparr>) = emitted_after xs lo a"
  by (simp_all add: emitted_after_def)

lemma emitted_after_append:
  "emitted_after xs lo a \<Longrightarrow> list_all (slot_from lo) ys
   \<Longrightarrow> emitted_after xs lo (a\<lparr>io := io a @ ys\<rparr>)"
  by (auto simp: emitted_after_def prefix_def)

lemma emitted_after_uni_printf [simp]:
  "emitted_after xs lo a \<Longrightarrow> slot_from lo x \<Longrightarrow> emitted_after xs lo (uni_printf x a)"
  unfolding uni_printf_def by (rule emitted_after_append) simp_all

lemma emitted_after_primitives [simp]:
  "emitted_after xs lo a \<Longrightarrow> emitted_after xs lo (to_code_try_zext_to a)"
  "emitted_after xs lo a \<Longrightarrow> emitted_after xs lo (to_code_label l a)"
  "emitted_after xs lo a \<Longrightarrow> emitted_after xs lo (to_code_unconditional_branch l a)"
  "emitted_after xs lo a \<Longrightarrow> emitted_after xs lo (to_code_conditional_branch a)"
  "emitted_after xs lo a \<Longrightarrow> emitted_after xs lo (to_code_slice a)"
  "emitted_after xs lo a \<Longrightarrow> emitted_after xs lo (check_type_and_branch a)"
  "emitted_after xs lo a \<Longrightarrow> emitted_after xs lo (to_code_operation op lk rk a)"
  "emitted_after xs lo a \<Longrightarrow> emitted_after xs lo (emit_assignment_store sx op t a)"
  "emitted_after xs lo a \<Longrightarrow> emitted_after xs lo (emit_inc_dec_lines u a)"
  "emitted_after xs lo a \<Longrightarrow> emitted_after xs lo (emit_minus_not_lines sx u t a)"
  "emitted_after xs lo a \<Longrightarrow> emitted_after xs lo (emit_abs_lines sx t a)"
  "emitted_after xs lo a \<Longrightarrow> emitted_after xs lo (emit_integral_lines op k lk a)"
  "emitted_after xs lo a \<Longrightarrow> emitted_after xs lo (emit_logical_start op a)"
  "emitted_after xs lo a \<Longrightarrow> emitted_after xs lo (emit_logical_middle c a)"
  "emitted_after xs lo a \<Longrightarrow> emitted_after xs lo (emit_ternary_end c l1 l2 a)"
  "emitted_after xs lo a \<Longrightarrow> emitted_after xs lo (to_code_alloc_array_static a)"
  "emitted_after xs lo a \<Longrightarrow> emitted_after xs lo (to_code_alloc_array_dynamic m a)"
  "emitted_after xs lo a \<Longrightarrow> emitted_after xs lo (emit_string_element idx a)"
  "emitted_after xs lo a \<Longrightarrow> emitted_after xs lo (emit_literal_expression sx a t num)"
  "emitted_after xs lo a \<Longrightarrow> emitted_after xs lo (emit_member_expression a e)"
  "emitted_after xs lo a \<Longrightarrow> emitted_after xs lo (to_code_stack_save (- 1) a)"
  "emitted_after xs lo a \<Longrightarrow> emitted_after xs lo (to_code_stack_load (- 1) a)"
  by (auto simp: to_code_try_zext_to_def to_code_label_def to_code_unconditional_branch_def
      to_code_conditional_branch_def to_code_slice_def check_type_and_branch_def
      to_code_operation_def emit_assignment_store_def emit_literal_expression_def
      emit_member_expression_def emit_inc_dec_lines_def emit_minus_not_lines_def
      emit_abs_lines_def emit_integral_lines_def emit_logical_start_def
      emit_logical_middle_def emit_ternary_end_def to_code_stack_save_def
      to_code_stack_load_def to_code_alloc_array_static_def to_code_alloc_array_dynamic_def
      emit_string_element_def Let_def list_all_iff
      split: answer_t.split intro!: emitted_after_append)


lemma emitted_after_identifier:
  "emit_identifier_expression sx a t = Some b \<Longrightarrow> emitted_after xs lo a \<longrightarrow> emitted_after xs lo b"
  by (auto simp: emit_identifier_expression_def Let_def split: option.splits if_splits)

lemma emit_call_arguments_after:
  assumes "\<And>x info info'. x \<in> set es \<Longrightarrow> emit_expression sx info x = Some info'
             \<Longrightarrow> emitted_after xs lo info \<longrightarrow> emitted_after xs lo info'"
  shows "emit_call_arguments sx info es = Some info'
           \<Longrightarrow> emitted_after xs lo info \<longrightarrow> emitted_after xs lo info'"
  using assms
proof (induction es arbitrary: info)
  case Nil
  then show ?case by simp
next
  case (Cons a es)
  from Cons.prems(1) obtain info1 where
    a: "emit_expression sx (info\<lparr>variable_location := LFREE\<rparr>) a = Some info1"
    and r: "emit_call_arguments sx (to_code_try_zext_to info1) es = Some info'"
    by (auto split: option.splits)
  have 1: "emitted_after xs lo info \<longrightarrow> emitted_after xs lo info1"
    using Cons.prems(2) [OF _ a] by simp
  have 2: "emitted_after xs lo (to_code_try_zext_to info1) \<longrightarrow> emitted_after xs lo info'"
  proof (rule Cons.IH [OF r])
    fix x info info'
    assume "x \<in> set es" "emit_expression sx info x = Some info'"
    then show "emitted_after xs lo info \<longrightarrow> emitted_after xs lo info'"
      by (intro Cons.prems(2) [of x]) simp_all
  qed
  from 1 2 show ?case by simp
qed

lemma leaf_after:
  "(\<forall>info info'. emit_expression sx info (Identifier t i) = Some info'
        \<longrightarrow> emitted_after xs lo info \<longrightarrow> emitted_after xs lo info')
     \<and> (\<forall>info n1 n2 info'. emit_one_dimension_subscript sx info (Identifier t i) n1 n2 = Some info'
        \<longrightarrow> emitted_after xs lo info \<longrightarrow> emitted_after xs lo info')"
  "(\<forall>info info'. emit_expression sx info (Literal t v) = Some info'
        \<longrightarrow> emitted_after xs lo info \<longrightarrow> emitted_after xs lo info')
     \<and> (\<forall>info n1 n2 info'. emit_one_dimension_subscript sx info (Literal t v) n1 n2 = Some info'
        \<longrightarrow> emitted_after xs lo info \<longrightarrow> emitted_after xs lo info')"
  "(\<forall>info info'. emit_expression sx info (Member t p b) = Some info'
        \<longrightarrow> emitted_after xs lo info \<longrightarrow> emitted_after xs lo info')
     \<and> (\<forall>info n1 n2 info'. emit_one_dimension_subscript sx info (Member t p b) n1 n2 = Some info'
        \<longrightarrow> emitted_after xs lo info \<longrightarrow> emitted_after xs lo info')"
  "(\<forall>info info'. emit_expression sx info (Initializer t es) = Some info'
        \<longrightarrow> emitted_after xs lo info \<longrightarrow> emitted_after xs lo info')
     \<and> (\<forall>info n1 n2 info'. emit_one_dimension_subscript sx info (Initializer t es) n1 n2 = Some info'
        \<longrightarrow> emitted_after xs lo info \<longrightarrow> emitted_after xs lo info')"
  "(\<forall>info info'. emit_expression sx info (Inline t) = Some info'
        \<longrightarrow> emitted_after xs lo info \<longrightarrow> emitted_after xs lo info')
     \<and> (\<forall>info n1 n2 info'. emit_one_dimension_subscript sx info (Inline t) n1 n2 = Some info'
        \<longrightarrow> emitted_after xs lo info \<longrightarrow> emitted_after xs lo info')"
  by (auto dest: emitted_after_identifier)

lemma cast_after:
  assumes "(\<forall>info info'. emit_expression sx info e = Some info'
        \<longrightarrow> emitted_after xs lo info \<longrightarrow> emitted_after xs lo info')
     \<and> (\<forall>info n1 n2 info'. emit_one_dimension_subscript sx info e n1 n2 = Some info'
        \<longrightarrow> emitted_after xs lo info \<longrightarrow> emitted_after xs lo info')"
  shows "(\<forall>info info'. emit_expression sx info (Cast t s e) = Some info'
        \<longrightarrow> emitted_after xs lo info \<longrightarrow> emitted_after xs lo info')
     \<and> (\<forall>info n1 n2 info'. emit_one_dimension_subscript sx info (Cast t s e) n1 n2 = Some info'
        \<longrightarrow> emitted_after xs lo info \<longrightarrow> emitted_after xs lo info')"
proof -
  have e: "\<And>info info'. emit_expression sx info e = Some info'
             \<Longrightarrow> emitted_after xs lo info \<longrightarrow> emitted_after xs lo info'"
    using assms by blast
  have "emitted_after xs lo info \<longrightarrow> emitted_after xs lo info'"
    if "emit_expression sx info (Cast t s e) = Some info'" for info info'
    using that by (auto split: option.splits dest!: e)
  then show ?thesis by simp
qed

lemma unary_after:
  assumes "(\<forall>info info'. emit_expression sx info e = Some info'
        \<longrightarrow> emitted_after xs lo info \<longrightarrow> emitted_after xs lo info')
     \<and> (\<forall>info n1 n2 info'. emit_one_dimension_subscript sx info e n1 n2 = Some info'
        \<longrightarrow> emitted_after xs lo info \<longrightarrow> emitted_after xs lo info')"
  shows "(\<forall>info info'. emit_expression sx info (Unary t u e) = Some info'
        \<longrightarrow> emitted_after xs lo info \<longrightarrow> emitted_after xs lo info')
     \<and> (\<forall>info n1 n2 info'. emit_one_dimension_subscript sx info (Unary t u e) n1 n2 = Some info'
        \<longrightarrow> emitted_after xs lo info \<longrightarrow> emitted_after xs lo info')"
proof -
  have e: "\<And>info info'. emit_expression sx info e = Some info'
             \<Longrightarrow> emitted_after xs lo info \<longrightarrow> emitted_after xs lo info'"
    using assms by blast
  have "emitted_after xs lo info \<longrightarrow> emitted_after xs lo info'"
    if "emit_expression sx info (Unary t u e) = Some info'" for info info'
    using that by (auto split: option.splits if_splits dest!: e)
  then show ?thesis by simp
qed

lemma binary_after:
  assumes "(\<forall>info info'. emit_expression sx info l = Some info'
        \<longrightarrow> emitted_after xs lo info \<longrightarrow> emitted_after xs lo info')
     \<and> (\<forall>info n1 n2 info'. emit_one_dimension_subscript sx info l n1 n2 = Some info'
        \<longrightarrow> emitted_after xs lo info \<longrightarrow> emitted_after xs lo info')"
    and "(\<forall>info info'. emit_expression sx info r = Some info'
        \<longrightarrow> emitted_after xs lo info \<longrightarrow> emitted_after xs lo info')
     \<and> (\<forall>info n1 n2 info'. emit_one_dimension_subscript sx info r n1 n2 = Some info'
        \<longrightarrow> emitted_after xs lo info \<longrightarrow> emitted_after xs lo info')"
  shows "(\<forall>info info'. emit_expression sx info (Binary t op l r) = Some info'
        \<longrightarrow> emitted_after xs lo info \<longrightarrow> emitted_after xs lo info')
     \<and> (\<forall>info n1 n2 info'. emit_one_dimension_subscript sx info (Binary t op l r) n1 n2 = Some info'
        \<longrightarrow> emitted_after xs lo info \<longrightarrow> emitted_after xs lo info')"
proof -
  have l: "\<And>info info'. emit_expression sx info l = Some info'
             \<Longrightarrow> emitted_after xs lo info \<longrightarrow> emitted_after xs lo info'"
    and r: "\<And>info info'. emit_expression sx info r = Some info'
             \<Longrightarrow> emitted_after xs lo info \<longrightarrow> emitted_after xs lo info'"
    using assms by blast+
  have "emitted_after xs lo info \<longrightarrow> emitted_after xs lo info'"
    if "emit_expression sx info (Binary t op l r) = Some info'" for info info'
    using that by (auto split: option.splits if_splits dest!: l r)
  then show ?thesis by simp
qed

lemma ternary_after:
  assumes "(\<forall>info info'. emit_expression sx info c = Some info'
        \<longrightarrow> emitted_after xs lo info \<longrightarrow> emitted_after xs lo info')
     \<and> (\<forall>info n1 n2 info'. emit_one_dimension_subscript sx info c n1 n2 = Some info'
        \<longrightarrow> emitted_after xs lo info \<longrightarrow> emitted_after xs lo info')"
    and "(\<forall>info info'. emit_expression sx info l = Some info'
        \<longrightarrow> emitted_after xs lo info \<longrightarrow> emitted_after xs lo info')
     \<and> (\<forall>info n1 n2 info'. emit_one_dimension_subscript sx info l n1 n2 = Some info'
        \<longrightarrow> emitted_after xs lo info \<longrightarrow> emitted_after xs lo info')"
    and "(\<forall>info info'. emit_expression sx info r = Some info'
        \<longrightarrow> emitted_after xs lo info \<longrightarrow> emitted_after xs lo info')
     \<and> (\<forall>info n1 n2 info'. emit_one_dimension_subscript sx info r n1 n2 = Some info'
        \<longrightarrow> emitted_after xs lo info \<longrightarrow> emitted_after xs lo info')"
  shows "(\<forall>info info'. emit_expression sx info (Ternary t c l r) = Some info'
        \<longrightarrow> emitted_after xs lo info \<longrightarrow> emitted_after xs lo info')
     \<and> (\<forall>info n1 n2 info'. emit_one_dimension_subscript sx info (Ternary t c l r) n1 n2 = Some info'
        \<longrightarrow> emitted_after xs lo info \<longrightarrow> emitted_after xs lo info')"
proof -
  have c: "\<And>info info'. emit_expression sx info c = Some info'
             \<Longrightarrow> emitted_after xs lo info \<longrightarrow> emitted_after xs lo info'"
    and l: "\<And>info info'. emit_expression sx info l = Some info'
             \<Longrightarrow> emitted_after xs lo info \<longrightarrow> emitted_after xs lo info'"
    and r: "\<And>info info'. emit_expression sx info r = Some info'
             \<Longrightarrow> emitted_after xs lo info \<longrightarrow> emitted_after xs lo info'"
    using assms by blast+
  have "emitted_after xs lo info \<longrightarrow> emitted_after xs lo info'"
    if "emit_expression sx info (Ternary t c l r) = Some info'" for info info'
    using that by (auto split: option.splits if_splits dest!: c l r)
  then show ?thesis by simp
qed

lemma subscript_after:
  assumes "(\<forall>info info'. emit_expression sx info b = Some info'
        \<longrightarrow> emitted_after xs lo info \<longrightarrow> emitted_after xs lo info')
     \<and> (\<forall>info n1 n2 info'. emit_one_dimension_subscript sx info b n1 n2 = Some info'
        \<longrightarrow> emitted_after xs lo info \<longrightarrow> emitted_after xs lo info')"
    and "(\<forall>info info'. emit_expression sx info i = Some info'
        \<longrightarrow> emitted_after xs lo info \<longrightarrow> emitted_after xs lo info')
     \<and> (\<forall>info n1 n2 info'. emit_one_dimension_subscript sx info i n1 n2 = Some info'
        \<longrightarrow> emitted_after xs lo info \<longrightarrow> emitted_after xs lo info')"
  shows "(\<forall>info info'. emit_expression sx info (Subscript t b i) = Some info'
        \<longrightarrow> emitted_after xs lo info \<longrightarrow> emitted_after xs lo info')
     \<and> (\<forall>info n1 n2 info'. emit_one_dimension_subscript sx info (Subscript t b i) n1 n2 = Some info'
        \<longrightarrow> emitted_after xs lo info \<longrightarrow> emitted_after xs lo info')"
proof -
  have b: "\<And>info j c info'. emit_one_dimension_subscript sx info b j c = Some info'
             \<Longrightarrow> emitted_after xs lo info \<longrightarrow> emitted_after xs lo info'"
    and i: "\<And>info info'. emit_expression sx info i = Some info'
             \<Longrightarrow> emitted_after xs lo info \<longrightarrow> emitted_after xs lo info'"
    using assms by blast+
  have one: "emitted_after xs lo info \<longrightarrow> emitted_after xs lo info'"
    if "emit_one_dimension_subscript sx info (Subscript t b i) j c = Some info'" for info j c info'
    using that by (auto split: option.splits if_splits dest!: b i)
  have e: "emitted_after xs lo info \<longrightarrow> emitted_after xs lo info'"
    if "emit_expression sx info (Subscript t b i) = Some info'" for info info'
  proof -
    from that obtain j info1 where
      s: "emit_one_dimension_subscript sx info (Subscript t b i) j 0 = Some info1"
      and r: "info' = (if variable_location info \<noteq> LMEM then uni_printf (Instr Load) info1
                       else info1)\<lparr>answer_kind := AREG\<rparr>"
      by (auto simp del: emit_one_dimension_subscript.simps split: option.splits)
    from one [OF s] show ?thesis unfolding r by simp
  qed
  show ?thesis using e one by blast
qed

lemma call_after:
  assumes "\<And>x. x \<in> set args \<Longrightarrow> (\<forall>info info'. emit_expression sx info x = Some info'
        \<longrightarrow> emitted_after xs lo info \<longrightarrow> emitted_after xs lo info')
     \<and> (\<forall>info n1 n2 info'. emit_one_dimension_subscript sx info x n1 n2 = Some info'
        \<longrightarrow> emitted_after xs lo info \<longrightarrow> emitted_after xs lo info')"
  shows "(\<forall>info info'. emit_expression sx info (Call t callee args) = Some info'
        \<longrightarrow> emitted_after xs lo info \<longrightarrow> emitted_after xs lo info')
     \<and> (\<forall>info n1 n2 info'. emit_one_dimension_subscript sx info (Call t callee args) n1 n2 = Some info'
        \<longrightarrow> emitted_after xs lo info \<longrightarrow> emitted_after xs lo info')"
proof -
  have "emitted_after xs lo info \<longrightarrow> emitted_after xs lo info'"
    if "emit_call_arguments sx info args = Some info'" for info info'
  proof (rule emit_call_arguments_after [OF _ that])
    fix x info info'
    assume "x \<in> set args" "emit_expression sx info x = Some info'"
    then show "emitted_after xs lo info \<longrightarrow> emitted_after xs lo info'"
      using assms by blast
  qed
  then have "emitted_after xs lo info \<longrightarrow> emitted_after xs lo info'"
    if "emit_expression sx info (Call t callee args) = Some info'" for info info'
    using that by (auto split: option.splits if_splits)
  then show ?thesis by simp
qed

lemma emit_expression_after_aux:
  "(\<forall>info info'. emit_expression sx info e = Some info'
        \<longrightarrow> emitted_after xs lo info \<longrightarrow> emitted_after xs lo info')
     \<and> (\<forall>info n1 n2 info'. emit_one_dimension_subscript sx info e n1 n2 = Some info'
        \<longrightarrow> emitted_after xs lo info \<longrightarrow> emitted_after xs lo info')"
proof (induction e)
  case (Cast t s e)
  then show ?case by (rule cast_after)
next
  case (Identifier t i)
  show ?case by (rule leaf_after)
next
  case (Literal t v)
  show ?case by (rule leaf_after)
next
  case (Subscript t b i)
  then show ?case by (rule subscript_after)
next
  case (Call t callee args)
  show ?case by (rule call_after) (rule Call.IH(2))
next
  case (Member t p b)
  show ?case by (rule leaf_after)
next
  case (Unary t u e)
  then show ?case by (rule unary_after)
next
  case (Binary t op l r)
  then show ?case by (rule binary_after)
next
  case (Ternary t c l r)
  then show ?case by (rule ternary_after)
next
  case (Initializer t es)
  show ?case by (rule leaf_after)
next
  case (Inline t)
  show ?case by (rule leaf_after)
qed

lemma emit_expression_after:
  "emit_expression sx info e = Some info' \<Longrightarrow> emitted_after xs lo info
     \<Longrightarrow> emitted_after xs lo info'"
  using emit_expression_after_aux by blast

section \<open>What the emitter of declarations leaves alone\<close>

text \<open>
  The declaration of a variable prints no structural line either: the only slot it saves
  is that of the function.
\<close>

lemma kept_declaration_primitives [simp]:
  "kept (to_code_alloc_array_static a) b = kept a b"
  "kept a (to_code_alloc_array_static b) = kept a b"
  "kept (to_code_alloc_array_dynamic m a) b = kept a b"
  "kept a (to_code_alloc_array_dynamic m b) = kept a b"
  "kept (to_code_stack_save (- 1) a) b = kept a b"
  "kept a (to_code_stack_save (- 1) b) = kept a b"
  "kept (emit_string_element idx a) b = kept a b"
  "kept a (emit_string_element idx b) = kept a b"
  by (simp_all add: to_code_alloc_array_static_def to_code_alloc_array_dynamic_def
      to_code_stack_save_def emit_string_element_def Let_def)
    (simp_all add: kept_def)

lemma kept_fold_emit_string_element [simp]:
  "kept a (fold emit_string_element xs b) = kept a b"
  by (induction xs arbitrary: b) simp_all

lemma emit_initializers_kept:
  assumes "\<And>x info d l info'. x \<in> set es \<Longrightarrow>
             emit_one_dimension_initialization sx info x d l = Some info' \<Longrightarrow> kept info info'"
  shows "emit_initializers sx info es i d l = Some info' \<Longrightarrow> kept info info'"
  using assms
proof (induction es arbitrary: info i d l)
  case Nil
  then show ?case by simp
next
  case (Cons a es)
  have a: "\<And>info d l info'. emit_one_dimension_initialization sx info a d l = Some info'
             \<Longrightarrow> kept info info'"
    using Cons.prems(2) [of a] by simp
  have r: "kept info info'" if h: "emit_initializers sx info es i d l = Some info'"
    for info i d l
  proof (rule Cons.IH [OF h])
    fix x info d l info'
    assume "x \<in> set es" "emit_one_dimension_initialization sx info x d l = Some info'"
    then show "kept info info'" by (intro Cons.prems(2) [of x]) simp_all
  qed
  from Cons.prems(1) show ?case
    by (auto simp: Let_def split: option.splits if_splits
        dest!: a r emit_expression_kept) (blast intro: kept_trans)+
qed

lemma emit_one_dimension_initialization_kept:
  "emit_one_dimension_initialization sx info e d l = Some info' \<Longrightarrow> kept info info'"
proof (induction e arbitrary: info d l info')
  case (Initializer t es)
  from Initializer.prems have "emit_initializers sx info es 0 d l = Some info'" by simp
  then show ?case
    by (rule emit_initializers_kept [rotated]) (rule Initializer.IH)
qed simp_all

lemma emit_initialization_kept:
  "emit_initialization sx info nd i t = Some info' \<Longrightarrow> kept info info'"
  by (auto simp: emit_initialization_def Let_def
      split: option.splits if_splits expr.splits prod.splits
      dest!: emit_one_dimension_initialization_kept)

lemma emit_bounds_kept:
  "emit_bounds sx info i h bs = Some info' \<Longrightarrow> kept info info'"
proof (induction bs arbitrary: info h)
  case Nil
  then show ?case by simp
next
  case (Cons b bs)
  from Cons.prems show ?case
    by (auto split: option.splits if_splits dest!: Cons.IH emit_expression_kept)
      (blast intro: kept_trans)+
qed

lemma emit_variable_declaration_kept:
  "emit_variable_declaration sx info i bs ini l = Some info' \<Longrightarrow> kept info info'"
  by (auto simp: emit_variable_declaration_def Let_def
      split: option.splits if_splits prod.splits
      dest!: emit_bounds_kept emit_expression_kept emit_initialization_kept)
    (blast intro: kept_trans)+

lemma emitted_after_bound: "emitted_after xs lo a \<Longrightarrow> lo \<le> block_num a"
  by (simp add: emitted_after_def)

lemma emitted_after_save:
  "emitted_after xs lo a \<Longrightarrow>
   emitted_after xs lo (to_code_stack_save (block_num a) (a\<lparr>block_num := block_num a + 1\<rparr>))"
  by (auto simp: emitted_after_def to_code_stack_save_def uni_printf_def prefix_def)

lemma emitted_after_load:
  "emitted_after xs lo a \<Longrightarrow> lo \<le> n \<Longrightarrow> emitted_after xs lo (to_code_stack_load n a)"
  by (auto simp: emitted_after_def to_code_stack_load_def uni_printf_def prefix_def)

lemma emitted_after_block:
  "emitted_after xs lo a \<Longrightarrow> emitted_after xs lo (a\<lparr>block_num := block_num a + 1\<rparr>)"
  by (auto simp: emitted_after_def)

lemma emitted_after_return [simp]:
  "emitted_after xs lo a \<Longrightarrow> emitted_after xs lo (to_code_return sx t a)"
  by (simp add: to_code_return_def)

lemma emitted_after_parameters [simp]:
  "emitted_after xs lo a \<Longrightarrow>
   emitted_after xs lo (a\<lparr>io := io a @ concat (replicate n [Instr Alloca, Instr Store])\<rparr>)"
proof (rule emitted_after_append)
  show "list_all (slot_from lo) (concat (replicate n [Instr Alloca, Instr Store]))"
    by (induction n) simp_all
qed

lemma emitted_after_parameters_main [simp]:
  "emitted_after xs lo a \<Longrightarrow>
   emitted_after xs lo
     (a\<lparr>is_main := m, io := io a @ concat (replicate n [Instr Alloca, Instr Store])\<rparr>)"
  using emitted_after_parameters [of xs lo "a\<lparr>is_main := m\<rparr>" n] by simp

lemma emitted_after_fold_string [simp]:
  "emitted_after xs lo a \<Longrightarrow> emitted_after xs lo (fold emit_string_element ns a)"
  by (induction ns arbitrary: a) simp_all

lemma after_reflp: "reflp (\<lambda>a b. emitted_after xs lo a \<longrightarrow> emitted_after xs lo b)"
  by (simp add: reflp_def)

lemma after_transp: "transp (\<lambda>a b. emitted_after xs lo a \<longrightarrow> emitted_after xs lo b)"
  by (simp add: transp_def)

lemma emit_expression_after': "\<And>e info info'. emit_expression sx info e = Some info' \<Longrightarrow> emitted_after xs lo info \<longrightarrow> emitted_after xs lo info'"
  using emit_expression_after by blast

lemma emit_initializers_after:
  assumes "\<And>x info d l info'. x \<in> set es \<Longrightarrow>
             emit_one_dimension_initialization sx info x d l = Some info' \<Longrightarrow> emitted_after xs lo info \<longrightarrow> emitted_after xs lo info'"
  shows "emit_initializers sx info es i d l = Some info' \<Longrightarrow> emitted_after xs lo info \<longrightarrow> emitted_after xs lo info'"
  using assms
proof (induction es arbitrary: info i d l)
  case Nil
  then show ?case by simp
next
  case (Cons a es)
  have a: "\<And>info d l info'. emit_one_dimension_initialization sx info a d l = Some info'
             \<Longrightarrow> emitted_after xs lo info \<longrightarrow> emitted_after xs lo info'"
    using Cons.prems(2) [of a] by simp
  have r: "emitted_after xs lo info \<longrightarrow> emitted_after xs lo info'" if h: "emit_initializers sx info es i d l = Some info'"
    for info i d l
  proof (rule Cons.IH [OF h])
    fix x info d l info'
    assume "x \<in> set es" "emit_one_dimension_initialization sx info x d l = Some info'"
    then show "emitted_after xs lo info \<longrightarrow> emitted_after xs lo info'" by (intro Cons.prems(2) [of x]) simp_all
  qed
  from Cons.prems(1) show ?case
    by (auto simp: Let_def split: option.splits if_splits dest!: a r emit_expression_after' [where xs = xs and lo = lo])
qed

lemma emit_one_dimension_initialization_after:
  "emit_one_dimension_initialization sx info e d l = Some info' \<Longrightarrow> emitted_after xs lo info \<longrightarrow> emitted_after xs lo info'"
proof (induction e arbitrary: info d l info')
  case (Initializer t es)
  from Initializer.prems have "emit_initializers sx info es 0 d l = Some info'" by simp
  then show ?case
    by (rule emit_initializers_after [rotated]) (rule Initializer.IH)
qed simp_all

lemma emit_initialization_after:
  "emit_initialization sx info nd i t = Some info' \<Longrightarrow> emitted_after xs lo info \<longrightarrow> emitted_after xs lo info'"
  by (auto simp: emit_initialization_def Let_def
      split: option.splits if_splits expr.splits prod.splits
      dest!: emit_one_dimension_initialization_after [where xs = xs and lo = lo])

lemma emit_bounds_after:
  "emit_bounds sx info i h bs = Some info' \<Longrightarrow> emitted_after xs lo info \<longrightarrow> emitted_after xs lo info'"
proof (induction bs arbitrary: info h)
  case Nil
  then show ?case by simp
next
  case (Cons b bs)
  from Cons.prems show ?case
    by (auto split: option.splits if_splits dest!: Cons.IH emit_expression_after' [where xs = xs and lo = lo])
qed

lemma emit_variable_declaration_after:
  "emit_variable_declaration sx info i bs ini l = Some info' \<Longrightarrow> emitted_after xs lo info \<longrightarrow> emitted_after xs lo info'"
  by (auto simp: emit_variable_declaration_def Let_def
      split: option.splits if_splits prod.splits
      dest!: emit_bounds_after [where xs = xs and lo = lo] emit_expression_after' [where xs = xs and lo = lo] emit_initialization_after [where xs = xs and lo = lo])

section \<open>Statements\<close>

subsection \<open>What every statement keeps\<close>

text \<open>
  Three inductions over the statements: the labels of \<open>break\<close> and \<open>continue\<close>
  and the balance of each block slot; the main flag and the absence of returns inside
  \<^verbatim>\<open>main\<close>; and the growth of the text at its end, with every new slot taken from
  the block counter.
\<close>

lemma excess_append [simp]: "excess k (xs @ ys) = excess k xs + excess k ys"
  by (simp add: excess_def saves_def restores_def)

lemma excess_Nil [simp]: "excess k [] = 0"
  by (simp add: excess_def saves_def restores_def)

lemma excess_Cons [simp]:
  "excess k (x # xs) =
     (if x = Stack_save k then 1 else 0) - (if x = Stack_restore k then 1 else 0) + excess k xs"
  by (simp add: excess_def saves_def restores_def)

lemma excess_structural: "k \<noteq> - 1 \<Longrightarrow> excess k (filter structural xs) = excess k xs"
  by (induction xs) auto

lemma kept_labels_kept: "kept a b \<Longrightarrow> k \<noteq> - 1 \<Longrightarrow> labels_kept k a b"
  using excess_structural [of k "io a"] excess_structural [of k "io b"]
  by (simp add: kept_def labels_kept_def)

lemma labels_kept_refl [simp]: "labels_kept k a a"
  by (simp add: labels_kept_def)

lemma labels_kept_trans: "labels_kept k a b \<Longrightarrow> labels_kept k b c \<Longrightarrow> labels_kept k a c"
  by (simp add: labels_kept_def)

lemma check_type_and_branch_fields [simp]:
  "label_break (check_type_and_branch a) = label_break a"
  "label_continue (check_type_and_branch a) = label_continue a"
  "label_true (check_type_and_branch a) = label_true a"
  "label_false (check_type_and_branch a) = label_false a"
  "is_main (check_type_and_branch a) = is_main a"
  "block_num (check_type_and_branch a) = block_num a"
  "excess k (io (check_type_and_branch a)) = excess k (io a)"
  "filter is_ret (io (check_type_and_branch a)) = filter is_ret (io a)"
  by (simp_all add: check_type_and_branch_def to_code_unconditional_branch_def
      to_code_conditional_branch_def uni_printf_def split: answer_t.split)

lemma to_code_return_fields [simp]:
  "label_break (to_code_return sx t a) = label_break a"
  "label_continue (to_code_return sx t a) = label_continue a"
  "label_true (to_code_return sx t a) = label_true a"
  "label_false (to_code_return sx t a) = label_false a"
  "is_main (to_code_return sx t a) = is_main a"
  "block_num (to_code_return sx t a) = block_num a"
  "excess k (io (to_code_return sx t a)) = excess k (io a)"
  by (simp_all add: to_code_return_def uni_printf_def)

lemmas lines = to_code_label_def to_code_unconditional_branch_def uni_printf_def
  to_code_stack_save_def to_code_stack_load_def

lemma emit_substmts_labels_kept:
  assumes "\<And>x info info'. x \<in> set ss \<Longrightarrow> emit_statement sx info x = Some info'
             \<Longrightarrow> labels_kept k info info'"
  shows "emit_substmts sx info ss = Some info' \<Longrightarrow> labels_kept k info info'"
  using assms
proof (induction ss arbitrary: info)
  case Nil
  then show ?case by simp
next
  case (Cons s ss)
  from Cons.prems(1) obtain info1 where
    a: "emit_statement sx info s = Some info1"
    and r: "emit_substmts sx info1 ss = Some info'"
    by (auto split: option.splits)
  have "labels_kept k info info1" using Cons.prems(2) [OF _ a] by simp
  moreover have "labels_kept k info1 info'"
  proof (rule Cons.IH [OF r])
    fix x info info'
    assume "x \<in> set ss" "emit_statement sx info x = Some info'"
    then show "labels_kept k info info'" by (intro Cons.prems(2) [of x]) simp_all
  qed
  ultimately show ?case by (rule labels_kept_trans)
qed

lemma emit_declarators_labels_kept:
  assumes "\<And>x info l info'. x \<in> set ds \<Longrightarrow> emit_declaration sx info x l = Some info'
             \<Longrightarrow> labels_kept k info info'"
  shows "emit_declarators sx info ds = Some info' \<Longrightarrow> labels_kept k info info'"
  using assms
proof (induction ds arbitrary: info)
  case Nil
  then show ?case by simp
next
  case (Cons d ds)
  from Cons.prems(1) obtain info1 where
    a: "emit_declaration sx info d True = Some info1"
    and r: "emit_declarators sx info1 ds = Some info'"
    by (auto split: option.splits)
  have "labels_kept k info info1" using Cons.prems(2) [OF _ a] by simp
  moreover have "labels_kept k info1 info'"
  proof (rule Cons.IH [OF r])
    fix x info l info'
    assume "x \<in> set ds" "emit_declaration sx info x l = Some info'"
    then show "labels_kept k info info'" by (intro Cons.prems(2) [of x]) simp_all
  qed
  ultimately show ?case by (rule labels_kept_trans)
qed

lemma emit_compound_statement_labels_kept:
  assumes "\<And>info info'. emit_substmts sx info ss = Some info' \<Longrightarrow> labels_kept k info info'"
  shows "emit_compound_statement sx info ss b = Some info' \<Longrightarrow> labels_kept k info info'"
  by (auto simp: Let_def lines labels_kept_def split: option.splits if_splits dest!: assms)

declare emit_compound_statement.simps [simp del]

lemma excess_parameters [simp]:
  "excess k (concat (replicate n [Instr Alloca, Instr Store])) = 0"
  by (induction n) simp_all

lemma emit_statement_labels_kept_aux:
  assumes k: "k \<noteq> - 1"
  shows "(\<forall>info info'. emit_statement sx info s = Some info' \<longrightarrow> labels_kept k info info')
      \<and> (\<forall>ss info info'. s = Stmt_compound ss \<longrightarrow> emit_substmts sx info ss = Some info'
            \<longrightarrow> labels_kept k info info')"
    and "\<forall>info l info'. emit_declaration sx info d l = Some info' \<longrightarrow> labels_kept k info info'"
proof (induction s and d)
  case (Stmt_decl ds)
  have "labels_kept k info info'" if "emit_declarators sx info ds = Some info'" for info info'
    using that by (rule emit_declarators_labels_kept [rotated]) (use Stmt_decl in blast)
  then show ?case by simp
next
  case (Stmt_label l s)
  then show ?case by (auto simp: Let_def lines labels_kept_def)
next
  case (Stmt_compound ss)
  have sub: "labels_kept k info info'" if "emit_substmts sx info ss = Some info'" for info info'
    using that by (rule emit_substmts_labels_kept [rotated]) (use Stmt_compound in blast)
  have "labels_kept k info info'" if "emit_compound_statement sx info ss False = Some info'"
    for info info'
    using that by (rule emit_compound_statement_labels_kept [rotated]) (rule sub)
  with sub show ?case by simp
next
  case (Stmt_expr e)
  then show ?case using k by (auto dest: emit_expression_kept intro: kept_labels_kept)
next
  case (Stmt_if c t e)
  have t: "\<And>info info'. emit_statement sx info t = Some info' \<Longrightarrow> labels_kept k info info'"
    using Stmt_if by blast
  have e: "\<And>s info info'. e = Some s \<Longrightarrow> emit_statement sx info s = Some info'
             \<Longrightarrow> labels_kept k info info'"
    using Stmt_if by auto
  have c: "\<And>info info'. emit_expression sx info c = Some info' \<Longrightarrow> labels_kept k info info'"
    using k by (auto dest: emit_expression_kept intro: kept_labels_kept)
  show ?case
    by (cases e) (auto simp: Let_def lines labels_kept_def split: option.splits dest!: t e c)
next
  case (Stmt_while c b)
  have b: "\<And>info info'. emit_statement sx info b = Some info' \<Longrightarrow> labels_kept k info info'"
    using Stmt_while by blast
  have c: "\<And>info info'. emit_expression sx info c = Some info' \<Longrightarrow> labels_kept k info info'"
    using k by (auto dest: emit_expression_kept intro: kept_labels_kept)
  show ?case
    by (auto simp: Let_def lines labels_kept_def split: option.splits dest!: b c)
next
  case (Stmt_do b c)
  have b: "\<And>info info'. emit_statement sx info b = Some info' \<Longrightarrow> labels_kept k info info'"
    using Stmt_do by blast
  have c: "\<And>info info'. emit_expression sx info c = Some info' \<Longrightarrow> labels_kept k info info'"
    using k by (auto dest: emit_expression_kept intro: kept_labels_kept)
  show ?case
    by (auto simp: Let_def lines labels_kept_def split: option.splits dest!: b c)
next
  case (Stmt_for i c n b)
  have b: "\<And>info info'. emit_statement sx info b = Some info' \<Longrightarrow> labels_kept k info info'"
    using Stmt_for by blast
  have i: "\<And>s info info'. i = Some s \<Longrightarrow> emit_statement sx info s = Some info'
             \<Longrightarrow> labels_kept k info info'"
    using Stmt_for by auto
  have c: "\<And>e info info'. emit_expression sx info e = Some info' \<Longrightarrow> labels_kept k info info'"
    using k by (auto dest: emit_expression_kept intro: kept_labels_kept)
  show ?case
    by (cases i; cases c; cases n)
      (auto simp: Let_def lines labels_kept_def split: option.splits dest!: b i c)
next
  case (Stmt_return e)
  have c: "\<And>e info info'. emit_expression sx info e = Some info' \<Longrightarrow> labels_kept k info info'"
    using k by (auto dest: emit_expression_kept intro: kept_labels_kept)
  show ?case using k
    by (cases e) (auto simp: Let_def lines labels_kept_def split: option.splits if_splits dest!: c)
next
  case (Decl_var i bs e)
  then show ?case using k by (auto dest: emit_variable_declaration_kept intro: kept_labels_kept)
next
  case (Decl_func i ps b)
  have b: "\<And>ss info info'. b = Stmt_compound ss \<Longrightarrow> emit_substmts sx info ss = Some info'
             \<Longrightarrow> labels_kept k info info'"
    using Decl_func by blast
  have c: "labels_kept k info info'"
    if "b = Stmt_compound ss" "emit_compound_statement sx info ss True = Some info'"
    for ss info info'
    using that(2) by (rule emit_compound_statement_labels_kept [rotated]) (rule b [OF that(1)])
  show ?case using k
    by (auto simp: Let_def lines labels_kept_def
        split: option.splits if_splits type_t.splits stmt.splits dest!: c)
qed (auto simp: lines labels_kept_def)


lemma emit_substmts_rel:
  assumes "reflp R" and "transp R"
    and "\<And>x info info'. x \<in> set ss \<Longrightarrow> emit_statement sx info x = Some info' \<Longrightarrow> R info info'"
  shows "emit_substmts sx info ss = Some info' \<Longrightarrow> R info info'"
  using assms(3)
proof (induction ss arbitrary: info)
  case Nil
  then show ?case using assms(1) by (simp add: reflpD)
next
  case (Cons s ss)
  from Cons.prems(1) obtain info1 where
    a: "emit_statement sx info s = Some info1"
    and r: "emit_substmts sx info1 ss = Some info'"
    by (auto split: option.splits)
  have "R info info1" using Cons.prems(2) [OF _ a] by simp
  moreover have "R info1 info'"
  proof (rule Cons.IH [OF r])
    fix x info info'
    assume "x \<in> set ss" "emit_statement sx info x = Some info'"
    then show "R info info'" by (intro Cons.prems(2) [of x]) simp_all
  qed
  ultimately show ?case by (rule transpD [OF assms(2)])
qed

lemma emit_declarators_rel:
  assumes "reflp R" and "transp R"
    and "\<And>x info l info'. x \<in> set ds \<Longrightarrow> emit_declaration sx info x l = Some info'
           \<Longrightarrow> R info info'"
  shows "emit_declarators sx info ds = Some info' \<Longrightarrow> R info info'"
  using assms(3)
proof (induction ds arbitrary: info)
  case Nil
  then show ?case using assms(1) by (simp add: reflpD)
next
  case (Cons d ds)
  from Cons.prems(1) obtain info1 where
    a: "emit_declaration sx info d True = Some info1"
    and r: "emit_declarators sx info1 ds = Some info'"
    by (auto split: option.splits)
  have "R info info1" using Cons.prems(2) [OF _ a] by simp
  moreover have "R info1 info'"
  proof (rule Cons.IH [OF r])
    fix x info l info'
    assume "x \<in> set ds" "emit_declaration sx info x l = Some info'"
    then show "R info info'" by (intro Cons.prems(2) [of x]) simp_all
  qed
  ultimately show ?case by (rule transpD [OF assms(2)])
qed

lemma no_definitions_set: "no_definitions ss \<Longrightarrow> x \<in> set ss \<Longrightarrow> no_definition x"
  by (induction ss) auto

lemma no_definition_decls_set: "no_definition_decls ds \<Longrightarrow> x \<in> set ds \<Longrightarrow> no_definition_decl x"
  by (induction ds) auto

lemma filter_is_ret_structural: "filter is_ret (filter structural xs) = filter is_ret xs"
proof (induction xs)
  case Nil
  then show ?case by simp
next
  case (Cons x xs)
  then show ?case by (cases x) simp_all
qed

lemma kept_main_kept: "kept a b \<Longrightarrow> main_kept a b"
  using filter_is_ret_structural [of "io a"] filter_is_ret_structural [of "io b"]
  by (simp add: kept_def main_kept_def)

lemma main_kept_refl: "reflp main_kept"
  by (simp add: reflp_def main_kept_def)

lemma main_kept_trans: "transp main_kept"
  by (simp add: transp_def main_kept_def)

lemma emit_compound_statement_main_kept:
  assumes "\<And>info info'. emit_substmts sx info ss = Some info' \<Longrightarrow> main_kept info info'"
  shows "emit_compound_statement sx info ss b = Some info' \<Longrightarrow> main_kept info info'"
  by (auto simp: emit_compound_statement.simps Let_def lines main_kept_def
      split: option.splits if_splits dest!: assms)

lemma emit_statement_main_kept_aux:
  shows "no_definition s \<longrightarrow>
         (\<forall>info info'. emit_statement sx info s = Some info' \<longrightarrow> main_kept info info')
      \<and> (\<forall>ss info info'. s = Stmt_compound ss \<longrightarrow> emit_substmts sx info ss = Some info'
            \<longrightarrow> main_kept info info')"
    and "no_definition_decl d \<longrightarrow>
         (\<forall>info l info'. emit_declaration sx info d l = Some info' \<longrightarrow> main_kept info info')"
proof (induction s and d)
  case (Stmt_decl ds)
  show ?case
  proof
    assume nd: "no_definition (Stmt_decl ds)"
    have "main_kept info info'" if "emit_declarators sx info ds = Some info'" for info info'
      using that
    proof (rule emit_declarators_rel [OF main_kept_refl main_kept_trans, rotated])
      fix x info l info'
      assume "x \<in> set ds" "emit_declaration sx info x l = Some info'"
      then show "main_kept info info'"
        using Stmt_decl [of x] nd no_definition_decls_set [of ds x] by auto
    qed
    then show "(\<forall>info info'. emit_statement sx info (Stmt_decl ds) = Some info'
                  \<longrightarrow> main_kept info info')
      \<and> (\<forall>ss info info'. Stmt_decl ds = Stmt_compound ss \<longrightarrow> emit_substmts sx info ss = Some info'
            \<longrightarrow> main_kept info info')" by simp
  qed
next
  case (Stmt_label l s)
  then show ?case by (auto simp: Let_def lines main_kept_def)
next
  case (Stmt_compound ss)
  show ?case
  proof
    assume nd: "no_definition (Stmt_compound ss)"
    have sub: "main_kept info info'" if "emit_substmts sx info ss = Some info'" for info info'
      using that
    proof (rule emit_substmts_rel [OF main_kept_refl main_kept_trans, rotated])
      fix x info info'
      assume "x \<in> set ss" "emit_statement sx info x = Some info'"
      then show "main_kept info info'"
        using Stmt_compound [of x] nd no_definitions_set [of ss x] by auto
    qed
    have "main_kept info info'" if "emit_compound_statement sx info ss False = Some info'"
      for info info'
      using that by (rule emit_compound_statement_main_kept [rotated]) (rule sub)
    with sub show "(\<forall>info info'. emit_statement sx info (Stmt_compound ss) = Some info'
                  \<longrightarrow> main_kept info info')
      \<and> (\<forall>ssa info info'. Stmt_compound ss = Stmt_compound ssa
            \<longrightarrow> emit_substmts sx info ssa = Some info' \<longrightarrow> main_kept info info')" by simp
  qed
next
  case (Stmt_expr e)
  then show ?case by (auto dest: emit_expression_kept intro: kept_main_kept)
next
  case (Stmt_if c t e)
  show ?case
  proof
    assume nd: "no_definition (Stmt_if c t e)"
    have t: "\<And>info info'. emit_statement sx info t = Some info' \<Longrightarrow> main_kept info info'"
      using Stmt_if nd by simp
    have e: "\<And>s info info'. e = Some s \<Longrightarrow> emit_statement sx info s = Some info'
               \<Longrightarrow> main_kept info info'"
      using Stmt_if nd by auto
    have c: "\<And>info info'. emit_expression sx info c = Some info' \<Longrightarrow> main_kept info info'"
      by (auto dest: emit_expression_kept intro: kept_main_kept)
    show "(\<forall>info info'. emit_statement sx info (Stmt_if c t e) = Some info'
                  \<longrightarrow> main_kept info info')
      \<and> (\<forall>ss info info'. Stmt_if c t e = Stmt_compound ss \<longrightarrow> emit_substmts sx info ss = Some info'
            \<longrightarrow> main_kept info info')"
      by (cases e) (auto simp: Let_def lines main_kept_def split: option.splits dest!: t e c)
  qed
next
  case (Stmt_while c b)
  show ?case
  proof
    assume nd: "no_definition (Stmt_while c b)"
    have b: "\<And>info info'. emit_statement sx info b = Some info' \<Longrightarrow> main_kept info info'"
      using Stmt_while nd by simp
    have c: "\<And>info info'. emit_expression sx info c = Some info' \<Longrightarrow> main_kept info info'"
      by (auto dest: emit_expression_kept intro: kept_main_kept)
    show "(\<forall>info info'. emit_statement sx info (Stmt_while c b) = Some info'
                  \<longrightarrow> main_kept info info')
      \<and> (\<forall>ss info info'. Stmt_while c b = Stmt_compound ss \<longrightarrow> emit_substmts sx info ss = Some info'
            \<longrightarrow> main_kept info info')"
      by (auto simp: Let_def lines main_kept_def split: option.splits dest!: b c)
  qed
next
  case (Stmt_do b c)
  show ?case
  proof
    assume nd: "no_definition (Stmt_do b c)"
    have b: "\<And>info info'. emit_statement sx info b = Some info' \<Longrightarrow> main_kept info info'"
      using Stmt_do nd by simp
    have c: "\<And>info info'. emit_expression sx info c = Some info' \<Longrightarrow> main_kept info info'"
      by (auto dest: emit_expression_kept intro: kept_main_kept)
    show "(\<forall>info info'. emit_statement sx info (Stmt_do b c) = Some info'
                  \<longrightarrow> main_kept info info')
      \<and> (\<forall>ss info info'. Stmt_do b c = Stmt_compound ss \<longrightarrow> emit_substmts sx info ss = Some info'
            \<longrightarrow> main_kept info info')"
      by (auto simp: Let_def lines main_kept_def split: option.splits dest!: b c)
  qed
next
  case (Stmt_for i c n b)
  show ?case
  proof
    assume nd: "no_definition (Stmt_for i c n b)"
    have b: "\<And>info info'. emit_statement sx info b = Some info' \<Longrightarrow> main_kept info info'"
      using Stmt_for nd by simp
    have i: "\<And>s info info'. i = Some s \<Longrightarrow> emit_statement sx info s = Some info'
               \<Longrightarrow> main_kept info info'"
      using Stmt_for nd by auto
    have c: "\<And>e info info'. emit_expression sx info e = Some info' \<Longrightarrow> main_kept info info'"
      by (auto dest: emit_expression_kept intro: kept_main_kept)
    show "(\<forall>info info'. emit_statement sx info (Stmt_for i c n b) = Some info'
                  \<longrightarrow> main_kept info info')
      \<and> (\<forall>ss info info'. Stmt_for i c n b = Stmt_compound ss \<longrightarrow> emit_substmts sx info ss = Some info'
            \<longrightarrow> main_kept info info')"
      by (cases i; cases c; cases n)
        (auto simp: Let_def lines main_kept_def split: option.splits dest!: b i c)
  qed
next
  case (Stmt_return e)
  show ?case
    by (cases e) (auto simp: Let_def lines main_kept_def split: option.splits if_splits)
next
  case (Decl_var i bs e)
  then show ?case by (auto dest: emit_variable_declaration_kept intro: kept_main_kept)
qed (auto simp: lines main_kept_def)

lemma emit_substmts_main_kept:
  "emit_substmts sx info ss = Some info' \<Longrightarrow> no_definitions ss \<Longrightarrow> main_kept info info'"
  using emit_statement_main_kept_aux(1) [of "Stmt_compound ss" sx] by simp

lemma emit_compound_statement_after:
  assumes "\<And>info info'. emit_substmts sx info ss = Some info' \<Longrightarrow> emitted_after xs lo info \<longrightarrow> emitted_after xs lo info'"
  shows "emit_compound_statement sx info ss b = Some info' \<Longrightarrow> emitted_after xs lo info \<longrightarrow> emitted_after xs lo info'"
  by (auto simp: emit_compound_statement.simps Let_def emitted_after_save emitted_after_block
      split: option.splits if_splits dest!: assms
      intro: emitted_after_load emitted_after_bound)

lemma emit_statement_after_aux:
  shows "(\<forall>info info'. emit_statement sx info s = Some info' \<longrightarrow> emitted_after xs lo info \<longrightarrow> emitted_after xs lo info')
      \<and> (\<forall>ss info info'. s = Stmt_compound ss \<longrightarrow> emit_substmts sx info ss = Some info'
            \<longrightarrow> emitted_after xs lo info \<longrightarrow> emitted_after xs lo info')"
    and "\<forall>info l info'. emit_declaration sx info d l = Some info' \<longrightarrow> emitted_after xs lo info \<longrightarrow> emitted_after xs lo info'"
proof (induction s and d)
  case (Stmt_decl ds)
  have "emitted_after xs lo info \<longrightarrow> emitted_after xs lo info'" if "emit_declarators sx info ds = Some info'" for info info'
    using that by (rule emit_declarators_rel [OF after_reflp after_transp, rotated]) (use Stmt_decl in blast)
  then show ?case by simp
next
  case (Stmt_label l s)
  then show ?case by (auto simp: Let_def)
next
  case (Stmt_compound ss)
  have sub: "emitted_after xs lo info \<longrightarrow> emitted_after xs lo info'" if "emit_substmts sx info ss = Some info'" for info info'
    using that by (rule emit_substmts_rel [OF after_reflp after_transp, rotated]) (use Stmt_compound in blast)
  have "emitted_after xs lo info \<longrightarrow> emitted_after xs lo info'" if "emit_compound_statement sx info ss False = Some info'"
    for info info'
    using that by (rule emit_compound_statement_after [rotated]) (rule sub)
  with sub show ?case by simp
next
  case (Stmt_expr e)
  show ?case using emit_expression_after' [where xs = xs and lo = lo] by auto
next
  case (Stmt_if c t e)
  have t: "\<And>info info'. emit_statement sx info t = Some info' \<Longrightarrow> emitted_after xs lo info \<longrightarrow> emitted_after xs lo info'"
    using Stmt_if by blast
  have e: "\<And>s info info'. e = Some s \<Longrightarrow> emit_statement sx info s = Some info'
             \<Longrightarrow> emitted_after xs lo info \<longrightarrow> emitted_after xs lo info'"
    using Stmt_if by auto
  have c: "\<And>info info'. emit_expression sx info c = Some info' \<Longrightarrow> emitted_after xs lo info \<longrightarrow> emitted_after xs lo info'"
    by (rule emit_expression_after')
  show ?case
    by (cases e) (auto simp: Let_def split: option.splits dest!: t e c)
next
  case (Stmt_while c b)
  have b: "\<And>info info'. emit_statement sx info b = Some info' \<Longrightarrow> emitted_after xs lo info \<longrightarrow> emitted_after xs lo info'"
    using Stmt_while by blast
  have c: "\<And>info info'. emit_expression sx info c = Some info' \<Longrightarrow> emitted_after xs lo info \<longrightarrow> emitted_after xs lo info'"
    by (rule emit_expression_after')
  show ?case
    by (auto simp: Let_def split: option.splits dest!: b c)
next
  case (Stmt_do b c)
  have b: "\<And>info info'. emit_statement sx info b = Some info' \<Longrightarrow> emitted_after xs lo info \<longrightarrow> emitted_after xs lo info'"
    using Stmt_do by blast
  have c: "\<And>info info'. emit_expression sx info c = Some info' \<Longrightarrow> emitted_after xs lo info \<longrightarrow> emitted_after xs lo info'"
    by (rule emit_expression_after')
  show ?case
    by (auto simp: Let_def split: option.splits dest!: b c)
next
  case (Stmt_for i c n b)
  have b: "\<And>info info'. emit_statement sx info b = Some info' \<Longrightarrow> emitted_after xs lo info \<longrightarrow> emitted_after xs lo info'"
    using Stmt_for by blast
  have i: "\<And>s info info'. i = Some s \<Longrightarrow> emit_statement sx info s = Some info'
             \<Longrightarrow> emitted_after xs lo info \<longrightarrow> emitted_after xs lo info'"
    using Stmt_for by auto
  have c: "\<And>e info info'. emit_expression sx info e = Some info' \<Longrightarrow> emitted_after xs lo info \<longrightarrow> emitted_after xs lo info'"
    by (rule emit_expression_after')
  show ?case
    by (cases i; cases c; cases n)
      (auto simp: Let_def split: option.splits dest!: b i c)
next
  case (Stmt_return e)
  have c: "\<And>e info info'. emit_expression sx info e = Some info' \<Longrightarrow> emitted_after xs lo info \<longrightarrow> emitted_after xs lo info'"
    by (rule emit_expression_after')
  show ?case
    by (cases e) (auto simp: Let_def split: option.splits if_splits dest!: c)
next
  case (Decl_var i bs e)
  show ?case using emit_variable_declaration_after [where xs = xs and lo = lo] by auto
next
  case (Decl_func i ps b)
  have b: "\<And>ss info info'. b = Stmt_compound ss \<Longrightarrow> emit_substmts sx info ss = Some info'
             \<Longrightarrow> emitted_after xs lo info \<longrightarrow> emitted_after xs lo info'"
    using Decl_func by blast
  have c: "emitted_after xs lo info \<longrightarrow> emitted_after xs lo info'"
    if "b = Stmt_compound ss" "emit_compound_statement sx info ss True = Some info'"
    for ss info info'
    using that(2) by (rule emit_compound_statement_after [rotated]) (rule b [OF that(1)])
  show ?case
    by (auto simp: Let_def
        split: option.splits if_splits type_t.splits stmt.splits dest!: c)
qed auto


lemma emit_statement_after:
  "emit_statement sx info s = Some info' \<Longrightarrow> emitted_after xs lo info
     \<Longrightarrow> emitted_after xs lo info'"
  using emit_statement_after_aux(1) by blast

lemma emit_substmts_after:
  "emit_substmts sx info ss = Some info' \<Longrightarrow> emitted_after xs lo info
     \<Longrightarrow> emitted_after xs lo info'"
  using emit_statement_after_aux(1) [of sx "Stmt_compound ss"] by blast

section \<open>The emitted text of statements\<close>

lemmas printed = to_code_unconditional_branch_def to_code_label_def uni_printf_def
  to_code_stack_save_def to_code_stack_load_def check_type_and_branch_def
  to_code_conditional_branch_def emit_literal_expression_def emit_compound_statement.simps


subsection \<open>Labels of the user\<close>

text \<open>
  C7. \<^verbatim>\<open>emit_labeled_statement\<close> places the label numbered with the negation of the
  user's label, after a branch to it, but the branch that \<^verbatim>\<open>emit_statement\<close> prints for
  a \<open>goto\<close> names the user's label itself, not its negation.
\<close>

theorem emit_goto_statement_label:
  "map_option io (emit_statement sx info (Stmt_goto l)) = Some (io info @ [Br (int l)])
   \<and> map_option io (emit_statement sx info (Stmt_label l Stmt_null)) =
       Some (io info @ [Br (- int l), Label (- int l)])"
  by (simp add: to_code_unconditional_branch_def to_code_label_def uni_printf_def Let_def)

theorem emit_goto_statement_label_witness:
  "map_option io (emit_statement example_syntax example_information (Stmt_goto 2)) = Some [Br 2]
   \<and> map_option io (emit_statement example_syntax example_information (Stmt_label 2 Stmt_null)) =
       Some [Br (- 2), Label (- 2)]"
  using emit_goto_statement_label [of example_syntax example_information 2]
  by (simp add: example_information_def information_create_def)

text \<open>
  In the text of a block with the statement labeled 2 and a \<open>goto\<close> to it, the label
  that the \<open>goto\<close> names is placed nowhere.
\<close>

lemma emit_goto_statement_unplaced:
  "map_option io (emit_statement example_syntax example_information
     (Stmt_compound [Stmt_label 2 Stmt_null, Stmt_goto 2])) =
     Some [Stack_save 1, Br (- 2), Label (- 2), Br 2, Stack_restore 1]
   \<and> find_label 2 [Stack_save 1, Br (- 2), Label (- 2), Br 2, Stack_restore 1] = None"
  by (simp add: example_information_def information_create_def printed)

subsection \<open>The label of continue in a for statement\<close>

text \<open>
  C3. Inside the body of a \<open>for\<close> statement, \<open>continue\<close> is a branch to the label of
  the body: the text of a \<open>for\<close> statement whose body is \<open>continue\<close> ends with the
  branch to the condition, the label of the body (the second label of the statement),
  the branch of \<open>continue\<close> to that same label, the branch to the increment (the third
  label) and the label of the end. The branch of \<open>continue\<close> does not go to the
  increment.
\<close>

theorem emit_for_statement_continue:
  assumes "emit_statement sx info (Stmt_for None condition increment Stmt_continue) = Some info'"
  shows "\<exists>text. io info' = text @ [Br (label_num info), Label (label_num info + 1),
           Br (label_num info + 1), Br (label_num info + 2), Label (label_num info + 3)]"
proof -
  define info0 where "info0 = info\<lparr>label_num := label_num info + 4,
    label_true := label_num info + 1, label_false := label_num info + 3,
    label_break := label_num info + 3, label_continue := label_num info + 1\<rparr>"
  define start where "start = to_code_label (label_num info)
    (to_code_unconditional_branch (label_num info) info0)"
  from assms obtain info2 info3 where
    c: "(case condition of None \<Rightarrow> Some start | Some e \<Rightarrow> emit_expression sx start e) = Some info2"
    and i: "(case increment of
               None \<Rightarrow> Some (to_code_label (label_num info + 2) (check_type_and_branch info2))
             | Some e \<Rightarrow> emit_expression sx
                 (to_code_label (label_num info + 2) (check_type_and_branch info2)) e) = Some info3"
    and r: "io info' = io info3 @ [Br (label_num info), Label (label_num info + 1),
              Br (label_continue info3), Br (label_num info + 2), Label (label_num info + 3)]"
    unfolding info0_def start_def
    by (auto simp: Let_def to_code_unconditional_branch_def to_code_label_def uni_printf_def
        split: option.splits)
  have "kept info0 info2"
    using c unfolding start_def by (cases condition) (auto dest: emit_expression_kept)
  moreover have "kept info2 info3"
    using i by (cases increment) (auto dest: emit_expression_kept)
  ultimately have "label_continue info3 = label_num info + 1"
    by (simp add: kept_def info0_def)
  with r show ?thesis by simp
qed

theorem emit_for_statement_continue_witness:
  "map_option io (emit_statement example_syntax example_information
     (Stmt_for None (Some (Literal TYPE_INTEGER 1)) None Stmt_continue)) =
     Some [Br 1, Label 1, Br 2, Label 3, Br 1, Label 2, Br 2, Br 3, Label 4]"
  using emit_for_statement_continue [of example_syntax example_information
      "Some (Literal TYPE_INTEGER 1)" None]
  by (simp add: example_information_def information_create_def printed example_syntax_def)

subsection \<open>The label registers across a statement\<close>




subsection \<open>Returns in main\<close>

text \<open>
  Inside \<^verbatim>\<open>main\<close> a return statement prints no return and does not emit its
  expression.
\<close>

lemma emit_return_statement_main:
  "is_main info \<Longrightarrow>
   emit_statement sx info (Stmt_return e) =
     Some (if was_dynamic info then to_code_stack_load (- 1) info else info)"
  by (simp add: Let_def to_code_stack_load_def uni_printf_def)

text \<open>
  C6. The text of the definition of \<^verbatim>\<open>main\<close> is the head of the definition, a text
  without any return, the line \<^verbatim>\<open>ret i32 0\<close> and the end of the definition: no
  return statement of the body prints a return, whatever its expression, and the body
  ends with \<^verbatim>\<open>ret i32 0\<close>. The body contains no function definition.
\<close>

theorem emit_function_definition_main:
  assumes "emit_declaration sx info (Decl_func (ref_main sx) params body) is_local = Some info'"
    and "no_definition body"
  shows "\<exists>text. io info' = io info @ Define (ref_main sx) # text @ [Ret_i32 0, End_define]
           \<and> filter is_ret text = []"
proof -
  from assms(1) obtain return_type parameter_types ss info3 where
    b: "body = Stmt_compound ss"
    and c: "emit_compound_statement sx
              ((uni_printf (Define (ref_main sx)) (info\<lparr>was_dynamic := False\<rparr>))
                 \<lparr>is_main := True,
                  io := io (uni_printf (Define (ref_main sx)) (info\<lparr>was_dynamic := False\<rparr>))
                    @ concat (replicate (length (parameter_types :: type_t list))
                        [Instr Alloca, Instr Store])\<rparr>) ss True = Some info3"
    and r: "info' = uni_printf End_define ((uni_printf (Ret_i32 0) info3)\<lparr>is_main := False\<rparr>)"
    by (auto simp: Let_def split: option.splits type_t.splits stmt.splits)
  define ps where "ps = concat (replicate (length parameter_types) [Instr Alloca, Instr Store])"
  define info2 where "info2 =
    (uni_printf (Define (ref_main sx)) (info\<lparr>was_dynamic := False\<rparr>))
      \<lparr>is_main := True,
       io := io (uni_printf (Define (ref_main sx)) (info\<lparr>was_dynamic := False\<rparr>)) @ ps,
       block_num := block_num info + 1\<rparr>"
  have s: "emit_substmts sx info2 ss = Some info3"
    using c by (auto simp: emit_compound_statement.simps Let_def info2_def ps_def uni_printf_def
        split: option.splits)
  have i2: "io info2 = io info @ Define (ref_main sx) # ps" and m2: "is_main info2"
    by (simp_all add: info2_def uni_printf_def)
  have p: "filter is_ret ps = []"
    unfolding ps_def by (induction "length parameter_types") simp_all
  have "emitted_after (io info2) (block_num info2) info2"
    by (simp add: emitted_after_def)
  with s have "emitted_after (io info2) (block_num info2) info3"
    by (rule emit_substmts_after)
  then obtain zs where z: "io info3 = io info2 @ zs"
    by (auto simp: emitted_after_def prefix_def)
  have "main_kept info2 info3"
    using s assms(2) b by (simp add: emit_substmts_main_kept)
  with m2 z have "filter is_ret zs = []"
    by (simp add: main_kept_def)
  with p have "filter is_ret (ps @ zs) = []" by simp
  moreover have "io info' = io info @ Define (ref_main sx) # (ps @ zs) @ [Ret_i32 0, End_define]"
    by (simp add: r z i2 uni_printf_def)
  ultimately show ?thesis by blast
qed

theorem emit_function_definition_main_witness:
  "map_option io (emit_declaration example_functions example_information
     (Decl_func 0 [] (Stmt_compound [Stmt_return (Some (Literal TYPE_INTEGER 7))])) False) =
     Some [Define 0, Ret_i32 0, End_define]"
  using emit_function_definition_main [of example_functions example_information "[]"
      "Stmt_compound [Stmt_return (Some (Literal TYPE_INTEGER 7))]" False]
  by (simp add: example_functions_def example_syntax_def example_information_def
      information_create_def printed Let_def)

subsection \<open>The stack of a block\<close>

text \<open>
  The text of a block that is not the body of a function, emitted when the block
  counter is not negative (it starts at 1), is the save of the slot numbered with the
  block counter, the text of the statements of the block, and the restore of that slot.
  The slot is fresh: the statements of the block neither save nor restore it. In the
  text of the statements every slot of a block is saved as often as it is restored.
\<close>

lemma emit_compound_statement_brackets:
  assumes "emit_statement sx info (Stmt_compound ss) = Some info'" and "0 \<le> block_num info"
  shows "\<exists>body. io info' =
             io info @ Stack_save (block_num info) # body @ [Stack_restore (block_num info)]
           \<and> Stack_save (block_num info) \<notin> set body
           \<and> Stack_restore (block_num info) \<notin> set body
           \<and> (\<forall>k. k \<noteq> - 1 \<longrightarrow> saves k body = restores k body)"
proof -
  define info1 where
    "info1 = to_code_stack_save (block_num info) (info\<lparr>block_num := block_num info + 1\<rparr>)"
  from assms(1) obtain info2 where
    s: "emit_substmts sx info1 ss = Some info2"
    and r: "info' = to_code_stack_load (block_num info) info2"
    by (auto simp: emit_compound_statement.simps Let_def info1_def split: option.splits)
  have i1: "io info1 = io info @ [Stack_save (block_num info)]"
    and b1: "block_num info1 = block_num info + 1"
    by (simp_all add: info1_def to_code_stack_save_def uni_printf_def)
  have "emitted_after (io info1) (block_num info + 1) info1"
    by (simp add: emitted_after_def b1)
  with s have a: "emitted_after (io info1) (block_num info + 1) info2"
    by (rule emit_substmts_after)
  then obtain body where z: "io info2 = io info1 @ body"
    by (auto simp: emitted_after_def prefix_def)
  from a z have all: "list_all (slot_from (block_num info + 1)) body"
    by (simp add: emitted_after_def)
  have f1: "Stack_save (block_num info) \<notin> set body"
  proof
    assume "Stack_save (block_num info) \<in> set body"
    with all have "slot_from (block_num info + 1) (Stack_save (block_num info))"
      by (auto simp: list_all_iff)
    with assms(2) show False by simp
  qed
  have f2: "Stack_restore (block_num info) \<notin> set body"
  proof
    assume "Stack_restore (block_num info) \<in> set body"
    with all have "slot_from (block_num info + 1) (Stack_restore (block_num info))"
      by (auto simp: list_all_iff)
    with assms(2) show False by simp
  qed
  have bal: "saves k body = restores k body" if "k \<noteq> - 1" for k
  proof -
    have "labels_kept k info1 info2"
      using emit_statement_labels_kept_aux(1) [OF that, of sx "Stmt_compound ss"] s by blast
    then have "excess k (io info2) = excess k (io info1)"
      by (simp add: labels_kept_def)
    then have "excess k body = 0" by (simp add: z)
    then show ?thesis by (simp add: excess_def)
  qed
  have "io info' =
          io info @ Stack_save (block_num info) # body @ [Stack_restore (block_num info)]"
    by (simp add: r z i1 to_code_stack_load_def uni_printf_def)
  with f1 f2 bal show ?thesis by blast
qed

text \<open>
  C1. The branch of a \<open>break\<close> or a \<open>continue\<close> inside a block is printed between
  the save and the restore of the slot of the block, with no restore before it: the
  path that leaves the block through the branch saves the slot and never restores it.
\<close>

theorem emit_compound_statement_exits:
  "map_option io (emit_statement sx info (Stmt_compound [Stmt_break])) =
     Some (io info @ [Stack_save (block_num info), Br (label_break info),
                      Stack_restore (block_num info)])
   \<and> map_option io (emit_statement sx info (Stmt_compound [Stmt_continue])) =
     Some (io info @ [Stack_save (block_num info), Br (label_continue info),
                      Stack_restore (block_num info)])"
  by (simp add: printed Let_def)

theorem emit_compound_statement_exits_witness:
  "map_option io (emit_statement example_syntax example_information
     (Stmt_compound [Stmt_break])) = Some [Stack_save 1, Br 0, Stack_restore 1]
   \<and> map_option io (emit_statement example_syntax example_information
     (Stmt_compound [Stmt_continue])) = Some [Stack_save 1, Br 0, Stack_restore 1]"
  using emit_compound_statement_exits [of example_syntax example_information]
  by (simp add: example_information_def information_create_def)

text \<open>
  The text of \<^verbatim>\<open>while (1) { break; }\<close> and the path of control through it from
  its first line: the slot of the block is saved on the path, the restore is not on it.
\<close>

lemma emit_compound_statement_path:
  "map_option io (emit_statement example_syntax example_information
     (Stmt_while (Literal TYPE_INTEGER 1) (Stmt_compound [Stmt_break]))) =
     Some [Br 1, Label 1, Br 2, Label 2, Stack_save 1, Br 3, Stack_restore 1, Br 1, Label 3]
   \<and> path_from 20 [Br 1, Label 1, Br 2, Label 2, Stack_save 1, Br 3, Stack_restore 1, Br 1, Label 3] 0
       = [Br 1, Label 1, Br 2, Label 2, Stack_save 1, Br 3, Label 3]"
  by (simp add: example_information_def information_create_def printed example_syntax_def
      eval_nat_numeral)

end
